theory Spec2Isabelle
  imports Complex_Main "HOL-Library.Log_Nat"
begin

section \<open>Python values\<close>

text \<open>
  The script \<^verbatim>\<open>system_info_detection.py\<close> is dynamically typed; its values are embedded
  in one datatype. A \<^verbatim>\<open>str\<close> is a list of code points below 256 (the HOL type \<open>char\<close>):
  the texts of this model are those of Latin-1, which is enough for a name that the
  encoding of a report file lacks.
  A \<^verbatim>\<open>dict\<close> is an association list in insertion order, as CPython iterates it; its keys
  are strings or integers, the only keys the script ever stores. A \<^verbatim>\<open>float\<close> is the
  rational number the IEEE 754 double denotes, with negative zero apart; infinities and
  NaN are not values of this model, since no operation of the script produces them
  (true division and \<^verbatim>\<open>round\<close> raise \<^verbatim>\<open>OverflowError\<close> instead).
\<close>

datatype pyfloat = NegZero | Fin rat

datatype pykey = KStr string | KInt int

datatype pyval =
    PNone
  | PBool bool
  | PInt int
  | PFloat pyfloat
  | PStr string
  | PTuple "pyval list"
  | PList "pyval list"
  | PDict "(pykey \<times> pyval) list"

text \<open>
  An exception is the name of its class (\<^verbatim>\<open>type(e).__name__\<close>) and its message
  (\<^verbatim>\<open>str(e)\<close>). Only subclasses of \<^verbatim>\<open>Exception\<close> are modelled: they are what
  \<^verbatim>\<open>log_errors\<close> catches.
\<close>

datatype exn = Exn (exn_type: string) (exn_str: string)

subsection \<open>Strings\<close>

definition digit_char :: "nat \<Rightarrow> char" where
  "digit_char d = ''0123456789abcdef'' ! d"

fun str_nat :: "nat \<Rightarrow> string" where
  "str_nat n = (if n < 10 then [digit_char n] else str_nat (n div 10) @ [digit_char (n mod 10)])"

definition str_int :: "int \<Rightarrow> string" where
  "str_int i = (if i < 0 then CHR ''-'' # str_nat (nat (- i)) else str_nat (nat i))"

definition pad2 :: "nat \<Rightarrow> string" where
  "pad2 n = (if n < 10 then CHR ''0'' # str_nat n else str_nat n)"

definition pad4 :: "nat \<Rightarrow> string" where
  "pad4 n = replicate (4 - length (str_nat n)) CHR ''0'' @ str_nat n"

text \<open>
  \<^verbatim>\<open>str.lower()\<close> on code points below 256: the letters A-Z and the capital
  letters of Latin-1 have a lower-case form, 32 code points up.
\<close>

definition uppercase :: string where
  "uppercase = ''ABCDEFGHIJKLMNOPQRSTUVWXYZ'' @
     [CHR 0xC0, CHR 0xC1, CHR 0xC2, CHR 0xC3, CHR 0xC4, CHR 0xC5, CHR 0xC6, CHR 0xC7, CHR 0xC8, CHR 0xC9,
      CHR 0xCA, CHR 0xCB, CHR 0xCC, CHR 0xCD, CHR 0xCE, CHR 0xCF, CHR 0xD0, CHR 0xD1, CHR 0xD2, CHR 0xD3,
      CHR 0xD4, CHR 0xD5, CHR 0xD6, CHR 0xD8, CHR 0xD9, CHR 0xDA, CHR 0xDB, CHR 0xDC, CHR 0xDD, CHR 0xDE]"

definition lowercase :: string where
  "lowercase = ''abcdefghijklmnopqrstuvwxyz'' @
     [CHR 0xE0, CHR 0xE1, CHR 0xE2, CHR 0xE3, CHR 0xE4, CHR 0xE5, CHR 0xE6, CHR 0xE7, CHR 0xE8, CHR 0xE9,
      CHR 0xEA, CHR 0xEB, CHR 0xEC, CHR 0xED, CHR 0xEE, CHR 0xEF, CHR 0xF0, CHR 0xF1, CHR 0xF2, CHR 0xF3,
      CHR 0xF4, CHR 0xF5, CHR 0xF6, CHR 0xF8, CHR 0xF9, CHR 0xFA, CHR 0xFB, CHR 0xFC, CHR 0xFD, CHR 0xFE]"

definition lower_char :: "char \<Rightarrow> char" where
  "lower_char c = (case map_of (zip uppercase lowercase) c of None \<Rightarrow> c | Some l \<Rightarrow> l)"

definition py_lower :: "string \<Rightarrow> string" where
  "py_lower s = map lower_char s"

text \<open>\<^verbatim>\<open>s.replace('_', ' ')\<close>.\<close>

definition replace_underscore :: "string \<Rightarrow> string" where
  "replace_underscore s = map (\<lambda>c. if c = CHR ''_'' then CHR '' '' else c) s"

fun join :: "string \<Rightarrow> string list \<Rightarrow> string" where
  "join sep [] = []"
| "join sep [x] = x"
| "join sep (x # y # ys) = x @ sep @ join sep (y # ys)"

text \<open>\<^verbatim>\<open>repr\<close> of a \<^verbatim>\<open>str\<close>: single quotes unless the string has a single and no double
  quote; backslash, the quote and the non-printable code points escaped.\<close>

definition printable :: "char \<Rightarrow> bool" where
  "printable c =
     (let n = (of_char c :: nat)
      in (32 \<le> n \<and> n < 127) \<or> (160 < n \<and> n \<noteq> 173))"

definition escape_char :: "char \<Rightarrow> char \<Rightarrow> string" where
  "escape_char quote c =
     (if c = quote \<or> c = CHR 0x5C then [CHR 0x5C, c]
      else if c = CHR 0x09 then [CHR 0x5C, CHR ''t'']
      else if c = CHR 0x0A then [CHR 0x5C, CHR ''n'']
      else if c = CHR 0x0D then [CHR 0x5C, CHR ''r'']
      else if printable c then [c]
      else [CHR 0x5C, CHR ''x'', digit_char (of_char c div 16), digit_char (of_char c mod 16)])"

definition str_repr :: "string \<Rightarrow> string" where
  "str_repr s =
     (let quote = (if CHR 0x27 \<in> set s \<and> CHR 0x22 \<notin> set s then CHR 0x22 else CHR 0x27)
      in quote # concat (map (escape_char quote) s) @ [quote])"

subsection \<open>Floats\<close>

text \<open>
  Rounding a rational to the nearest double, ties to even: 53 significant bits, and
  the fixed exponent \<open>-1074\<close> below the normal range. \<open>ilog2 q\<close> is \<open>\<lfloor>log\<^sub>2 \<bar>q\<bar>\<rfloor>\<close>.
\<close>

definition round_half_even :: "rat \<Rightarrow> int" where
  "round_half_even x =
     (let f = \<lfloor>x\<rfloor>; r = x - of_int f
      in if r < 1 / 2 then f else if 1 / 2 < r then f + 1 else if even f then f else f + 1)"

definition ilog2 :: "rat \<Rightarrow> int" where
  "ilog2 q =
     (let (a, b) = quotient_of \<bar>q\<bar>; d = bitlen a - bitlen b
      in if 2 powi d \<le> \<bar>q\<bar> then d else d - 1)"

definition to_double :: "rat \<Rightarrow> rat" where
  "to_double q =
     (if q = 0 then 0
      else let p = max (ilog2 q - 52) (- 1074)
           in of_int (round_half_even (q / 2 powi p)) * 2 powi p)"

text \<open>A rounded value at or beyond \<open>2\<^sup>1\<^sup>0\<^sup>2\<^sup>4\<close> is no finite double.\<close>

definition overflows :: "rat \<Rightarrow> bool" where
  "overflows r = (2 ^ 1024 \<le> \<bar>r\<bar>)"

text \<open>
  \<^verbatim>\<open>a / b\<close> on two \<^verbatim>\<open>int\<close>s: CPython's \<^verbatim>\<open>long_true_divide\<close> returns the correctly rounded
  quotient, a zero signed by the operands, or raises.
\<close>

definition py_truediv :: "int \<Rightarrow> int \<Rightarrow> exn + pyfloat" where
  "py_truediv a b =
     (if b = 0 then Inl (Exn ''ZeroDivisionError'' ''division by zero'')
      else let r = to_double (of_int a / of_int b)
           in if overflows r
              then Inl (Exn ''OverflowError'' ''integer division result too large for a float'')
              else if r = 0 \<and> ((a < 0) \<noteq> (b < 0)) then Inr NegZero
              else Inr (Fin r))"

text \<open>
  \<^verbatim>\<open>round(x, ndigits)\<close> on a float, for \<open>0 \<le> ndigits \<le> 323\<close> (the script passes 0 and
  2): CPython's \<^verbatim>\<open>double_round\<close> rounds the exact value of \<open>x\<close> to \<open>ndigits\<close> decimal
  places, ties to even, and reads the decimal string back as a double.
\<close>

definition py_round :: "pyfloat \<Rightarrow> nat \<Rightarrow> exn + pyfloat" where
  "py_round x ndigits =
     (case x of
        NegZero \<Rightarrow> Inr NegZero
      | Fin q \<Rightarrow>
          let r = to_double (of_int (round_half_even (q * 10 ^ ndigits)) / 10 ^ ndigits)
          in if overflows r
             then Inl (Exn ''OverflowError'' ''rounded value too large to represent'')
             else if r = 0 \<and> q < 0 then Inr NegZero
             else Inr (Fin r))"

text \<open>
  \<^verbatim>\<open>repr\<close> of a float: the shortest decimal that reads back as the same double,
  the closest one to it when several have that length (last digit even on a tie),
  printed in fixed notation when its decimal point lies in \<open>-4 < decpt \<le> 16\<close> and
  with an exponent otherwise. \<open>ilog10 q\<close> is \<open>\<lfloor>log\<^sub>1\<^sub>0 q\<rfloor>\<close> for \<open>q > 0\<close>.
\<close>

definition ilog10 :: "rat \<Rightarrow> int" where
  "ilog10 q =
     (if 1 \<le> q then int (floorlog 10 (nat \<lfloor>q\<rfloor>)) - 1
      else - int (floorlog 10 (nat (\<lceil>1 / q\<rceil> - 1))))"

definition candidates :: "rat \<Rightarrow> nat \<Rightarrow> (int \<times> int) list" where
  "candidates q n =
     (let s = ilog10 q + 1 - int n;
          lo = \<lfloor>q / 10 powi s\<rfloor>;
          hi = lo + 1;
          dl = q - of_int lo * 10 powi s;
          dh = of_int hi * 10 powi s - q
      in if dl < dh \<or> (dl = dh \<and> even lo) then [(lo, s), (hi, s)] else [(hi, s), (lo, s)])"

definition shortest_decimal :: "rat \<Rightarrow> int \<times> int" where
  "shortest_decimal q =
     (if q = 0 then (0, 0)
      else case find (\<lambda>(m, s). to_double (of_int m * 10 powi s) = q)
                  (concat (map (candidates q) [1..<18])) of
             Some d \<Rightarrow> d
           | None \<Rightarrow> (0, 0))"

definition strip_zeros :: "string \<Rightarrow> string" where
  "strip_zeros ds = (if ds = ''0'' then ds else rev (dropWhile (\<lambda>c. c = CHR ''0'') (rev ds)))"

definition format_short :: "string \<Rightarrow> int \<Rightarrow> string" where
  "format_short ds decpt =
     (let n = int (length ds)
      in if - 4 < decpt \<and> decpt \<le> 16 then
           (if decpt \<le> 0 then ''0.'' @ replicate (nat (- decpt)) CHR ''0'' @ ds
            else if n \<le> decpt then ds @ replicate (nat (decpt - n)) CHR ''0'' @ ''.0''
            else take (nat decpt) ds @ ''.'' @ drop (nat decpt) ds)
         else
           take 1 ds @ (if 1 < n then ''.'' @ drop 1 ds else [])
           @ ''e'' @ (if decpt - 1 < 0 then ''-'' else ''+'') @ pad2 (nat \<bar>decpt - 1\<bar>))"

definition float_repr :: "pyfloat \<Rightarrow> string" where
  "float_repr x =
     (case x of
        NegZero \<Rightarrow> ''-0.0''
      | Fin q \<Rightarrow>
          let (m, s) = shortest_decimal \<bar>q\<bar>;
              d0 = str_nat (nat m)
          in (if q < 0 then ''-'' else []) @ format_short (strip_zeros d0) (int (length d0) + s))"

subsection \<open>Conversions and tests on values\<close>

definition key_repr :: "pykey \<Rightarrow> string" where
  "key_repr k = (case k of KStr s \<Rightarrow> str_repr s | KInt i \<Rightarrow> str_int i)"

definition key_str :: "pykey \<Rightarrow> string" where
  "key_str k = (case k of KStr s \<Rightarrow> s | KInt i \<Rightarrow> str_int i)"

fun py_repr :: "pyval \<Rightarrow> string" where
  "py_repr PNone = ''None''"
| "py_repr (PBool b) = (if b then ''True'' else ''False'')"
| "py_repr (PInt i) = str_int i"
| "py_repr (PFloat x) = float_repr x"
| "py_repr (PStr s) = str_repr s"
| "py_repr (PTuple vs) =
     (case vs of [v] \<Rightarrow> ''('' @ py_repr v @ '',)''
      | _ \<Rightarrow> ''('' @ join '', '' (map py_repr vs) @ '')'')"
| "py_repr (PList vs) = ''['' @ join '', '' (map py_repr vs) @ '']''"
| "py_repr (PDict kvs) =
     ''{'' @ join '', '' (map (\<lambda>kv. key_repr (fst kv) @ '': '' @ py_repr (snd kv)) kvs) @ ''}''"

text \<open>What an f-string field \<^verbatim>\<open>{v}\<close> and \<^verbatim>\<open>print(v)\<close> write: \<^verbatim>\<open>str(v)\<close>.\<close>

definition py_str :: "pyval \<Rightarrow> string" where
  "py_str v = (case v of PStr s \<Rightarrow> s | _ \<Rightarrow> py_repr v)"

definition type_name :: "pyval \<Rightarrow> string" where
  "type_name v =
     (case v of PNone \<Rightarrow> ''NoneType'' | PBool _ \<Rightarrow> ''bool'' | PInt _ \<Rightarrow> ''int''
      | PFloat _ \<Rightarrow> ''float'' | PStr _ \<Rightarrow> ''str'' | PTuple _ \<Rightarrow> ''tuple''
      | PList _ \<Rightarrow> ''list'' | PDict _ \<Rightarrow> ''dict'')"

definition truthy :: "pyval \<Rightarrow> bool" where
  "truthy v =
     (case v of PNone \<Rightarrow> False | PBool b \<Rightarrow> b | PInt i \<Rightarrow> i \<noteq> 0
      | PFloat x \<Rightarrow> x \<noteq> NegZero \<and> x \<noteq> Fin 0 | PStr s \<Rightarrow> s \<noteq> []
      | PTuple vs \<Rightarrow> vs \<noteq> [] | PList vs \<Rightarrow> vs \<noteq> [] | PDict kvs \<Rightarrow> kvs \<noteq> [])"

section \<open>The environment of a run\<close>

subsection \<open>The management interface\<close>

text \<open>
  The script reads the host through the \<^verbatim>\<open>wmi\<close> package. A query returns a list of
  objects or raises; a property of an object is null (\<open>None\<close>) or a value of the
  type its CIM class declares. The package hands a string property over as a
  \<^verbatim>\<open>str\<close>, a \<^verbatim>\<open>uint32\<close> as an \<^verbatim>\<open>int\<close>, a boolean as a \<^verbatim>\<open>bool\<close>, a string array as a
  tuple of \<^verbatim>\<open>str\<close>, and a \<^verbatim>\<open>uint64\<close> (the sizes in bytes) as the decimal string of
  the number: such a field is modelled by the number, and \<^verbatim>\<open>int(field)\<close> by the
  number itself, or \<^verbatim>\<open>TypeError\<close> on null.
\<close>

record computer_system =
  cs_Caption :: "string option"
  cs_UserName :: "string option"
  cs_Domain :: "string option"

record operating_system =
  os_InstallDate :: "string option"

record user_account =
  ua_Name :: "string option"
  ua_Domain :: "string option"
  ua_SID :: "string option"
  ua_Disabled :: "bool option"

record base_board =
  bb_Manufacturer :: "string option"
  bb_Product :: "string option"
  bb_SerialNumber :: "string option"

record processor =
  cpu_Name :: "string option"
  cpu_MaxClockSpeed :: "nat option"
  cpu_NumberOfCores :: "nat option"
  cpu_NumberOfLogicalProcessors :: "nat option"

record physical_memory =
  ram_Capacity :: "nat option"
  ram_Manufacturer :: "string option"
  ram_Speed :: "nat option"

record video_controller =
  gpu_Name :: "string option"

record logical_disk =
  ld_Caption :: "string option"
  ld_Size :: "nat option"
  ld_FreeSpace :: "nat option"

text \<open>\<^verbatim>\<open>associators\<close> is a further query on an object, so it may raise as well.\<close>

record disk_partition =
  dp_logical_disks :: "exn + logical_disk list"

record disk_drive =
  dd_Caption :: "string option"
  dd_MediaType :: "string option"
  dd_Size :: "nat option"
  dd_partitions :: "exn + disk_partition list"

record network_adapter_configuration =
  nic_Description :: "string option"
  nic_IPAddress :: "string list option"
  nic_IPSubnet :: "string list option"
  nic_DefaultIPGateway :: "string list option"
  nic_DNSServerSearchOrder :: "string list option"
  nic_DHCPEnabled :: "bool option"

record wmi_service =
  Win32_ComputerSystem :: "exn + computer_system list"
  Win32_OperatingSystem :: "exn + operating_system list"
  Win32_UserAccount :: "exn + user_account list"
  Win32_BaseBoard :: "exn + base_board list"
  Win32_Processor :: "exn + processor list"
  Win32_PhysicalMemory :: "exn + physical_memory list"
  Win32_VideoController :: "exn + video_controller list"
  Win32_DiskDrive :: "exn + disk_drive list"
  Win32_NetworkAdapterConfiguration :: "exn + network_adapter_configuration list"

subsection \<open>The operating system, the clock and the libraries\<close>

record datetime =
  dt_year :: nat
  dt_month :: nat
  dt_day :: nat
  dt_hour :: nat
  dt_minute :: nat
  dt_second :: nat

text \<open>
  What the script gets from outside and cannot change.

  \<open>clock env n\<close> is the \<open>n\<close>-th time stamp of the run: what \<^verbatim>\<open>datetime.datetime.now()\<close>
  returns the \<open>n\<close>-th time it is called for a progress line, for an entry of the log
  or for the name of the report. \<^verbatim>\<open>os_detection\<close> reads the clock once more, to
  count the days since the installation; that reading is no time stamp and is not
  counted: it is inside \<open>days_since_install env s\<close>, the library computation
  \<^verbatim>\<open>(datetime.datetime.now() - datetime.datetime.strptime(s, "%Y%m%d")).days\<close>,
  which raises \<^verbatim>\<open>ValueError\<close> on a string that is no date.

  \<open>makedirs_error\<close> and \<open>open_error\<close> say whether the operating system refuses to
  create a directory or to open a file for writing. \<open>encode_error env text\<close> is the
  \<^verbatim>\<open>UnicodeEncodeError\<close> that writing \<open>text\<close> to a file opened in text mode raises
  when the encoding of the platform, which \<^verbatim>\<open>open\<close> takes when it is given none,
  lacks a character of \<open>text\<close>.
\<close>

record env =
  os_name :: string
  wmi_WMI :: "exn + wmi_service"
  clock :: "nat \<Rightarrow> datetime"
  gethostname :: string
  script_dir :: string
  path_join :: "string \<Rightarrow> string \<Rightarrow> string"
  makedirs_error :: "string \<Rightarrow> exn option"
  open_error :: "string \<Rightarrow> exn option"
  encode_error :: "string \<Rightarrow> exn option"
  platform_system :: string
  platform_architecture :: string
  win32_ver_release :: string
  win32_ver_version :: string
  days_since_install :: "string \<Rightarrow> exn + int"

subsection \<open>The state a run changes\<close>

text \<open>
  An entry of the error log. The script also stores \<^verbatim>\<open>line\<close>, \<^verbatim>\<open>file\<close> and
  \<^verbatim>\<open>function_name\<close>, read off the interpreter's traceback; they depend on the
  interpreter and are left out.
\<close>

record error_data =
  ed_time :: string
  ed_function :: string
  ed_type :: string
  ed_error :: string

datatype tty_event = Out string | Shell string

datatype handle = Console | FileHandle string

text \<open>
  \<open>tty\<close> is what the process did to the terminal, in order: the text of each
  \<^verbatim>\<open>print\<close> that reached it and each \<^verbatim>\<open>os.system\<close> command. \<open>sys_stdout\<close> is where
  \<^verbatim>\<open>print\<close> writes now. \<open>files\<close> maps a path to the text written to the file there:
  the characters given to \<^verbatim>\<open>write\<close>, before Python turns them into the bytes of the
  file.
\<close>

record world =
  tty :: "tty_event list"
  sys_stdout :: handle
  files :: "string \<Rightarrow> string option"
  dirs :: "string set"
  error_log :: "error_data list"
  ticks :: nat

text \<open>A Python call: it changes the world and returns a value or raises.\<close>

type_synonym 'a action = "world \<Rightarrow> (exn + 'a) \<times> world"

definition and_then :: "'a action \<Rightarrow> ('a \<Rightarrow> 'b action) \<Rightarrow> 'b action" where
  "and_then f g w = (case f w of (Inl e, w') \<Rightarrow> (Inl e, w') | (Inr v, w') \<Rightarrow> g v w')"

definition on_value :: "exn + 'a \<Rightarrow> ('a \<Rightarrow> exn + 'b) \<Rightarrow> exn + 'b" where
  "on_value r f = (case r of Inl e \<Rightarrow> Inl e | Inr v \<Rightarrow> f v)"

definition now :: "env \<Rightarrow> world \<Rightarrow> datetime \<times> world" where
  "now env w = (clock env (ticks w), w\<lparr>ticks := Suc (ticks w)\<rparr>)"

text \<open>\<^verbatim>\<open>strftime\<close> with \<^verbatim>\<open>"%Y-%m-%d"\<close> and \<^verbatim>\<open>"%H:%M:%S"\<close>, joined by \<open>sep\<close>.\<close>

definition strftime_date :: "datetime \<Rightarrow> string" where
  "strftime_date t = pad4 (dt_year t) @ ''-'' @ pad2 (dt_month t) @ ''-'' @ pad2 (dt_day t)"

definition strftime_time :: "string \<Rightarrow> datetime \<Rightarrow> string" where
  "strftime_time sep t = pad2 (dt_hour t) @ sep @ pad2 (dt_minute t) @ sep @ pad2 (dt_second t)"

text \<open>
  \<^verbatim>\<open>print(text, end=e)\<close> writes \<open>text @ e\<close> to \<^verbatim>\<open>sys.stdout\<close>. The terminal takes
  every text. A file opened in text mode takes the texts that its encoding can
  encode, and raises on the others before it writes anything of them. Every
  encoding that Windows or Python chooses for such a file has the 128 characters of
  ASCII, among them the line ends that \<^verbatim>\<open>print\<close> adds, so a text of ASCII is always
  written.
\<close>

definition is_ascii :: "string \<Rightarrow> bool" where
  "is_ascii text = list_all (\<lambda>c. (of_char c :: nat) < 128) text"

definition write_error :: "env \<Rightarrow> string \<Rightarrow> exn option" where
  "write_error env text = (if is_ascii text then None else encode_error env text)"

definition write_text :: "string \<Rightarrow> world \<Rightarrow> world" where
  "write_text text w =
     (case sys_stdout w of
        Console \<Rightarrow> w\<lparr>tty := tty w @ [Out text]\<rparr>
      | FileHandle p \<Rightarrow>
          w\<lparr>files := (files w)(p \<mapsto> (case files w p of None \<Rightarrow> [] | Some c \<Rightarrow> c) @ text)\<rparr>)"

definition py_print :: "env \<Rightarrow> string \<Rightarrow> pyval action" where
  "py_print env text w =
     (case sys_stdout w of
        Console \<Rightarrow> (Inr PNone, write_text text w)
      | FileHandle p \<Rightarrow>
          (case write_error env text of
             Some e \<Rightarrow> (Inl e, w)
           | None \<Rightarrow> (Inr PNone, write_text text w)))"

section \<open>Error logging\<close>

text \<open>
  \<^verbatim>\<open>set_up_logging\<close>: creates the \<^verbatim>\<open>logs\<close> directory when it is missing
  (\<^verbatim>\<open>exist_ok=True\<close>) and opens \<^verbatim>\<open>logs/error.json\<close> for appending. It is not under
  \<^verbatim>\<open>log_errors\<close>: a failure here ends the program.
\<close>

definition set_up_logging :: "env \<Rightarrow> pyval action" where
  "set_up_logging env w =
     (let logs_dir = path_join env (script_dir env) ''logs'';
          log_file_path = path_join env logs_dir ''error.json''
      in case (if logs_dir \<in> dirs w then None else makedirs_error env logs_dir) of
           Some e \<Rightarrow> (Inl e, w)
         | None \<Rightarrow>
             (case open_error env log_file_path of
                Some e \<Rightarrow> (Inl e, w\<lparr>dirs := insert logs_dir (dirs w)\<rparr>)
              | None \<Rightarrow> (Inr PNone, w\<lparr>dirs := insert logs_dir (dirs w)\<rparr>)))"

text \<open>
  \<^verbatim>\<open>log_error(func, error, error_type)\<close> appends one entry to the log; \<open>func\<close> is
  \<^verbatim>\<open>func.__name__\<close>.
\<close>

definition log_error :: "env \<Rightarrow> string \<Rightarrow> exn \<Rightarrow> string \<Rightarrow> world \<Rightarrow> world" where
  "log_error env func error error_type w =
     (let (t, w') = now env w;
          error_data = \<lparr>ed_time = strftime_date t @ '' '' @ strftime_time '':'' t,
                        ed_function = func,
                        ed_type = error_type,
                        ed_error = exn_str error\<rparr>
      in w'\<lparr>error_log := error_log w' @ [error_data]\<rparr>)"

text \<open>
  The decorator \<^verbatim>\<open>log_errors\<close>. The wrapper returns what \<open>func\<close> returns; when \<open>func\<close>
  raises, it logs and falls off its end, which in Python returns \<open>None\<close>. The
  \<^verbatim>\<open>finally: logging.shutdown()\<close> flushes the log, which this model does at once.
\<close>

definition log_errors :: "env \<Rightarrow> string \<Rightarrow> pyval action \<Rightarrow> pyval action" where
  "log_errors env name func w =
     (case func w of
        (Inr v, w') \<Rightarrow> (Inr v, w')
      | (Inl e, w') \<Rightarrow> (Inr PNone, log_error env name e (py_lower (exn_type e)) w'))"

definition example_function :: "env \<Rightarrow> int \<Rightarrow> int \<Rightarrow> pyval action" where
  "example_function env x y =
     log_errors env ''example_function''
       (\<lambda>w. (case py_truediv x y of Inl e \<Rightarrow> Inl e | Inr r \<Rightarrow> Inr (PFloat r), w))"

definition clear_terminal :: "env \<Rightarrow> pyval action" where
  "clear_terminal env =
     log_errors env ''clear_terminal''
       (\<lambda>w. (Inr PNone,
              if os_name env = ''nt'' then w\<lparr>tty := tty w @ [Shell ''cls'']\<rparr>
              else w\<lparr>tty := tty w @ [Shell ''clear'']\<rparr>))"

section \<open>The probes\<close>

text \<open>
  Each probe is a function of the connection that returns its \<^verbatim>\<open>dict\<close> or raises.
  The helpers below are the expressions the probes repeat.
\<close>

text \<open>\<^verbatim>\<open>d[k] = v\<close>: a new key goes to the end, an old key keeps its place.\<close>

fun dict_set :: "(pykey \<times> pyval) list \<Rightarrow> pykey \<Rightarrow> pyval \<Rightarrow> (pykey \<times> pyval) list" where
  "dict_set [] k v = [(k, v)]"
| "dict_set ((k', v') # kvs) k v =
     (if k' = k then (k, v) # kvs else (k', v') # dict_set kvs k v)"

text \<open>A \<^verbatim>\<open>for\<close> loop whose body may raise: the first exception ends it.\<close>

fun for_each :: "('a \<Rightarrow> 's \<Rightarrow> exn + 's) \<Rightarrow> 'a list \<Rightarrow> 's \<Rightarrow> exn + 's" where
  "for_each body [] s = Inr s"
| "for_each body (x # xs) s =
     (case body x s of Inl e \<Rightarrow> Inl e | Inr s' \<Rightarrow> for_each body xs s')"

text \<open>\<^verbatim>\<open>x or "N/A"\<close> on a string and on a number, \<^verbatim>\<open>x[0] if x else "N/A"\<close> on an array.\<close>

definition or_na :: "string option \<Rightarrow> pyval" where
  "or_na x = (case x of None \<Rightarrow> PStr ''N/A'' | Some s \<Rightarrow> if s = [] then PStr ''N/A'' else PStr s)"

definition nat_or_na :: "nat option \<Rightarrow> pyval" where
  "nat_or_na x =
     (case x of None \<Rightarrow> PStr ''N/A'' | Some n \<Rightarrow> if n = 0 then PStr ''N/A'' else PInt (int n))"

definition first_or_na :: "string list option \<Rightarrow> pyval" where
  "first_or_na x =
     (case x of None \<Rightarrow> PStr ''N/A'' | Some [] \<Rightarrow> PStr ''N/A'' | Some (a # _) \<Rightarrow> PStr a)"


text \<open>\<^verbatim>\<open>sub in s\<close> on strings.\<close>

fun contains :: "string \<Rightarrow> string \<Rightarrow> bool" where
  "contains sub [] = (sub = [])"
| "contains sub (c # cs) = (take (length sub) (c # cs) = sub \<or> contains sub cs)"

text \<open>\<^verbatim>\<open>round(int(x) / (1024**3), ndigits)\<close> on a size \<open>x\<close> that is not null.\<close>

definition round_gib :: "nat \<Rightarrow> nat \<Rightarrow> exn + pyval" where
  "round_gib bytes ndigits =
     on_value (py_truediv (int bytes) (1024 ^ 3))
       (\<lambda>q. on_value (py_round q ndigits) (\<lambda>r. Inr (PFloat r)))"

text \<open>
  What rounding a size to \<open>d\<close> decimal places of a GiB means, for comparison with
  \<open>round_gib\<close>: the double nearest to \<open>k / 10\<^sup>d\<close>, where \<open>k\<close> is the integer nearest to
  \<open>10\<^sup>d\<close> times the exact quotient (the even one of two nearest).
\<close>

definition rounded_gib :: "nat \<Rightarrow> nat \<Rightarrow> rat" where
  "rounded_gib d bytes =
     to_double (of_int (round_half_even (of_nat bytes / 2 ^ 30 * 10 ^ d)) / 10 ^ d)"

text \<open>
  The value a size field gets when sizes are rounded to \<open>d\<close> places, and the sizes
  for which the division by \<open>1024\<^sup>3\<close> is exact in a double.
\<close>

definition size_value :: "nat \<Rightarrow> nat option \<Rightarrow> pyval" where
  "size_value d x = (case x of None \<Rightarrow> PStr ''N/A'' | Some bytes \<Rightarrow> PFloat (Fin (rounded_gib d bytes)))"

definition partition_value :: "logical_disk \<Rightarrow> pyval" where
  "partition_value logical_disk =
     PDict [(KStr ''name'', (case ld_Caption logical_disk of None \<Rightarrow> PNone | Some s \<Rightarrow> PStr s)),
            (KStr ''total_size'', size_value 0 (ld_Size logical_disk)),
            (KStr ''free_size'', size_value 0 (ld_FreeSpace logical_disk))]"

definition small :: "nat option \<Rightarrow> bool" where
  "small x = (case x of None \<Rightarrow> True | Some bytes \<Rightarrow> bytes < 2 ^ 53)"

definition host_detection :: "wmi_service \<Rightarrow> exn + pyval" where
  "host_detection wmi_service =
     on_value (Win32_ComputerSystem wmi_service)
       (\<lambda>computers.
          Inr (PDict (foldl (\<lambda>host_info computer.
                 [(KStr ''hostname'', or_na (cs_Caption computer)),
                  (KStr ''username'', or_na (cs_UserName computer)),
                  (KStr ''domain'', or_na (cs_Domain computer))]) [] computers)))"

text \<open>
  \<^verbatim>\<open>os_detection\<close>. \<^verbatim>\<open>Win32_OperatingSystem()[0]\<close> raises on an empty list,
  \<^verbatim>\<open>InstallDate[:8]\<close> on null. An f-string with literal text is never empty, so its
  \<^verbatim>\<open>or "N/A"\<close> never applies.
\<close>

definition os_detection :: "env \<Rightarrow> wmi_service \<Rightarrow> exn + pyval" where
  "os_detection env wmi_service =
     on_value (Win32_OperatingSystem wmi_service)
       (\<lambda>systems.
          case systems of
            [] \<Rightarrow> Inl (Exn ''IndexError'' ''list index out of range'')
          | system # _ \<Rightarrow>
              (case os_InstallDate system of
                 None \<Rightarrow> Inl (Exn ''TypeError'' (str_repr ''NoneType'' @ '' object is not subscriptable''))
               | Some d \<Rightarrow>
                   let install_date_str = take 8 d
                   in on_value (days_since_install env install_date_str)
                        (\<lambda>days_since_install.
                           Inr (PDict
                             [(KStr ''install_date'',
                               PStr (install_date_str @ '' ('' @ str_int days_since_install
                                     @ '' days ago)'')),
                              (KStr ''name'', or_na (Some (platform_system env))),
                              (KStr ''architecture'', or_na (Some (platform_architecture env))),
                              (KStr ''version'', or_na (Some (win32_ver_release env))),
                              (KStr ''version_info'', or_na (Some (win32_ver_version env)))]))))"

text \<open>
  \<^verbatim>\<open>account_detection\<close>. The list comprehension calls \<^verbatim>\<open>account.Name.lower()\<close> on every
  account, which raises on a null name.
\<close>

definition excluded_accounts :: "string set" where
  "excluded_accounts = {''defaultaccount'', ''wdagutilityaccount'', ''guest''}"

fun user_accounts :: "user_account list \<Rightarrow> exn + user_account list" where
  "user_accounts [] = Inr []"
| "user_accounts (account # rest) =
     (case ua_Name account of
        None \<Rightarrow> Inl (Exn ''AttributeError''
                    (str_repr ''NoneType'' @ '' object has no attribute '' @ str_repr ''lower''))
      | Some name \<Rightarrow>
          on_value (user_accounts rest)
            (\<lambda>kept. Inr (if py_lower name \<notin> excluded_accounts then account # kept else kept)))"

definition account_entry :: "user_account \<Rightarrow> pyval" where
  "account_entry account =
     PDict [(KStr ''username'', or_na (ua_Name account)),
            (KStr ''domain'', or_na (ua_Domain account)),
            (KStr ''sid'', or_na (ua_SID account)),
            (KStr ''disabled'', PStr (if ua_Disabled account = Some True then ''Yes'' else ''No''))]"

definition account_detection :: "wmi_service \<Rightarrow> exn + pyval" where
  "account_detection wmi_service =
     on_value (Win32_UserAccount wmi_service)
       (\<lambda>accounts.
          on_value (user_accounts accounts)
            (\<lambda>kept.
               Inr (PDict (foldl (\<lambda>account_info (idx, account).
                      dict_set account_info (KInt (int idx)) (account_entry account))
                    [] (enumerate 1 kept)))))"

definition motherboard_detection :: "wmi_service \<Rightarrow> exn + pyval" where
  "motherboard_detection wmi_service =
     on_value (Win32_BaseBoard wmi_service)
       (\<lambda>boards.
          Inr (PDict (foldl (\<lambda>motherboard_info (idx, board).
                 dict_set motherboard_info (KInt (int idx))
                   (PDict [(KStr ''manufacturer'', or_na (bb_Manufacturer board)),
                           (KStr ''model'', or_na (bb_Product board)),
                           (KStr ''serial_number'', or_na (bb_SerialNumber board))]))
               [] (enumerate 1 boards))))"

definition cpu_detection :: "wmi_service \<Rightarrow> exn + pyval" where
  "cpu_detection wmi_service =
     on_value (Win32_Processor wmi_service)
       (\<lambda>cpus.
          Inr (PDict (foldl (\<lambda>cpu_info (idx, cpu).
                 dict_set cpu_info (KInt (int idx))
                   (PDict [(KStr ''name'', or_na (cpu_Name cpu)),
                           (KStr ''max_clock_speed'',
                            PStr ((case cpu_MaxClockSpeed cpu of
                                     None \<Rightarrow> ''None'' | Some n \<Rightarrow> str_nat n) @ '' MHz'')),
                           (KStr ''cores'', nat_or_na (cpu_NumberOfCores cpu)),
                           (KStr ''threads'', nat_or_na (cpu_NumberOfLogicalProcessors cpu))]))
               [] (enumerate 1 cpus))))"

text \<open>\<^verbatim>\<open>ram_detection\<close>: \<^verbatim>\<open>int(ram.Capacity)\<close> raises on null.\<close>

definition int_of_field :: "nat option \<Rightarrow> exn + nat" where
  "int_of_field x =
     (case x of
        None \<Rightarrow> Inl (Exn ''TypeError''
                   (''int() argument must be a string, a bytes-like object or a real number, not ''
                    @ str_repr ''NoneType''))
      | Some n \<Rightarrow> Inr n)"

definition ram_detection :: "wmi_service \<Rightarrow> exn + pyval" where
  "ram_detection wmi_service =
     on_value (Win32_PhysicalMemory wmi_service)
       (\<lambda>rams.
          on_value
            (for_each (\<lambda>(idx, ram) ram_info.
                 on_value (int_of_field (ram_Capacity ram))
                   (\<lambda>bytes. on_value (round_gib bytes 2)
                      (\<lambda>capacity.
                         Inr (dict_set ram_info (KInt (int idx))
                           (PDict [(KStr ''capacity'', capacity),
                                   (KStr ''manufacturer'', or_na (ram_Manufacturer ram)),
                                   (KStr ''speed'', nat_or_na (ram_Speed ram))])))))
               (enumerate 1 rams) [])
            (\<lambda>ram_info. Inr (PDict ram_info)))"

definition gpu_detection :: "wmi_service \<Rightarrow> exn + pyval" where
  "gpu_detection wmi_service =
     on_value (Win32_VideoController wmi_service)
       (\<lambda>gpus.
          Inr (PDict (foldl (\<lambda>gpu_info (idx, gpu).
                 dict_set gpu_info (KInt (int idx)) (PDict [(KStr ''name'', or_na (gpu_Name gpu))]))
               [] (enumerate 1 gpus))))"

text \<open>
  \<^verbatim>\<open>storage_detection\<close>. The entry of a disk is stored with an empty list of
  partitions, which the two inner loops then fill; the model builds the list first
  and stores the finished entry, which gives the same \<^verbatim>\<open>dict\<close> and raises the same
  exception first.
\<close>

definition size_or_na :: "nat option \<Rightarrow> nat \<Rightarrow> exn + pyval" where
  "size_or_na x ndigits = (case x of None \<Rightarrow> Inr (PStr ''N/A'') | Some bytes \<Rightarrow> round_gib bytes ndigits)"

definition partition_info :: "logical_disk \<Rightarrow> exn + pyval" where
  "partition_info logical_disk =
     on_value (size_or_na (ld_Size logical_disk) 0)
       (\<lambda>total_size. on_value (size_or_na (ld_FreeSpace logical_disk) 0)
          (\<lambda>free_size.
             Inr (PDict [(KStr ''name'',
                          (case ld_Caption logical_disk of None \<Rightarrow> PNone | Some s \<Rightarrow> PStr s)),
                         (KStr ''total_size'', total_size),
                         (KStr ''free_size'', free_size)])))"

definition disk_partitions :: "disk_drive \<Rightarrow> exn + pyval list" where
  "disk_partitions disk =
     on_value (dd_partitions disk)
       (\<lambda>partitions.
          for_each (\<lambda>partition acc.
              on_value (dp_logical_disks partition)
                (\<lambda>logical_disks.
                   for_each (\<lambda>logical_disk acc'.
                       on_value (partition_info logical_disk) (\<lambda>info. Inr (acc' @ [info])))
                     logical_disks acc))
            partitions [])"

definition disk_type :: "disk_drive \<Rightarrow> string" where
  "disk_type disk =
     (if contains ''SSD'' (case dd_MediaType disk of None \<Rightarrow> [] | Some s \<Rightarrow> s)
         \<or> contains ''SSD'' (case dd_Caption disk of None \<Rightarrow> [] | Some s \<Rightarrow> s)
      then ''SSD'' else ''HDD'')"

definition storage_detection :: "wmi_service \<Rightarrow> exn + pyval" where
  "storage_detection wmi_service =
     on_value (Win32_DiskDrive wmi_service)
       (\<lambda>disks.
          on_value
            (for_each (\<lambda>(idx, disk) storage_info.
                 on_value (size_or_na (dd_Size disk) 2)
                   (\<lambda>size. on_value (disk_partitions disk)
                      (\<lambda>partitions.
                         Inr (dict_set storage_info (KInt (int idx))
                           (PDict [(KStr ''name'', or_na (dd_Caption disk)),
                                   (KStr ''size'', size),
                                   (KStr ''type'', PStr (disk_type disk)),
                                   (KStr ''partitions'', PList partitions)])))))
               (enumerate 1 disks) [])
            (\<lambda>storage_info. Inr (PDict storage_info)))"

text \<open>
  \<^verbatim>\<open>nic_detection\<close>; the field of the service is the result of the query with
  \<^verbatim>\<open>IPEnabled=True\<close>.
\<close>

definition nic_detection :: "wmi_service \<Rightarrow> exn + pyval" where
  "nic_detection wmi_service =
     on_value (Win32_NetworkAdapterConfiguration wmi_service)
       (\<lambda>nics.
          Inr (PDict (foldl (\<lambda>nic_info (idx, nic).
                 dict_set nic_info (KInt (int idx))
                   (PDict [(KStr ''description'', or_na (nic_Description nic)),
                           (KStr ''ip_address'', first_or_na (nic_IPAddress nic)),
                           (KStr ''subnet_mask'', first_or_na (nic_IPSubnet nic)),
                           (KStr ''default_gateway'', first_or_na (nic_DefaultIPGateway nic)),
                           (KStr ''dns_servers'',
                            (case nic_DNSServerSearchOrder nic of
                               None \<Rightarrow> PStr ''N/A''
                             | Some [] \<Rightarrow> PStr ''N/A''
                             | Some (a # as) \<Rightarrow> PTuple (map PStr (a # as)))),
                           (KStr ''dhcp_enabled'',
                            (case nic_DHCPEnabled nic of None \<Rightarrow> PNone | Some b \<Rightarrow> PBool b))]))
               [] (enumerate 1 nics))))"

section \<open>The report\<close>

text \<open>
  What \<^verbatim>\<open>print_info\<close> reads from its argument. The script subscripts with string
  literals only; any value may stand where a \<^verbatim>\<open>dict\<close> is expected, and Python then
  raises.
\<close>

definition subscript :: "pyval \<Rightarrow> string \<Rightarrow> exn + pyval" where
  "subscript v k =
     (case v of
        PDict kvs \<Rightarrow>
          (case map_of kvs (KStr k) of
             Some x \<Rightarrow> Inr x
           | None \<Rightarrow> Inl (Exn ''KeyError'' (str_repr k)))
      | PStr _ \<Rightarrow> Inl (Exn ''TypeError'' (''string indices must be integers, not '' @ str_repr ''str''))
      | PList _ \<Rightarrow> Inl (Exn ''TypeError'' ''list indices must be integers or slices, not str'')
      | PTuple _ \<Rightarrow> Inl (Exn ''TypeError'' ''tuple indices must be integers or slices, not str'')
      | _ \<Rightarrow> Inl (Exn ''TypeError'' (str_repr (type_name v) @ '' object is not subscriptable'')))"

definition items :: "pyval \<Rightarrow> exn + (pykey \<times> pyval) list" where
  "items v =
     (case v of
        PDict kvs \<Rightarrow> Inr kvs
      | _ \<Rightarrow> Inl (Exn ''AttributeError''
                 (str_repr (type_name v) @ '' object has no attribute '' @ str_repr ''items'')))"

definition key_value :: "pykey \<Rightarrow> pyval" where
  "key_value k = (case k of KStr s \<Rightarrow> PStr s | KInt i \<Rightarrow> PInt i)"

definition iterate :: "pyval \<Rightarrow> exn + pyval list" where
  "iterate v =
     (case v of
        PList vs \<Rightarrow> Inr vs
      | PTuple vs \<Rightarrow> Inr vs
      | PStr s \<Rightarrow> Inr (map (\<lambda>c. PStr [c]) s)
      | PDict kvs \<Rightarrow> Inr (map (key_value \<circ> fst) kvs)
      | _ \<Rightarrow> Inl (Exn ''TypeError'' (str_repr (type_name v) @ '' object is not iterable'')))"

text \<open>\<^verbatim>\<open>', '.join(v)\<close>: every item must be a \<^verbatim>\<open>str\<close>.\<close>

fun join_items :: "nat \<Rightarrow> pyval list \<Rightarrow> exn + string list" where
  "join_items i [] = Inr []"
| "join_items i (v # vs) =
     (case v of
        PStr s \<Rightarrow> on_value (join_items (Suc i) vs) (\<lambda>rest. Inr (s # rest))
      | _ \<Rightarrow> Inl (Exn ''TypeError'' (''sequence item '' @ str_nat i @ '': expected str instance, ''
                                     @ type_name v @ '' found'')))"

definition py_join :: "string \<Rightarrow> pyval \<Rightarrow> exn + string" where
  "py_join sep v =
     (case iterate v of
        Inl _ \<Rightarrow> Inl (Exn ''TypeError'' ''can only join an iterable'')
      | Inr vs \<Rightarrow> on_value (join_items 0 vs) (\<lambda>strs. Inr (join sep strs)))"

text \<open>
  An f-string is its parts from left to right: literal text, or a field whose
  expression may raise. A \<^verbatim>\<open>print\<close> statement is the text it writes (its \<^verbatim>\<open>end\<close>
  included), or the exception its argument raises before anything is written.
\<close>

definition lit :: "string \<Rightarrow> exn + string" where
  "lit s = Inr s"

definition field :: "exn + pyval \<Rightarrow> exn + string" where
  "field r = on_value r (\<lambda>v. Inr (py_str v))"

fun fstring :: "(exn + string) list \<Rightarrow> exn + string" where
  "fstring [] = Inr []"
| "fstring (p # ps) = on_value p (\<lambda>s. on_value (fstring ps) (\<lambda>rest. Inr (s @ rest)))"

definition print_line :: "(exn + string) list \<Rightarrow> exn + string" where
  "print_line parts = on_value (fstring parts) (\<lambda>s. Inr (s @ [CHR 0x0A]))"

definition space :: string where
  "space = [CHR 0x09, CHR '' '', CHR '' '']"

text \<open>A \<^verbatim>\<open>for idx, info in d.items()\<close> loop over print statements.\<close>

definition for_items :: "pyval \<Rightarrow> (pykey \<Rightarrow> pyval \<Rightarrow> (exn + string) list) \<Rightarrow> (exn + string) list" where
  "for_items d body =
     (case items d of
        Inl e \<Rightarrow> [Inl e]
      | Inr kvs \<Rightarrow> concat (map (\<lambda>(idx, info). body idx info) kvs))"

definition print_partitions :: "pyval \<Rightarrow> (exn + string) list" where
  "print_partitions info =
     (case on_value (subscript info ''partitions'') iterate of
        Inl e \<Rightarrow> [Inl e]
      | Inr partitions \<Rightarrow>
          concat (map (\<lambda>(partition_idx, partition).
            [fstring [lit (space @ space @ ''Partition #''), lit (str_nat partition_idx), lit '' ... : ''],
             fstring [lit ''Letter: '', field (subscript partition ''name'')],
             print_line [lit '' (Size: '', field (subscript partition ''free_size''), lit ''/'',
                         field (subscript partition ''total_size''), lit '' GB)'']])
            (enumerate 1 partitions)))"

text \<open>The print statements of \<^verbatim>\<open>print_info\<close>, section by section, in the order of the source.\<close>

definition print_host :: "pyval \<Rightarrow> (exn + string) list" where
  "print_host host_info =
     [lit (CHR 0x0A # ''Host:''),
      print_line [lit (space @ space @ ''Hostname ....... : ''), field (subscript host_info ''hostname'')],
      print_line [lit (space @ space @ ''Username ....... : ''), field (subscript host_info ''username'')],
      print_line [lit (space @ space @ ''Domain ......... : ''), field (subscript host_info ''domain'')]]"

definition print_os :: "pyval \<Rightarrow> (exn + string) list" where
  "print_os os_info =
     [lit (CHR 0x0A # ''Operation System: ''),
      print_line [lit ''Description .... : '', field (subscript os_info ''name''), lit '' '',
                  field (subscript os_info ''version''), lit '' '',
                  field (subscript os_info ''architecture''), lit '' ('',
                  field (subscript os_info ''version_info''), lit '')''],
      print_line [lit (space @ space @ ''install_date ... : ''), field (subscript os_info ''install_date'')]]"

definition print_accounts :: "pyval \<Rightarrow> (exn + string) list" where
  "print_accounts account_info =
     for_items account_info (\<lambda>idx info.
       [lit (CHR 0x0A # ''Account'' @ key_str idx @ '':''),
        print_line [lit (space @ ''Username ....... : ''), field (subscript info ''username'')],
        print_line [lit (space @ space @ ''Domain ......... : ''), field (subscript info ''domain'')],
        print_line [lit (space @ space @ ''SID Number ..... : ''), field (subscript info ''sid'')],
        print_line [lit (space @ space @ ''Disabled ....... : ''), field (subscript info ''disabled'')]])"

definition print_motherboards :: "pyval \<Rightarrow> (exn + string) list" where
  "print_motherboards motherboard_info =
     for_items motherboard_info (\<lambda>idx info.
       [lit (CHR 0x0A # ''Motherboard'' @ key_str idx @ '':''),
        print_line [lit (space @ ''Manufacturer ... : ''), field (subscript info ''manufacturer'')],
        print_line [lit (space @ space @ ''Product ........ : ''), field (subscript info ''model'')],
        print_line [lit (space @ space @ ''SerialNumber  .. : ''), field (subscript info ''serial_number'')]])"

definition print_cpus :: "pyval \<Rightarrow> (exn + string) list" where
  "print_cpus cpu_info =
     for_items cpu_info (\<lambda>idx info.
       [lit (CHR 0x0A # ''CPU'' @ key_str idx @ '':''),
        print_line [lit (space @ space @ ''Description .... : ''), field (subscript info ''name'')],
        print_line [lit (space @ space @ ''Clock Speed .... : ''), field (subscript info ''max_clock_speed'')],
        print_line [lit (space @ space @ ''Cores .......... : ''), field (subscript info ''cores'')],
        print_line [lit (space @ space @ ''Threads ........ : ''), field (subscript info ''threads'')]])"

definition print_rams :: "pyval \<Rightarrow> (exn + string) list" where
  "print_rams ram_info =
     for_items ram_info (\<lambda>idx info.
       [lit (CHR 0x0A # ''RAM'' @ key_str idx @ '':''),
        print_line [lit (space @ space @ ''Capacity ....... : ''), field (subscript info ''capacity''),
                    lit '' GB''],
        print_line [lit (space @ space @ ''Manufacturer ... : ''), field (subscript info ''manufacturer'')],
        print_line [lit (space @ space @ ''Speed .......... : ''), field (subscript info ''speed''),
                    lit '' MHz'']])"

definition print_storages :: "pyval \<Rightarrow> (exn + string) list" where
  "print_storages storage_info =
     for_items storage_info (\<lambda>idx info.
       [fstring [lit [CHR 0x0A], field (subscript info ''type''), lit (key_str idx), lit '':''],
        print_line [lit (space @ space @ ''Description .... : ''), field (subscript info ''name'')],
        print_line [lit (space @ space @ ''Size ........... : ''), field (subscript info ''size''),
                    lit '' GB'']]
       @ print_partitions info)"

definition print_gpus :: "pyval \<Rightarrow> (exn + string) list" where
  "print_gpus gpu_info =
     for_items gpu_info (\<lambda>idx info.
       [lit (CHR 0x0A # ''GPU'' @ key_str idx @ '':   ''),
        print_line [lit (space @ ''Description .... : ''), field (subscript info ''name'')]])"

definition print_nics :: "pyval \<Rightarrow> (exn + string) list" where
  "print_nics nic_info =
     for_items nic_info (\<lambda>idx info.
       [lit (CHR 0x0A # ''NIC'' @ key_str idx @ '':''),
        print_line [lit (space @ space @ ''Description .... : ''), field (subscript info ''description'')],
        print_line [lit (space @ space @ ''IP Address ..... : ''), field (subscript info ''ip_address'')],
        print_line [lit (space @ space @ ''Subnet Mask .... : ''), field (subscript info ''subnet_mask'')],
        print_line [lit (space @ space @ ''DefaultGateway . : ''), field (subscript info ''default_gateway'')],
        print_line [lit (space @ space @ ''DNS Servers .... : ''),
                    on_value (subscript info ''dns_servers'') (py_join '', '')],
        print_line [lit (space @ space @ ''DHCP Enabled ... : ''),
                    on_value (subscript info ''dhcp_enabled'')
                      (\<lambda>v. Inr (if truthy v then ''Yes'' else ''No''))]])"

text \<open>
  The nine subscripts at the head of \<^verbatim>\<open>print_info\<close> come first, in the order of the
  source; then the sections.
\<close>

definition print_statements :: "pyval \<Rightarrow> (exn + string) list" where
  "print_statements system_info =
     (case on_value (subscript system_info ''host_info'') (\<lambda>host_info.
           on_value (subscript system_info ''os_info'') (\<lambda>os_info.
           on_value (subscript system_info ''account_info'') (\<lambda>account_info.
           on_value (subscript system_info ''motherboard_info'') (\<lambda>motherboard_info.
           on_value (subscript system_info ''cpu_info'') (\<lambda>cpu_info.
           on_value (subscript system_info ''ram_info'') (\<lambda>ram_info.
           on_value (subscript system_info ''storage_info'') (\<lambda>storage_info.
           on_value (subscript system_info ''gpu_info'') (\<lambda>gpu_info.
           on_value (subscript system_info ''nic_info'') (\<lambda>nic_info.
             Inr (print_host host_info @ print_os os_info @ print_accounts account_info
                  @ print_motherboards motherboard_info @ print_cpus cpu_info
                  @ print_rams ram_info @ print_storages storage_info
                  @ print_gpus gpu_info @ print_nics nic_info)))))))))) of
        Inl e \<Rightarrow> [Inl e]
      | Inr statements \<Rightarrow> statements)"

text \<open>
  Running print statements: each writes to \<^verbatim>\<open>sys.stdout\<close>; the first that raises,
  in its argument or in the writing, ends the run.
\<close>

fun run_prints :: "env \<Rightarrow> (exn + string) list \<Rightarrow> pyval action" where
  "run_prints env [] w = (Inr PNone, w)"
| "run_prints env (Inl e # rest) w = (Inl e, w)"
| "run_prints env (Inr text # rest) w =
     (case py_print env text w of
        (Inl e, w') \<Rightarrow> (Inl e, w')
      | (Inr _, w') \<Rightarrow> run_prints env rest w')"

definition print_info :: "env \<Rightarrow> pyval \<Rightarrow> pyval action" where
  "print_info env system_info =
     log_errors env ''print_info'' (run_prints env (print_statements system_info))"

text \<open>
  What a list of print statements does, apart from the world: the texts written
  before the first exception, and that exception.
\<close>

fun printed :: "(exn + string) list \<Rightarrow> string list" where
  "printed [] = []"
| "printed (Inl e # rest) = []"
| "printed (Inr text # rest) = text # printed rest"

fun raised :: "(exn + string) list \<Rightarrow> exn option" where
  "raised [] = None"
| "raised (Inl e # rest) = Some e"
| "raised (Inr text # rest) = raised rest"

text \<open>
  The same print statements when \<^verbatim>\<open>sys.stdout\<close> is a file: a statement whose text the
  file cannot encode raises, as one whose argument raises does. \<open>on_handle\<close> is what
  the statements do on either kind of \<^verbatim>\<open>sys.stdout\<close>.
\<close>

definition to_file :: "env \<Rightarrow> (exn + string) list \<Rightarrow> (exn + string) list" where
  "to_file env statements =
     map (\<lambda>statement.
            case statement of
              Inl e \<Rightarrow> Inl e
            | Inr text \<Rightarrow> (case write_error env text of Some e \<Rightarrow> Inl e | None \<Rightarrow> Inr text))
       statements"

definition on_handle :: "env \<Rightarrow> handle \<Rightarrow> (exn + string) list \<Rightarrow> (exn + string) list" where
  "on_handle env h statements =
     (case h of Console \<Rightarrow> statements | FileHandle p \<Rightarrow> to_file env statements)"

section \<open>The run\<close>

text \<open>
  \<^verbatim>\<open>generate_output\<close>: the \<^verbatim>\<open>info\<close> directory, the path of the report, and
  \<^verbatim>\<open>print_info\<close> with \<^verbatim>\<open>sys.stdout\<close> set to the file opened with mode \<^verbatim>\<open>"w"\<close>. Were
  \<^verbatim>\<open>print_info\<close> to raise, the line that restores \<^verbatim>\<open>sys.stdout\<close> would be skipped.
\<close>

definition success_message :: "string \<Rightarrow> string" where
  "success_message output_file_path =
     [CHR 0x0A, CHR 0x1B] @ ''[92mExported system information successfully to: ''
     @ output_file_path @ [CHR 0x1B] @ ''[0m'' @ [CHR 0x0A]"

definition info_dir :: "env \<Rightarrow> string" where
  "info_dir env = path_join env (script_dir env) ''info''"

definition output_file_path :: "env \<Rightarrow> datetime \<Rightarrow> string" where
  "output_file_path env t =
     path_join env (info_dir env)
       (gethostname env @ ''_'' @ strftime_date t @ ''_'' @ strftime_time ''-'' t @ ''.txt'')"

definition generate_output :: "env \<Rightarrow> pyval \<Rightarrow> pyval action" where
  "generate_output env system_info =
     log_errors env ''generate_output''
       (\<lambda>w. case (if info_dir env \<in> dirs w then None else makedirs_error env (info_dir env)) of
               Some e \<Rightarrow> (Inl e, w)
             | None \<Rightarrow>
                 let (t, w1) = now env (w\<lparr>dirs := insert (info_dir env) (dirs w)\<rparr>)
                 in case open_error env (output_file_path env t) of
                      Some e \<Rightarrow> (Inl e, w1)
                    | None \<Rightarrow>
                        (case print_info env system_info
                                (w1\<lparr>files := (files w1)(output_file_path env t \<mapsto> []),
                                    sys_stdout := FileHandle (output_file_path env t)\<rparr>) of
                           (Inl e, w2) \<Rightarrow> (Inl e, w2)
                         | (Inr _, w2) \<Rightarrow>
                             py_print env (success_message (output_file_path env t) @ [CHR 0x0A])
                               (w2\<lparr>sys_stdout := Console\<rparr>)))"

text \<open>
  The list \<^verbatim>\<open>detections\<close> of \<^verbatim>\<open>run_detection\<close>: the key, and the decorated probe
  (its \<^verbatim>\<open>__name__\<close> and its body).
\<close>

type_synonym detection = "string \<times> string \<times> (wmi_service \<Rightarrow> exn + pyval)"

definition detections :: "env \<Rightarrow> detection list" where
  "detections env =
     [(''host_info'', ''host_detection'', host_detection),
      (''account_info'', ''account_detection'', account_detection),
      (''os_info'', ''os_detection'', os_detection env),
      (''motherboard_info'', ''motherboard_detection'', motherboard_detection),
      (''cpu_info'', ''cpu_detection'', cpu_detection),
      (''ram_info'', ''ram_detection'', ram_detection),
      (''gpu_info'', ''gpu_detection'', gpu_detection),
      (''storage_info'', ''storage_detection'', storage_detection),
      (''nic_info'', ''nic_detection'', nic_detection)]"

definition progress_message :: "string \<Rightarrow> nat \<Rightarrow> nat \<Rightarrow> datetime \<Rightarrow> string \<Rightarrow> string" where
  "progress_message status index total_detections t name =
     ''['' @ status @ [CHR 0x1B] @ ''[0m] '' @ [CHR 0x1B] @ ''[93m'' @ str_nat index @ ''/''
     @ str_nat total_detections @ [CHR 0x1B] @ ''[0m > '' @ [CHR 0x1B] @ ''[93m'' @ strftime_time '':'' t
     @ [CHR 0x1B] @ ''[0m > '' @ replace_underscore name"

definition initializing :: string where
  "initializing = [CHR 0x1B] @ ''[93mINITIALIZING''"

definition ok :: string where
  "ok = [CHR 0x1B] @ ''[92m     OK     ''"

text \<open>
  The nested \<^verbatim>\<open>perform_detection\<close>: the probe under its decorator, the result stored
  under its key, then the \<^verbatim>\<open>OK\<close> line (\<^verbatim>\<open>end="\r"\<close>) and an empty \<^verbatim>\<open>print()\<close>.
\<close>

definition perform_detection ::
  "env \<Rightarrow> wmi_service \<Rightarrow> (pykey \<times> pyval) list \<Rightarrow> nat \<Rightarrow> nat \<Rightarrow> string
   \<Rightarrow> string \<times> (wmi_service \<Rightarrow> exn + pyval) \<Rightarrow> (pykey \<times> pyval) list action" where
  "perform_detection env wmi_service system_info index total_detections info_key detection_func =
     and_then (log_errors env (fst detection_func) (\<lambda>w. (snd detection_func wmi_service, w)))
       (\<lambda>result w.
          let (t, w1) = now env w;
              message = progress_message ok index total_detections t (fst detection_func)
          in and_then (py_print env (message @ [CHR 0x0D]))
               (\<lambda>_. and_then (py_print env [CHR 0x0A])
                  (\<lambda>_ w2. (Inr (dict_set system_info (KStr info_key) result), w2)))
               w1)"

text \<open>
  The \<^verbatim>\<open>for\<close> loop of \<^verbatim>\<open>run_detection\<close> over \<^verbatim>\<open>enumerate(detections, start=1)\<close>: the
  \<^verbatim>\<open>INITIALIZING\<close> line, \<^verbatim>\<open>time.sleep(0.02)\<close> (which changes nothing but the clock),
  then \<^verbatim>\<open>perform_detection\<close>.
\<close>

fun detection_loop ::
  "env \<Rightarrow> wmi_service \<Rightarrow> nat \<Rightarrow> (nat \<times> detection) list \<Rightarrow> (pykey \<times> pyval) list
   \<Rightarrow> (pykey \<times> pyval) list action" where
  "detection_loop env wmi_service total_detections [] system_info w = (Inr system_info, w)"
| "detection_loop env wmi_service total_detections ((idx, info_key, detection_func) # rest)
     system_info w =
     (let (t, w1) = now env w;
          message = progress_message initializing idx total_detections t (fst detection_func)
      in and_then (py_print env (message @ [CHR 0x0D]))
           (\<lambda>_. and_then
                  (perform_detection env wmi_service system_info idx total_detections info_key
                     detection_func)
                  (detection_loop env wmi_service total_detections rest))
           w1)"

definition run_detection :: "env \<Rightarrow> pyval action" where
  "run_detection env =
     log_errors env ''run_detection''
       (\<lambda>w. case wmi_WMI env of
               Inl e \<Rightarrow> (Inl e, w)
             | Inr wmi_service \<Rightarrow>
                 and_then
                   (detection_loop env wmi_service (length (detections env))
                      (enumerate 1 (detections env)) [])
                   (\<lambda>system_info.
                      and_then (clear_terminal env)
                        (\<lambda>_. and_then (print_info env (PDict system_info))
                           (\<lambda>_. generate_output env (PDict system_info))))
                   w)"

definition main :: "env \<Rightarrow> pyval action" where
  "main env =
     log_errors env ''main''
       (and_then (clear_terminal env)
          (\<lambda>_. if os_name env = ''nt'' then run_detection env
                else py_print env (''This script is only compatible with Windows Operating System.''
                                   @ [CHR 0x0A])))"

text \<open>
  Running the file as a program: the module's top level from its first to its last
  line, with the call \<^verbatim>\<open>print(example_function(1, 0))\<close> on the way.
\<close>

definition script :: "env \<Rightarrow> pyval action" where
  "script env =
     and_then (set_up_logging env)
       (\<lambda>_. and_then (example_function env 1 0)
          (\<lambda>v. and_then (py_print env (py_str v @ [CHR 0x0A])) (\<lambda>_. main env)))"

section \<open>A sample host\<close>

text \<open>
  A small host on which the definitions can be run: one object of each class, a
  built-in \<^verbatim>\<open>Guest\<close> account beside a user, one memory module of 16 GiB, and one disk
  of 1.5 GiB whose only volume has no caption. The run is over within the second the
  clock shows. \<open>cpu_fails\<close> is the same host with a processor query that raises a
  division error.
\<close>

definition sample_service :: wmi_service where
  "sample_service =
     \<lparr>Win32_ComputerSystem =
        Inr [\<lparr>cs_Caption = Some ''PC01'', cs_UserName = Some ''PC01/ann'',
              cs_Domain = Some ''WORKGROUP''\<rparr>],
      Win32_OperatingSystem = Inr [\<lparr>os_InstallDate = Some ''20230101120000.000000+000''\<rparr>],
      Win32_UserAccount =
        Inr [\<lparr>ua_Name = Some ''Guest'', ua_Domain = Some ''PC01'', ua_SID = Some ''S-1-5-21-501'',
              ua_Disabled = Some True\<rparr>,
             \<lparr>ua_Name = Some ''ann'', ua_Domain = Some ''PC01'', ua_SID = Some ''S-1-5-21-1001'',
              ua_Disabled = Some False\<rparr>],
      Win32_BaseBoard =
        Inr [\<lparr>bb_Manufacturer = Some ''ACME'', bb_Product = Some ''B450'',
              bb_SerialNumber = None\<rparr>],
      Win32_Processor =
        Inr [\<lparr>cpu_Name = Some ''CPU X'', cpu_MaxClockSpeed = Some 3600,
              cpu_NumberOfCores = Some 8, cpu_NumberOfLogicalProcessors = Some 16\<rparr>],
      Win32_PhysicalMemory =
        Inr [\<lparr>ram_Capacity = Some 17179869184, ram_Manufacturer = Some ''ACME'',
              ram_Speed = Some 3200\<rparr>],
      Win32_VideoController = Inr [\<lparr>gpu_Name = Some ''GPU Y''\<rparr>],
      Win32_DiskDrive =
        Inr [\<lparr>dd_Caption = Some ''ACME SSD 1'', dd_MediaType = Some ''Fixed hard disk media'',
              dd_Size = Some 1610612736,
              dd_partitions =
                Inr [\<lparr>dp_logical_disks =
                       Inr [\<lparr>ld_Caption = None, ld_Size = Some 1073741824,
                             ld_FreeSpace = None\<rparr>]\<rparr>]\<rparr>],
      Win32_NetworkAdapterConfiguration =
        Inr [\<lparr>nic_Description = Some ''Ethernet'', nic_IPAddress = Some [''10.0.0.2''],
              nic_IPSubnet = Some [''255.255.255.0''], nic_DefaultIPGateway = None,
              nic_DNSServerSearchOrder = Some [''10.0.0.1'', ''1.1.1.1''],
              nic_DHCPEnabled = None\<rparr>]\<rparr>"

definition sample_env :: env where
  "sample_env =
     \<lparr>os_name = ''nt'',
      wmi_WMI = Inr sample_service,
      clock = (\<lambda>n. \<lparr>dt_year = 2024, dt_month = 1, dt_day = 15, dt_hour = 10, dt_minute = 30,
                     dt_second = 0\<rparr>),
      gethostname = ''PC01'',
      script_dir = ''C:/tool'',
      path_join = (\<lambda>a b. a @ ''/'' @ b),
      makedirs_error = (\<lambda>_. None),
      open_error = (\<lambda>_. None),
      encode_error = (\<lambda>_. None),
      platform_system = ''Windows'',
      platform_architecture = ''64bit'',
      win32_ver_release = ''10'',
      win32_ver_version = ''10.0.19045'',
      days_since_install = (\<lambda>_. Inr 379)\<rparr>"

definition division_error :: exn where
  "division_error = Exn ''ZeroDivisionError'' ''division by zero''"

definition cpu_fails :: env where
  "cpu_fails = sample_env\<lparr>wmi_WMI := Inr (sample_service\<lparr>Win32_Processor := Inl division_error\<rparr>)\<rparr>"

definition sample_world :: world where
  "sample_world =
     \<lparr>tty = [], sys_stdout = Console, files = (\<lambda>_. None), dirs = {}, error_log = [], ticks = 0\<rparr>"

text \<open>
  The report of the sample host, as \<^verbatim>\<open>print_info\<close> writes it piece by piece: the
  sections before the processors, the processors, and the sections after them.
\<close>

definition report_head :: "string list" where
  "report_head =
     [CHR 0x0A # ''Host:'',
      space @ space @ ''Hostname ....... : PC01'' @ [CHR 0x0A],
      space @ space @ ''Username ....... : PC01/ann'' @ [CHR 0x0A],
      space @ space @ ''Domain ......... : WORKGROUP'' @ [CHR 0x0A],
      CHR 0x0A # ''Operation System: '',
      ''Description .... : Windows 10 64bit (10.0.19045)'' @ [CHR 0x0A],
      space @ space @ ''install_date ... : 20230101 (379 days ago)'' @ [CHR 0x0A],
      CHR 0x0A # ''Account1:'',
      space @ ''Username ....... : ann'' @ [CHR 0x0A],
      space @ space @ ''Domain ......... : PC01'' @ [CHR 0x0A],
      space @ space @ ''SID Number ..... : S-1-5-21-1001'' @ [CHR 0x0A],
      space @ space @ ''Disabled ....... : No'' @ [CHR 0x0A],
      CHR 0x0A # ''Motherboard1:'',
      space @ ''Manufacturer ... : ACME'' @ [CHR 0x0A],
      space @ space @ ''Product ........ : B450'' @ [CHR 0x0A],
      space @ space @ ''SerialNumber  .. : N/A'' @ [CHR 0x0A]]"

definition report_cpu :: "string list" where
  "report_cpu =
     [CHR 0x0A # ''CPU1:'',
      space @ space @ ''Description .... : CPU X'' @ [CHR 0x0A],
      space @ space @ ''Clock Speed .... : 3600 MHz'' @ [CHR 0x0A],
      space @ space @ ''Cores .......... : 8'' @ [CHR 0x0A],
      space @ space @ ''Threads ........ : 16'' @ [CHR 0x0A]]"

definition report_tail :: "string list" where
  "report_tail =
     [CHR 0x0A # ''RAM1:'',
      space @ space @ ''Capacity ....... : 16.0 GB'' @ [CHR 0x0A],
      space @ space @ ''Manufacturer ... : ACME'' @ [CHR 0x0A],
      space @ space @ ''Speed .......... : 3200 MHz'' @ [CHR 0x0A],
      CHR 0x0A # ''SSD1:'',
      space @ space @ ''Description .... : ACME SSD 1'' @ [CHR 0x0A],
      space @ space @ ''Size ........... : 1.5 GB'' @ [CHR 0x0A],
      space @ space @ ''Partition #1 ... : '',
      ''Letter: None'',
      '' (Size: N/A/1.0 GB)'' @ [CHR 0x0A],
      CHR 0x0A # ''GPU1:   '',
      space @ ''Description .... : GPU Y'' @ [CHR 0x0A],
      CHR 0x0A # ''NIC1:'',
      space @ space @ ''Description .... : Ethernet'' @ [CHR 0x0A],
      space @ space @ ''IP Address ..... : 10.0.0.2'' @ [CHR 0x0A],
      space @ space @ ''Subnet Mask .... : 255.255.255.0'' @ [CHR 0x0A],
      space @ space @ ''DefaultGateway . : N/A'' @ [CHR 0x0A],
      space @ space @ ''DNS Servers .... : 10.0.0.1, 1.1.1.1'' @ [CHR 0x0A],
      space @ space @ ''DHCP Enabled ... : No'' @ [CHR 0x0A]]"

definition report_path :: string where
  "report_path = ''C:/tool/info/PC01_2024-01-15_10-30-00.txt''"

text \<open>
  The same host with a logged-on user whose name has the letter e with an acute
  accent (code point 233), where the encoding of the platform lacks that letter, as the code page 932
  of a Japanese Windows does. \<open>cp932_error\<close> is what the codec of Python raises on a
  text with the letter: the error names the position of the first one.
\<close>

definition accent_name :: string where
  "accent_name = ''PC01/ren'' @ [CHR 0xE9]"

definition accent_service :: wmi_service where
  "accent_service =
     sample_service\<lparr>Win32_ComputerSystem :=
       Inr [\<lparr>cs_Caption = Some ''PC01'', cs_UserName = Some accent_name,
             cs_Domain = Some ''WORKGROUP''\<rparr>]\<rparr>"

definition cp932_error :: "string \<Rightarrow> exn option" where
  "cp932_error text =
     (if CHR 0xE9 \<in> set text
      then Some (Exn ''UnicodeEncodeError''
             (str_repr ''cp932'' @ '' codec can'' @ [CHR 0x27] @ ''t encode character ''
              @ [CHR 0x27, CHR 0x5C] @ ''xe9'' @ [CHR 0x27] @ '' in position ''
              @ str_nat (length (takeWhile (\<lambda>c. c \<noteq> CHR 0xE9) text))
              @ '': illegal multibyte sequence''))
      else None)"

definition accent_env :: env where
  "accent_env = sample_env\<lparr>wmi_WMI := Inr accent_service, encode_error := cp932_error\<rparr>"

definition accent_head :: "string list" where
  "accent_head =
     [CHR 0x0A # ''Host:'',
      space @ space @ ''Hostname ....... : PC01'' @ [CHR 0x0A],
      space @ space @ ''Username ....... : '' @ accent_name @ [CHR 0x0A],
      space @ space @ ''Domain ......... : WORKGROUP'' @ [CHR 0x0A]]"

section \<open>The fault boundary\<close>

lemma write_text_fields [simp]:
  "tty (write_text text w) = (if sys_stdout w = Console then tty w @ [Out text] else tty w)"
  "sys_stdout (write_text text w) = sys_stdout w"
  "dirs (write_text text w) = dirs w"
  "error_log (write_text text w) = error_log w"
  "ticks (write_text text w) = ticks w"
  by (simp_all add: write_text_def split: handle.splits)

lemma write_text_files:
  "files (write_text text w) =
     (case sys_stdout w of
        Console \<Rightarrow> files w
      | FileHandle p \<Rightarrow> (files w)(p \<mapsto> (case files w p of None \<Rightarrow> [] | Some c \<Rightarrow> c) @ text))"
  by (simp add: write_text_def split: handle.splits)

lemma py_print_console:
  "sys_stdout w = Console \<Longrightarrow> py_print env text w = (Inr PNone, write_text text w)"
  by (simp add: py_print_def)

lemma py_print_ascii:
  "is_ascii text \<Longrightarrow> py_print env text w = (Inr PNone, write_text text w)"
  by (simp add: py_print_def write_error_def split: handle.splits)

lemma is_ascii_append [simp]: "is_ascii (a @ b) \<longleftrightarrow> is_ascii a \<and> is_ascii b"
  by (simp add: is_ascii_def)

lemma is_ascii_Cons: "is_ascii (c # cs) \<longleftrightarrow> of_char c < (128::nat) \<and> is_ascii cs"
  by (simp add: is_ascii_def)

lemma is_ascii_Nil [simp]: "is_ascii []"
  by (simp add: is_ascii_def)

lemma is_ascii_digit: "d < 10 \<Longrightarrow> is_ascii [digit_char d]"
proof -
  assume "d < 10"
  then have "d = 0 \<or> d = 1 \<or> d = 2 \<or> d = 3 \<or> d = 4 \<or> d = 5 \<or> d = 6 \<or> d = 7
    \<or> d = 8 \<or> d = 9"
    by arith
  then show ?thesis
    by (elim disjE) (simp_all add: is_ascii_def digit_char_def)
qed

lemma is_ascii_str_nat [simp]: "is_ascii (str_nat n)"
proof (induction n rule: str_nat.induct)
  case (1 n)
  show ?case
  proof (cases "n < 10")
    case True
    then show ?thesis by (subst str_nat.simps) (simp add: is_ascii_digit del: str_nat.simps)
  next
    case False
    then have "is_ascii (str_nat (n div 10))" by (rule 1)
    moreover have "is_ascii [digit_char (n mod 10)]" by (rule is_ascii_digit) simp
    ultimately show ?thesis using False by (subst str_nat.simps) (simp del: str_nat.simps)
  qed
qed

lemma is_ascii_pad2 [simp]: "is_ascii (pad2 n)"
  by (simp add: pad2_def is_ascii_Cons del: str_nat.simps)

lemma is_ascii_strftime_time [simp]: "is_ascii sep \<Longrightarrow> is_ascii (strftime_time sep t)"
  by (simp add: strftime_time_def)

lemma is_ascii_replace_underscore [simp]: "is_ascii name \<Longrightarrow> is_ascii (replace_underscore name)"
  by (induction name) (simp_all add: replace_underscore_def is_ascii_Cons)

lemma is_ascii_line_ends [simp]: "is_ascii [CHR 0x0D]" "is_ascii [CHR 0x0A]"
  by (simp_all add: is_ascii_def)

lemma is_ascii_progress_message:
  assumes "is_ascii name"
  shows "is_ascii (progress_message initializing idx tot t name)"
    and "is_ascii (progress_message ok idx tot t name)"
  using assms
  by (simp_all add: progress_message_def initializing_def ok_def is_ascii_Cons
        del: str_nat.simps)

lemma log_error_fields [simp]:
  "tty (log_error env func e ty w) = tty w"
  "sys_stdout (log_error env func e ty w) = sys_stdout w"
  "files (log_error env func e ty w) = files w"
  "dirs (log_error env func e ty w) = dirs w"
  "ticks (log_error env func e ty w) = Suc (ticks w)"
  by (simp_all add: log_error_def now_def)

lemma log_error_log:
  "error_log (log_error env func e ty w) =
     error_log w @ [\<lparr>ed_time = strftime_date (clock env (ticks w)) @ '' ''
                              @ strftime_time '':'' (clock env (ticks w)),
                    ed_function = func, ed_type = ty, ed_error = exn_str e\<rparr>]"
  by (simp add: log_error_def now_def)

text \<open>
  C2, as the code has it. When the decorated function returns, the wrapper returns
  the same value and the same world: nothing is logged. When it raises, the wrapper
  returns \<open>None\<close> (not an empty mapping or list), appends exactly one entry that
  names the function, the lower-cased class of the exception and its message, and
  touches nothing else but the clock. In both cases the wrapper itself returns: the
  exception goes no further.
\<close>

theorem log_errors_boundary:
  "(func w = (Inr v, w') \<longrightarrow> log_errors env name func w = (Inr v, w'))
   \<and> (func w = (Inl e, w') \<longrightarrow>
        fst (log_errors env name func w) = Inr PNone
        \<and> error_log (snd (log_errors env name func w)) =
            error_log w' @ [\<lparr>ed_time = strftime_date (clock env (ticks w')) @ '' ''
                                      @ strftime_time '':'' (clock env (ticks w')),
                            ed_function = name, ed_type = py_lower (exn_type e),
                            ed_error = exn_str e\<rparr>]
        \<and> tty (snd (log_errors env name func w)) = tty w'
        \<and> files (snd (log_errors env name func w)) = files w'
        \<and> dirs (snd (log_errors env name func w)) = dirs w'
        \<and> sys_stdout (snd (log_errors env name func w)) = sys_stdout w')
   \<and> (\<exists>r. fst (log_errors env name func w) = Inr r)"
  by (cases "func w" rule: prod.exhaust; cases "fst (func w)")
     (auto simp: log_errors_def log_error_log)

theorem log_errors_boundary_witness:
  "log_errors sample_env ''gpu_detection'' (\<lambda>w. (gpu_detection sample_service, w)) sample_world
     = (gpu_detection sample_service, sample_world)
   \<and> gpu_detection sample_service = Inr (PDict [(KInt 1, PDict [(KStr ''name'', PStr ''GPU Y'')])])
   \<and> fst (log_errors sample_env ''cpu_detection'' (\<lambda>w. (Inl division_error, w)) sample_world)
       = Inr PNone
   \<and> map ed_function
        (error_log (snd (log_errors sample_env ''cpu_detection'' (\<lambda>w. (Inl division_error, w))
           sample_world))) = [''cpu_detection'']"
proof -
  have g: "gpu_detection sample_service = Inr (PDict [(KInt 1, PDict [(KStr ''name'', PStr ''GPU Y'')])])"
    by (simp add: gpu_detection_def sample_service_def on_value_def or_na_def enumerate_eq_zip)
  have ok: "(\<lambda>w. (gpu_detection sample_service, w)) sample_world
              = (Inr (PDict [(KInt 1, PDict [(KStr ''name'', PStr ''GPU Y'')])]), sample_world)"
    by (simp add: g)
  have bad: "(\<lambda>w. (Inl division_error, w)) sample_world = (Inl division_error, sample_world)"
    by simp
  from log_errors_boundary [where func = "\<lambda>w. (gpu_detection sample_service, w)"
        and w = sample_world and w' = sample_world and env = sample_env
        and name = "''gpu_detection''"] ok
  have 1: "log_errors sample_env ''gpu_detection'' (\<lambda>w. (gpu_detection sample_service, w)) sample_world
             = (gpu_detection sample_service, sample_world)"
    by (simp add: g)
  from log_errors_boundary [where func = "\<lambda>w. (Inl division_error, w)"
        and w = sample_world and w' = sample_world and e = division_error and env = sample_env
        and name = "''cpu_detection''"] bad
  have 2: "fst (log_errors sample_env ''cpu_detection'' (\<lambda>w. (Inl division_error, w)) sample_world)
             = Inr PNone"
    and 3: "map ed_function
        (error_log (snd (log_errors sample_env ''cpu_detection'' (\<lambda>w. (Inl division_error, w))
           sample_world))) = [''cpu_detection'']"
    by (simp_all add: sample_world_def)
  from 1 g 2 3 show ?thesis by simp
qed

text \<open>
  C2 as the specification states it fails: on the sample host with the failing
  processor query, the decorated \<^verbatim>\<open>cpu_detection\<close> returns \<open>None\<close>, which is neither
  an empty mapping nor an empty list.
\<close>

theorem log_errors_default_counterexample:
  "fst (log_errors cpu_fails ''cpu_detection''
         (\<lambda>w. (cpu_detection (sample_service\<lparr>Win32_Processor := Inl division_error\<rparr>), w))
         sample_world) = Inr PNone
   \<and> PNone \<noteq> PDict [] \<and> PNone \<noteq> PList []"
  by (simp add: log_errors_def cpu_detection_def on_value_def)

section \<open>Printing, the loop and the run, step by step\<close>

lemma now_eq: "now env w = (clock env (ticks w), w\<lparr>ticks := Suc (ticks w)\<rparr>)"
  by (simp add: now_def)

lemma on_handle_simps [simp]:
  "on_handle env h [] = []"
  "on_handle env h (Inl e # rest) = Inl e # on_handle env h rest"
  "on_handle env Console ss = ss"
  "on_handle env (FileHandle p) (Inr text # rest) =
     (case write_error env text of Some e \<Rightarrow> Inl e | None \<Rightarrow> Inr text)
     # on_handle env (FileHandle p) rest"
  by (simp_all add: on_handle_def to_file_def split: handle.splits)

lemma on_handle_file: "on_handle env (FileHandle p) ss = to_file env ss"
  by (simp add: on_handle_def)

lemma run_prints_eq:
  "run_prints env ss w =
     ((case raised (on_handle env (sys_stdout w) ss) of None \<Rightarrow> Inr PNone | Some e \<Rightarrow> Inl e),
      foldl (\<lambda>w text. write_text text w) w (printed (on_handle env (sys_stdout w) ss)))"
proof (induction env ss w rule: run_prints.induct)
  case (1 env w)
  show ?case by simp
next
  case (2 env e rest w)
  show ?case by simp
next
  case (3 env t rest w)
  show ?case
  proof (cases "sys_stdout w")
    case Console
    then show ?thesis
      using 3 [of "Inr PNone" "write_text t w" PNone] by (simp add: py_print_console)
  next
    case (FileHandle p)
    show ?thesis
    proof (cases "write_error env t")
      case None
      then have "py_print env t w = (Inr PNone, write_text t w)"
        using FileHandle by (simp add: py_print_def)
      then show ?thesis
        using 3 [of "Inr PNone" "write_text t w" PNone] FileHandle None by simp
    next
      case (Some e)
      then have "py_print env t w = (Inl e, w)"
        using FileHandle by (simp add: py_print_def)
      then show ?thesis
        using FileHandle Some by simp
    qed
  qed
qed

lemma prints_fields [simp]:
  "sys_stdout (foldl (\<lambda>w text. write_text text w) w ts) = sys_stdout w"
  "dirs (foldl (\<lambda>w text. write_text text w) w ts) = dirs w"
  "error_log (foldl (\<lambda>w text. write_text text w) w ts) = error_log w"
  "ticks (foldl (\<lambda>w text. write_text text w) w ts) = ticks w"
  by (induction ts arbitrary: w) simp_all

lemma prints_tty:
  "tty (foldl (\<lambda>w text. write_text text w) w ts) =
     (if sys_stdout w = Console then tty w @ map Out ts else tty w)"
  by (induction ts arbitrary: w) simp_all

lemma prints_files_console:
  "sys_stdout w = Console \<Longrightarrow> files (foldl (\<lambda>w text. write_text text w) w ts) = files w"
  by (induction ts arbitrary: w) (simp_all add: write_text_files)

lemma prints_files_handle:
  "sys_stdout w = FileHandle p \<Longrightarrow> files w p = Some c \<Longrightarrow>
   files (foldl (\<lambda>w text. write_text text w) w ts) = (files w)(p \<mapsto> c @ concat ts)"
proof (induction ts arbitrary: w c)
  case Nil
  then show ?case by (simp add: fun_upd_idem)
next
  case (Cons t ts)
  have "files (write_text t w) = (files w)(p \<mapsto> c @ t)"
    using Cons.prems by (simp add: write_text_files)
  moreover have "sys_stdout (write_text t w) = FileHandle p"
    using Cons.prems by simp
  ultimately show ?case
    using Cons.IH [of "write_text t w" "c @ t"] by (simp add: fun_eq_iff)
qed

lemma print_info_eq:
  "print_info env system_info w =
     (Inr PNone,
      (case raised (on_handle env (sys_stdout w) (print_statements system_info)) of
         None \<Rightarrow> foldl (\<lambda>w text. write_text text w) w
                   (printed (on_handle env (sys_stdout w) (print_statements system_info)))
       | Some e \<Rightarrow>
           log_error env ''print_info'' e (py_lower (exn_type e))
             (foldl (\<lambda>w text. write_text text w) w
                (printed (on_handle env (sys_stdout w) (print_statements system_info))))))"
  by (simp add: print_info_def log_errors_def run_prints_eq split: option.splits)

lemma perform_detection_eq:
  assumes "is_ascii name"
  shows "perform_detection env svc si idx tot key (name, f) w =
     (let w0 = (case f svc of Inl e \<Rightarrow> log_error env name e (py_lower (exn_type e)) w | Inr v \<Rightarrow> w)
      in (Inr (dict_set si (KStr key) (case f svc of Inl e \<Rightarrow> PNone | Inr v \<Rightarrow> v)),
          write_text [CHR 0x0A]
            (write_text (progress_message ok idx tot (clock env (ticks w0)) name @ [CHR 0x0D])
               (w0\<lparr>ticks := Suc (ticks w0)\<rparr>))))"
  by (simp add: perform_detection_def and_then_def log_errors_def now_def Let_def
        py_print_ascii is_ascii_progress_message [OF assms] split: sum.splits)

lemma loop_step:
  assumes "is_ascii name"
  shows "detection_loop env svc tot ((idx, key, name, f) # rest) si w =
     (let w1 = write_text (progress_message initializing idx tot (clock env (ticks w)) name @ [CHR 0x0D])
                 (w\<lparr>ticks := Suc (ticks w)\<rparr>);
          w0 = (case f svc of Inl e \<Rightarrow> log_error env name e (py_lower (exn_type e)) w1 | Inr v \<Rightarrow> w1);
          w2 = write_text [CHR 0x0A]
                 (write_text (progress_message ok idx tot (clock env (ticks w0)) name @ [CHR 0x0D])
                    (w0\<lparr>ticks := Suc (ticks w0)\<rparr>))
      in detection_loop env svc tot rest
           (dict_set si (KStr key) (case f svc of Inl e \<Rightarrow> PNone | Inr v \<Rightarrow> v)) w2)"
  by (simp add: perform_detection_eq [OF assms] and_then_def now_def Let_def
        py_print_ascii is_ascii_progress_message [OF assms])

text \<open>
  The names of the probes are ASCII, so the progress lines are written wherever
  \<^verbatim>\<open>sys.stdout\<close> points. The lemmas on the loop hold for every list of probes with
  such names.
\<close>

lemma loop_value:
  assumes "\<forall>d\<in>set ds. is_ascii (fst (snd (snd d)))"
  shows "fst (detection_loop env svc tot ds si w) =
     Inr (foldl (\<lambda>si (idx, key, name, f).
            dict_set si (KStr key) (case f svc of Inl e \<Rightarrow> PNone | Inr v \<Rightarrow> v)) si ds)"
  using assms
proof (induction ds arbitrary: si w)
  case Nil
  show ?case by simp
next
  case (Cons d ds)
  obtain idx key name f where d: "d = (idx, key, name, f)" by (cases d) auto
  have n: "is_ascii name" and r: "\<forall>d\<in>set ds. is_ascii (fst (snd (snd d)))"
    using Cons.prems by (simp_all add: d)
  show ?case unfolding d
    by (simp add: loop_step [OF n] Let_def Cons.IH [OF r] del: detection_loop.simps)
qed

lemma loop_unchanged:
  assumes "\<forall>d\<in>set ds. is_ascii (fst (snd (snd d)))"
  shows "sys_stdout (snd (detection_loop env svc tot ds si w)) = sys_stdout w
   \<and> dirs (snd (detection_loop env svc tot ds si w)) = dirs w
   \<and> (sys_stdout w = Console \<longrightarrow> files (snd (detection_loop env svc tot ds si w)) = files w)"
  using assms
proof (induction ds arbitrary: si w)
  case Nil
  show ?case by simp
next
  case (Cons d ds)
  obtain idx key name f where d: "d = (idx, key, name, f)" by (cases d) auto
  have n: "is_ascii name" and r: "\<forall>d\<in>set ds. is_ascii (fst (snd (snd d)))"
    using Cons.prems by (simp_all add: d)
  show ?case unfolding d
    by (simp add: loop_step [OF n] Let_def Cons.IH [OF r] write_text_files
          del: detection_loop.simps split: sum.splits)
qed

lemma loop_log:
  assumes "\<forall>d\<in>set ds. is_ascii (fst (snd (snd d)))"
  shows "\<exists>new. error_log (snd (detection_loop env svc tot ds si w)) = error_log w @ new
     \<and> map (\<lambda>r. (ed_function r, ed_type r, ed_error r)) new =
         concat (map (\<lambda>(idx, key, name, f).
           case f svc of Inl e \<Rightarrow> [(name, py_lower (exn_type e), exn_str e)] | Inr v \<Rightarrow> []) ds)"
  using assms
proof (induction ds arbitrary: si w)
  case Nil
  show ?case by simp
next
  case (Cons d ds)
  obtain idx key name f where d: "d = (idx, key, name, f)" by (cases d) auto
  have n: "is_ascii name" and r: "\<forall>d\<in>set ds. is_ascii (fst (snd (snd d)))"
    using Cons.prems by (simp_all add: d)
  define w1 where "w1 = write_text (progress_message initializing idx tot (clock env (ticks w)) name @ [CHR 0x0D])
                 (w\<lparr>ticks := Suc (ticks w)\<rparr>)"
  define w0 where "w0 = (case f svc of Inl e \<Rightarrow> log_error env name e (py_lower (exn_type e)) w1 | Inr v \<Rightarrow> w1)"
  define w2 where "w2 = write_text [CHR 0x0A]
                 (write_text (progress_message ok idx tot (clock env (ticks w0)) name @ [CHR 0x0D])
                    (w0\<lparr>ticks := Suc (ticks w0)\<rparr>))"
  define si' where "si' = dict_set si (KStr key) (case f svc of Inl e \<Rightarrow> PNone | Inr v \<Rightarrow> v)"
  have step: "detection_loop env svc tot (d # ds) si w = detection_loop env svc tot ds si' w2"
    unfolding d si'_def w2_def w0_def w1_def by (simp only: loop_step [OF n] Let_def)
  obtain first where first: "error_log w2 = error_log w @ first"
    and pf: "map (\<lambda>r. (ed_function r, ed_type r, ed_error r)) first =
               (case f svc of Inl e \<Rightarrow> [(name, py_lower (exn_type e), exn_str e)] | Inr v \<Rightarrow> [])"
    by (cases "f svc") (simp_all add: w2_def w0_def w1_def log_error_log)
  from Cons.IH [OF r, of si' w2] obtain new where new: "error_log (snd (detection_loop env svc tot ds si' w2)) = error_log w2 @ new"
    and pn: "map (\<lambda>r. (ed_function r, ed_type r, ed_error r)) new =
         concat (map (\<lambda>(idx, key, name, f).
           case f svc of Inl e \<Rightarrow> [(name, py_lower (exn_type e), exn_str e)] | Inr v \<Rightarrow> []) ds)"
    by blast
  have "error_log (snd (detection_loop env svc tot (d # ds) si w)) = error_log w @ (first @ new)"
    unfolding step new first by simp
  moreover have "map (\<lambda>r. (ed_function r, ed_type r, ed_error r)) (first @ new) =
         concat (map (\<lambda>(idx, key, name, f).
           case f svc of Inl e \<Rightarrow> [(name, py_lower (exn_type e), exn_str e)] | Inr v \<Rightarrow> []) (d # ds))"
    by (simp add: pf pn d)
  ultimately show ?case by blast
qed

text \<open>
  The progress lines of the loop, with the time stamps they carry: the \<open>k\<close>-th
  readings of the clock, for numbers \<open>k\<close> that grow from each line to the next.
\<close>

lemma loop_tty:
  assumes "sys_stdout w = Console"
    and "\<forall>d\<in>set ds. is_ascii (fst (snd (snd d)))"
  shows "\<exists>ks. length ks = length ds
     \<and> tty (snd (detection_loop env svc tot ds si w)) =
         tty w @ concat (map (\<lambda>((idx, key, name, f), (k1, k2)).
           [Out (progress_message initializing idx tot (clock env k1) name @ [CHR 0x0D]),
            Out (progress_message ok idx tot (clock env k2) name @ [CHR 0x0D]),
            Out [CHR 0x0A]]) (zip ds ks))
     \<and> sorted_wrt (<) (concat (map (\<lambda>(k1, k2). [k1, k2]) ks))
     \<and> (\<forall>k\<in>set (concat (map (\<lambda>(k1, k2). [k1, k2]) ks)). ticks w \<le> k)"
  using assms
proof (induction ds arbitrary: si w)
  case Nil
  show ?case by simp
next
  case (Cons d ds)
  obtain idx key name f where d: "d = (idx, key, name, f)" by (cases d) auto
  have n: "is_ascii name" and r: "\<forall>d\<in>set ds. is_ascii (fst (snd (snd d)))"
    using Cons.prems(2) by (simp_all add: d)
  define w1 where "w1 = write_text (progress_message initializing idx tot (clock env (ticks w)) name @ [CHR 0x0D])
                 (w\<lparr>ticks := Suc (ticks w)\<rparr>)"
  define w0 where "w0 = (case f svc of Inl e \<Rightarrow> log_error env name e (py_lower (exn_type e)) w1 | Inr v \<Rightarrow> w1)"
  define w2 where "w2 = write_text [CHR 0x0A]
                 (write_text (progress_message ok idx tot (clock env (ticks w0)) name @ [CHR 0x0D])
                    (w0\<lparr>ticks := Suc (ticks w0)\<rparr>))"
  define si' where "si' = dict_set si (KStr key) (case f svc of Inl e \<Rightarrow> PNone | Inr v \<Rightarrow> v)"
  have step: "detection_loop env svc tot (d # ds) si w = detection_loop env svc tot ds si' w2"
    unfolding d si'_def w2_def w0_def w1_def by (simp only: loop_step [OF n] Let_def)
  have c0: "sys_stdout w0 = Console" and t0: "tty w0 = tty w @ [Out (progress_message initializing idx tot (clock env (ticks w)) name @ [CHR 0x0D])]"
    using Cons.prems(1) by (cases "f svc"; simp add: w0_def w1_def)+
  have k0: "ticks w < ticks w0"
    by (cases "f svc") (simp_all add: w0_def w1_def)
  have c2: "sys_stdout w2 = Console"
    and t2: "tty w2 = tty w @ [Out (progress_message initializing idx tot (clock env (ticks w)) name @ [CHR 0x0D]),
                               Out (progress_message ok idx tot (clock env (ticks w0)) name @ [CHR 0x0D]),
                               Out [CHR 0x0A]]"
    and k2: "ticks w2 = Suc (ticks w0)"
    using c0 t0 by (simp_all add: w2_def)
  from Cons.IH [OF c2 r, of si'] obtain ks where len: "length ks = length ds"
    and tl: "tty (snd (detection_loop env svc tot ds si' w2)) =
         tty w2 @ concat (map (\<lambda>((idx, key, name, f), (k1, k2)).
           [Out (progress_message initializing idx tot (clock env k1) name @ [CHR 0x0D]),
            Out (progress_message ok idx tot (clock env k2) name @ [CHR 0x0D]),
            Out [CHR 0x0A]]) (zip ds ks))"
    and sorted: "sorted_wrt (<) (concat (map (\<lambda>(k1, k2). [k1, k2]) ks))"
    and later: "\<forall>k\<in>set (concat (map (\<lambda>(k1, k2). [k1, k2]) ks)). ticks w2 \<le> k"
    by blast
  let ?ks = "(ticks w, ticks w0) # ks"
  have "length ?ks = length (d # ds)" by (simp add: len)
  moreover have "tty (snd (detection_loop env svc tot (d # ds) si w)) =
         tty w @ concat (map (\<lambda>((idx, key, name, f), (k1, k2)).
           [Out (progress_message initializing idx tot (clock env k1) name @ [CHR 0x0D]),
            Out (progress_message ok idx tot (clock env k2) name @ [CHR 0x0D]),
            Out [CHR 0x0A]]) (zip (d # ds) ?ks))"
    unfolding step tl t2 by (simp add: d)
  moreover have "sorted_wrt (<) (concat (map (\<lambda>(k1, k2). [k1, k2]) ?ks))"
    using sorted later k0 k2 by fastforce
  moreover have "\<forall>k\<in>set (concat (map (\<lambda>(k1, k2). [k1, k2]) ?ks)). ticks w \<le> k"
    using later k0 k2 by fastforce
  ultimately show ?case by blast
qed

lemma detections_ascii: "\<forall>d\<in>set (enumerate 1 (detections env)). is_ascii (fst (snd (snd d)))"
  by (simp add: detections_def is_ascii_def)

lemma clear_terminal_eq:
  "clear_terminal env w =
     (Inr PNone, w\<lparr>tty := tty w @ [Shell (if os_name env = ''nt'' then ''cls'' else ''clear'')]\<rparr>)"
  by (simp add: clear_terminal_def log_errors_def)

lemma generate_output_eq:
  "generate_output env si w =
     (Inr PNone,
      (case (if info_dir env \<in> dirs w then None else makedirs_error env (info_dir env)) of
         Some e \<Rightarrow> log_error env ''generate_output'' e (py_lower (exn_type e)) w
       | None \<Rightarrow>
           (case open_error env (output_file_path env (clock env (ticks w))) of
              Some e \<Rightarrow>
                log_error env ''generate_output'' e (py_lower (exn_type e))
                  (w\<lparr>dirs := insert (info_dir env) (dirs w), ticks := Suc (ticks w)\<rparr>)
            | None \<Rightarrow>
                write_text (success_message (output_file_path env (clock env (ticks w))) @ [CHR 0x0A])
                  ((snd (print_info env si
                      (w\<lparr>dirs := insert (info_dir env) (dirs w), ticks := Suc (ticks w),
                         files := (files w)(output_file_path env (clock env (ticks w)) \<mapsto> []),
                         sys_stdout := FileHandle (output_file_path env (clock env (ticks w)))\<rparr>)))
                   \<lparr>sys_stdout := Console\<rparr>))))"
  by (simp add: generate_output_def log_errors_def now_def print_info_eq py_print_console
        split: option.splits)

lemma run_detection_eq:
  assumes "wmi_WMI env = Inr svc"
  shows "run_detection env w =
     (Inr PNone,
      snd (generate_output env
             (PDict (foldl (\<lambda>si (idx, key, name, f).
                dict_set si (KStr key) (case f svc of Inl e \<Rightarrow> PNone | Inr v \<Rightarrow> v)) []
                (enumerate 1 (detections env))))
             (snd (print_info env
                (PDict (foldl (\<lambda>si (idx, key, name, f).
                   dict_set si (KStr key) (case f svc of Inl e \<Rightarrow> PNone | Inr v \<Rightarrow> v)) []
                   (enumerate 1 (detections env))))
                (snd (clear_terminal env
                   (snd (detection_loop env svc (length (detections env))
                      (enumerate 1 (detections env)) [] w))))))))"
proof -
  define si where "si = foldl (\<lambda>si (idx, key, name, f).
                dict_set si (KStr key) (case f svc of Inl e \<Rightarrow> PNone | Inr v \<Rightarrow> v)) []
                (enumerate 1 (detections env))"
  define wl where "wl = snd (detection_loop env svc (length (detections env))
                      (enumerate 1 (detections env)) [] w)"
  define wc where "wc = snd (clear_terminal env wl)"
  define wp where "wp = snd (print_info env (PDict si) wc)"
  define wg where "wg = snd (generate_output env (PDict si) wp)"
  have l: "detection_loop env svc (length (detections env)) (enumerate 1 (detections env)) [] w
             = (Inr si, wl)"
    using loop_value [where ds = "enumerate 1 (detections env)" and env = env and svc = svc
        and tot = "length (detections env)" and si = "[]" and w = w, OF detections_ascii]
    unfolding si_def wl_def by (simp only: prod_eq_iff fst_conv snd_conv simp_thms)
  have c: "clear_terminal env wl = (Inr PNone, wc)"
    unfolding wc_def by (simp only: clear_terminal_eq snd_conv)
  have p: "print_info env (PDict si) wc = (Inr PNone, wp)"
    unfolding wp_def by (simp only: print_info_eq snd_conv)
  have g: "generate_output env (PDict si) wp = (Inr PNone, wg)"
    unfolding wg_def by (simp only: generate_output_eq snd_conv)
  have "run_detection env w = (Inr PNone, wg)"
    by (simp only: run_detection_def log_errors_def assms and_then_def sum.case prod.case l c p g)
  then show ?thesis
    unfolding wg_def wp_def wc_def wl_def si_def .
qed

section \<open>The snapshot and the progress lines\<close>

lemma detections_enumerated:
  "enumerate 1 (detections env) =
     [(1, ''host_info'', ''host_detection'', host_detection),
      (2, ''account_info'', ''account_detection'', account_detection),
      (3, ''os_info'', ''os_detection'', os_detection env),
      (4, ''motherboard_info'', ''motherboard_detection'', motherboard_detection),
      (5, ''cpu_info'', ''cpu_detection'', cpu_detection),
      (6, ''ram_info'', ''ram_detection'', ram_detection),
      (7, ''gpu_info'', ''gpu_detection'', gpu_detection),
      (8, ''storage_info'', ''storage_detection'', storage_detection),
      (9, ''nic_info'', ''nic_detection'', nic_detection)]"
  by (simp add: detections_def)

lemma detections_length: "length (detections env) = 9"
  by (simp add: detections_def)

text \<open>The dictionary the loop builds: each key with the result of its probe, or \<open>None\<close>.\<close>

lemma loop_snapshot:
  "fst (detection_loop env svc (length (detections env)) (enumerate 1 (detections env)) [] w) =
     Inr [(KStr ''host_info'', case host_detection svc of Inl e \<Rightarrow> PNone | Inr v \<Rightarrow> v),
          (KStr ''account_info'', case account_detection svc of Inl e \<Rightarrow> PNone | Inr v \<Rightarrow> v),
          (KStr ''os_info'', case os_detection env svc of Inl e \<Rightarrow> PNone | Inr v \<Rightarrow> v),
          (KStr ''motherboard_info'', case motherboard_detection svc of Inl e \<Rightarrow> PNone | Inr v \<Rightarrow> v),
          (KStr ''cpu_info'', case cpu_detection svc of Inl e \<Rightarrow> PNone | Inr v \<Rightarrow> v),
          (KStr ''ram_info'', case ram_detection svc of Inl e \<Rightarrow> PNone | Inr v \<Rightarrow> v),
          (KStr ''gpu_info'', case gpu_detection svc of Inl e \<Rightarrow> PNone | Inr v \<Rightarrow> v),
          (KStr ''storage_info'', case storage_detection svc of Inl e \<Rightarrow> PNone | Inr v \<Rightarrow> v),
          (KStr ''nic_info'', case nic_detection svc of Inl e \<Rightarrow> PNone | Inr v \<Rightarrow> v)]"
proof -
  have "fst (detection_loop env svc (length (detections env)) (enumerate 1 (detections env)) [] w) =
     Inr (foldl (\<lambda>si (idx, key, name, f).
            dict_set si (KStr key) (case f svc of Inl e \<Rightarrow> PNone | Inr v \<Rightarrow> v)) []
            (enumerate 1 (detections env)))"
    by (rule loop_value [OF detections_ascii])
  also have "\<dots> =
     Inr [(KStr ''host_info'', case host_detection svc of Inl e \<Rightarrow> PNone | Inr v \<Rightarrow> v),
          (KStr ''account_info'', case account_detection svc of Inl e \<Rightarrow> PNone | Inr v \<Rightarrow> v),
          (KStr ''os_info'', case os_detection env svc of Inl e \<Rightarrow> PNone | Inr v \<Rightarrow> v),
          (KStr ''motherboard_info'', case motherboard_detection svc of Inl e \<Rightarrow> PNone | Inr v \<Rightarrow> v),
          (KStr ''cpu_info'', case cpu_detection svc of Inl e \<Rightarrow> PNone | Inr v \<Rightarrow> v),
          (KStr ''ram_info'', case ram_detection svc of Inl e \<Rightarrow> PNone | Inr v \<Rightarrow> v),
          (KStr ''gpu_info'', case gpu_detection svc of Inl e \<Rightarrow> PNone | Inr v \<Rightarrow> v),
          (KStr ''storage_info'', case storage_detection svc of Inl e \<Rightarrow> PNone | Inr v \<Rightarrow> v),
          (KStr ''nic_info'', case nic_detection svc of Inl e \<Rightarrow> PNone | Inr v \<Rightarrow> v)]"
    unfolding detections_enumerated by simp
  finally show ?thesis .
qed

text \<open>
  C3. Whatever the probes do, the loop of \<^verbatim>\<open>run_detection\<close> ends with a dictionary
  whose keys are exactly the nine declared ones, in the declared order: none is
  missing and there is no other.
\<close>

theorem snapshot_has_nine_keys:
  "\<exists>system_info.
     fst (detection_loop env wmi_service (length (detections env))
            (enumerate 1 (detections env)) [] w) = Inr system_info
     \<and> map fst system_info =
         [KStr ''host_info'', KStr ''account_info'', KStr ''os_info'', KStr ''motherboard_info'',
          KStr ''cpu_info'', KStr ''ram_info'', KStr ''gpu_info'', KStr ''storage_info'',
          KStr ''nic_info'']"
  unfolding loop_snapshot by simp

text \<open>
  C7. With \<^verbatim>\<open>sys.stdout\<close> on the terminal, the loop writes 27 texts and nothing else:
  for the nine probes in the declared order, the \<^verbatim>\<open>INITIALIZING\<close> line of the probe,
  then its \<^verbatim>\<open>OK\<close> line, then a newline. Each line carries its mark in colour, the
  number of the probe out of 9, the time and the name of the probe with its
  underscore replaced by a space, and ends with a carriage return. There is one pair
  per probe, the start before the completion, whether the probe raised or not. Only
  the times depend on the run: they are readings of the clock, each later than the
  one before.
\<close>

theorem progress_events_in_order:
  assumes "sys_stdout w = Console"
  shows "\<exists>ks. length ks = 9
     \<and> sorted_wrt (<) (concat (map (\<lambda>(k1, k2). [k1, k2]) ks))
     \<and> tty (snd (detection_loop env wmi_service (length (detections env))
                  (enumerate 1 (detections env)) [] w)) =
         tty w @ concat (map (\<lambda>((index, probe), (k1, k2)).
           [Out (''['' @ [CHR 0x1B] @ ''[93mINITIALIZING'' @ [CHR 0x1B] @ ''[0m] ''
                 @ [CHR 0x1B] @ ''[93m'' @ index @ ''/9'' @ [CHR 0x1B] @ ''[0m > ''
                 @ [CHR 0x1B] @ ''[93m'' @ pad2 (dt_hour (clock env k1)) @ '':''
                 @ pad2 (dt_minute (clock env k1)) @ '':'' @ pad2 (dt_second (clock env k1))
                 @ [CHR 0x1B] @ ''[0m > '' @ probe @ [CHR 0x0D]),
            Out (''['' @ [CHR 0x1B] @ ''[92m     OK     '' @ [CHR 0x1B] @ ''[0m] ''
                 @ [CHR 0x1B] @ ''[93m'' @ index @ ''/9'' @ [CHR 0x1B] @ ''[0m > ''
                 @ [CHR 0x1B] @ ''[93m'' @ pad2 (dt_hour (clock env k2)) @ '':''
                 @ pad2 (dt_minute (clock env k2)) @ '':'' @ pad2 (dt_second (clock env k2))
                 @ [CHR 0x1B] @ ''[0m > '' @ probe @ [CHR 0x0D]),
            Out [CHR 0x0A]])
           (zip [(''1'', ''host detection''), (''2'', ''account detection''),
                 (''3'', ''os detection''), (''4'', ''motherboard detection''),
                 (''5'', ''cpu detection''), (''6'', ''ram detection''),
                 (''7'', ''gpu detection''), (''8'', ''storage detection''),
                 (''9'', ''nic detection'')] ks))"
proof -
  from loop_tty [where ds = "enumerate 1 (detections env)" and env = env and svc = wmi_service
        and tot = "length (detections env)" and si = "[]", OF assms detections_ascii]
  obtain ks where len: "length ks = length (enumerate 1 (detections env))"
    and t: "tty (snd (detection_loop env wmi_service (length (detections env))
                  (enumerate 1 (detections env)) [] w)) =
         tty w @ concat (map (\<lambda>((idx, key, name, f), (k1, k2)).
           [Out (progress_message initializing idx (length (detections env)) (clock env k1) name
                 @ [CHR 0x0D]),
            Out (progress_message ok idx (length (detections env)) (clock env k2) name
                 @ [CHR 0x0D]),
            Out [CHR 0x0A]]) (zip (enumerate 1 (detections env)) ks))"
    and sorted: "sorted_wrt (<) (concat (map (\<lambda>(k1, k2). [k1, k2]) ks))"
    by blast
  have len9: "length ks = 9"
    using len by (simp add: detections_length)
  then obtain a b c d e f g h i where ks: "ks = [a, b, c, d, e, f, g, h, i]"
    by (auto simp: length_Suc_conv numeral_eq_Suc)
  have "tty (snd (detection_loop env wmi_service (length (detections env))
                  (enumerate 1 (detections env)) [] w)) =
         tty w @ concat (map (\<lambda>((index, probe), (k1, k2)).
           [Out (''['' @ [CHR 0x1B] @ ''[93mINITIALIZING'' @ [CHR 0x1B] @ ''[0m] ''
                 @ [CHR 0x1B] @ ''[93m'' @ index @ ''/9'' @ [CHR 0x1B] @ ''[0m > ''
                 @ [CHR 0x1B] @ ''[93m'' @ pad2 (dt_hour (clock env k1)) @ '':''
                 @ pad2 (dt_minute (clock env k1)) @ '':'' @ pad2 (dt_second (clock env k1))
                 @ [CHR 0x1B] @ ''[0m > '' @ probe @ [CHR 0x0D]),
            Out (''['' @ [CHR 0x1B] @ ''[92m     OK     '' @ [CHR 0x1B] @ ''[0m] ''
                 @ [CHR 0x1B] @ ''[93m'' @ index @ ''/9'' @ [CHR 0x1B] @ ''[0m > ''
                 @ [CHR 0x1B] @ ''[93m'' @ pad2 (dt_hour (clock env k2)) @ '':''
                 @ pad2 (dt_minute (clock env k2)) @ '':'' @ pad2 (dt_second (clock env k2))
                 @ [CHR 0x1B] @ ''[0m > '' @ probe @ [CHR 0x0D]),
            Out [CHR 0x0A]])
           (zip [(''1'', ''host detection''), (''2'', ''account detection''),
                 (''3'', ''os detection''), (''4'', ''motherboard detection''),
                 (''5'', ''cpu detection''), (''6'', ''ram detection''),
                 (''7'', ''gpu detection''), (''8'', ''storage detection''),
                 (''9'', ''nic detection'')] ks))"
    apply (subst t)
    unfolding detections_enumerated detections_length ks
    by (simp add: case_prod_unfold progress_message_def initializing_def ok_def
          strftime_time_def replace_underscore_def digit_char_def)
  with len9 sorted show ?thesis by blast
qed

text \<open>
  On the sample host with the failing processor query, where the clock shows
  10:30:00 throughout: the first pair, and the pair of the probe that raises.
\<close>

theorem progress_events_in_order_witness:
  "sys_stdout sample_world = Console
   \<and> take 3 (tty (snd (detection_loop cpu_fails
                 (sample_service\<lparr>Win32_Processor := Inl division_error\<rparr>)
                 (length (detections cpu_fails)) (enumerate 1 (detections cpu_fails)) []
                 sample_world))) =
       [Out (''['' @ [CHR 0x1B] @ ''[93mINITIALIZING'' @ [CHR 0x1B] @ ''[0m] '' @ [CHR 0x1B]
             @ ''[93m1/9'' @ [CHR 0x1B] @ ''[0m > '' @ [CHR 0x1B] @ ''[93m10:30:00'' @ [CHR 0x1B]
             @ ''[0m > host detection'' @ [CHR 0x0D]),
        Out (''['' @ [CHR 0x1B] @ ''[92m     OK     '' @ [CHR 0x1B] @ ''[0m] '' @ [CHR 0x1B]
             @ ''[93m1/9'' @ [CHR 0x1B] @ ''[0m > '' @ [CHR 0x1B] @ ''[93m10:30:00'' @ [CHR 0x1B]
             @ ''[0m > host detection'' @ [CHR 0x0D]),
        Out [CHR 0x0A]]
   \<and> take 3 (drop 12 (tty (snd (detection_loop cpu_fails
                 (sample_service\<lparr>Win32_Processor := Inl division_error\<rparr>)
                 (length (detections cpu_fails)) (enumerate 1 (detections cpu_fails)) []
                 sample_world)))) =
       [Out (''['' @ [CHR 0x1B] @ ''[93mINITIALIZING'' @ [CHR 0x1B] @ ''[0m] '' @ [CHR 0x1B]
             @ ''[93m5/9'' @ [CHR 0x1B] @ ''[0m > '' @ [CHR 0x1B] @ ''[93m10:30:00'' @ [CHR 0x1B]
             @ ''[0m > cpu detection'' @ [CHR 0x0D]),
        Out (''['' @ [CHR 0x1B] @ ''[92m     OK     '' @ [CHR 0x1B] @ ''[0m] '' @ [CHR 0x1B]
             @ ''[93m5/9'' @ [CHR 0x1B] @ ''[0m > '' @ [CHR 0x1B] @ ''[93m10:30:00'' @ [CHR 0x1B]
             @ ''[0m > cpu detection'' @ [CHR 0x0D]),
        Out [CHR 0x0A]]
   \<and> length (tty (snd (detection_loop cpu_fails
                 (sample_service\<lparr>Win32_Processor := Inl division_error\<rparr>)
                 (length (detections cpu_fails)) (enumerate 1 (detections cpu_fails)) []
                 sample_world))) = 27"
proof -
  have c: "sys_stdout sample_world = Console"
    by (simp add: sample_world_def)
  have t: "tty sample_world = []"
    by (simp add: sample_world_def)
  have clock: "dt_hour (clock cpu_fails k) = 10" "dt_minute (clock cpu_fails k) = 30"
    "dt_second (clock cpu_fails k) = 0" for k
    by (simp_all add: cpu_fails_def sample_env_def)
  from progress_events_in_order [OF c, of cpu_fails
        "sample_service\<lparr>Win32_Processor := Inl division_error\<rparr>"]
  obtain ks :: "(nat \<times> nat) list" where all: "length ks = 9
    \<and> sorted_wrt (<) (concat (map (\<lambda>(k1, k2). [k1, k2]) ks))
    \<and> tty (snd (detection_loop cpu_fails
                 (sample_service\<lparr>Win32_Processor := Inl division_error\<rparr>)
                 (length (detections cpu_fails)) (enumerate 1 (detections cpu_fails)) []
                 sample_world)) =
         concat (map (\<lambda>((index, probe), (k1, k2)).
           [Out (''['' @ [CHR 0x1B] @ ''[93mINITIALIZING'' @ [CHR 0x1B] @ ''[0m] ''
                 @ [CHR 0x1B] @ ''[93m'' @ index @ ''/9'' @ [CHR 0x1B] @ ''[0m > ''
                 @ [CHR 0x1B] @ ''[93m'' @ pad2 10 @ '':'' @ pad2 30 @ '':'' @ pad2 0
                 @ [CHR 0x1B] @ ''[0m > '' @ probe @ [CHR 0x0D]),
            Out (''['' @ [CHR 0x1B] @ ''[92m     OK     '' @ [CHR 0x1B] @ ''[0m] ''
                 @ [CHR 0x1B] @ ''[93m'' @ index @ ''/9'' @ [CHR 0x1B] @ ''[0m > ''
                 @ [CHR 0x1B] @ ''[93m'' @ pad2 10 @ '':'' @ pad2 30 @ '':'' @ pad2 0
                 @ [CHR 0x1B] @ ''[0m > '' @ probe @ [CHR 0x0D]),
            Out [CHR 0x0A]])
           (zip [(''1'', ''host detection''), (''2'', ''account detection''),
                 (''3'', ''os detection''), (''4'', ''motherboard detection''),
                 (''5'', ''cpu detection''), (''6'', ''ram detection''),
                 (''7'', ''gpu detection''), (''8'', ''storage detection''),
                 (''9'', ''nic detection'')] ks))"
    unfolding t append_Nil clock ..
  note len = all [THEN conjunct1] and tty = all [THEN conjunct2, THEN conjunct2]
  from len obtain a b c d e f g h i where ks: "ks = [a, b, c, d, e, f, g, h, i]"
    by (auto simp: length_Suc_conv numeral_eq_Suc)
  show ?thesis
    unfolding tty ks using c
    by (simp add: case_prod_unfold pad2_def digit_char_def)
qed

section \<open>The account probe\<close>

lemma dict_set_fresh: "k \<notin> fst ` set kvs \<Longrightarrow> dict_set kvs k v = kvs @ [(k, v)]"
  by (induction kvs) auto

lemma enumerate_Cons: "enumerate n (x # xs) = (n, x) # enumerate (Suc n) xs"
  by simp


lemma for_each_dict_set_enumerate:
  assumes "\<And>idx x acc. x \<in> set xs \<Longrightarrow> body (idx, x) acc = Inr (dict_set acc (KInt (int idx)) (g x))"
    and "\<forall>i\<ge>n. KInt (int i) \<notin> fst ` set acc"
  shows "for_each body (enumerate n xs) acc =
           Inr (acc @ map (\<lambda>(idx, x). (KInt (int idx), g x)) (enumerate n xs))"
  using assms
proof (induction xs arbitrary: acc n)
  case Nil
  show ?case by simp
next
  case (Cons x xs)
  have fresh: "KInt (int n) \<notin> fst ` set acc"
    using Cons.prems(2) by simp
  have next_fresh: "\<forall>i\<ge>Suc n. KInt (int i) \<notin> fst ` set (acc @ [(KInt (int n), g x)])"
    using Cons.prems(2) by auto
  have step: "body (n, x) acc = Inr (acc @ [(KInt (int n), g x)])"
    using Cons.prems(1) [of x n acc] by (simp add: dict_set_fresh [OF fresh])
  have rest: "for_each body (enumerate (Suc n) xs) (acc @ [(KInt (int n), g x)]) =
           Inr ((acc @ [(KInt (int n), g x)]) @ map (\<lambda>(idx, x). (KInt (int idx), g x)) (enumerate (Suc n) xs))"
    by (rule Cons.IH [OF _ next_fresh]) (simp add: Cons.prems(1))
  show ?case
    by (simp add: step rest)
qed



lemma raised_append:
  "raised (xs @ ys) = (case raised xs of None \<Rightarrow> raised ys | Some e \<Rightarrow> Some e)"
  by (induction xs rule: raised.induct) simp_all


lemma fstring_Inr: "fstring (map Inr ss) = Inr (concat ss)"
  by (induction ss) (simp_all add: on_value_def)

lemma py_str_PStr [simp]: "py_str (PStr s) = s"
  by (simp add: py_str_def)







section \<open>Rounding to doubles\<close>

lemma round_half_even_of_int [simp]: "round_half_even (of_int k) = k"
  by (simp add: round_half_even_def)

lemma round_half_even_close: "\<bar>of_int (round_half_even x) - x\<bar> \<le> 1 / 2"
proof -
  have "of_int \<lfloor>x\<rfloor> \<le> x" "x < of_int \<lfloor>x\<rfloor> + 1"
    by linarith+
  then show ?thesis
    by (auto simp: round_half_even_def Let_def)
qed

lemma ilog2_lower:
  assumes "q \<noteq> 0"
  shows "2 powi (ilog2 q) \<le> \<bar>q\<bar>"
proof -
  obtain a b where ab: "quotient_of \<bar>q\<bar> = (a, b)"
    by (cases "quotient_of \<bar>q\<bar>")
  have b: "0 < b"
    using ab by (rule quotient_of_denom_pos)
  have q: "\<bar>q\<bar> = of_int a / of_int b"
    using ab by (rule quotient_of_div)
  have a: "0 < a"
  proof -
    have "0 < \<bar>q\<bar>" using assms by simp
    then have "0 < (of_int a :: rat) / of_int b" by (simp add: q)
    then show ?thesis using b by (simp add: zero_less_divide_iff)
  qed
  let ?d = "bitlen a - bitlen b"
  show ?thesis
  proof (cases "2 powi ?d \<le> \<bar>q\<bar>")
    case True
    then show ?thesis by (simp add: ilog2_def ab)
  next
    case False
    then have i: "ilog2 q = ?d - 1" by (simp add: ilog2_def ab)
    have la: "1 \<le> bitlen a" using a by (simp add: bitlen_alt_def)
    have "(2::int) ^ nat (bitlen a - 1) \<le> a"
      using bitlen_bounds [OF a] by simp
    then have "(of_int ((2::int) ^ nat (bitlen a - 1)) :: rat) \<le> of_int a"
      by (simp only: of_int_le_iff)
    then have lo: "(2::rat) powi (bitlen a - 1) \<le> of_int a"
      using la by (simp add: power_int_def)
    have "b < (2::int) ^ nat (bitlen b)"
      using bitlen_bounds [OF b] by simp
    then have "(of_int b :: rat) < of_int ((2::int) ^ nat (bitlen b))"
      by (simp only: of_int_less_iff)
    then have hi: "of_int b \<le> (2::rat) powi (bitlen b)"
      using bitlen_nonneg [of b] by (simp add: power_int_def)
    have "?d - 1 = (bitlen a - 1) - bitlen b" by simp
    then have "(2::rat) powi (?d - 1) = 2 powi (bitlen a - 1) / 2 powi (bitlen b)"
      by (simp only: power_int_diff [of "2::rat", simplified])
    also have "\<dots> \<le> of_int a / of_int b"
      using lo hi b a by (intro frac_le) simp_all
    finally show ?thesis by (simp add: i q)
  qed
qed

lemma to_double_exact:
  assumes m: "\<bar>m\<bar> < 2 ^ 53" and e: "- 1074 \<le> e"
  shows "to_double (of_int m * 2 powi e) = of_int m * 2 powi e"
proof (cases "m = 0")
  case True
  then show ?thesis by (simp add: to_double_def)
next
  case False
  let ?q = "(of_int m :: rat) * 2 powi e"
  have q0: "?q \<noteq> 0" using False by simp
  define p where "p = max (ilog2 ?q - 52) (- 1074)"
  have "2 powi (ilog2 ?q) \<le> \<bar>?q\<bar>" using q0 by (rule ilog2_lower)
  also have "\<bar>?q\<bar> = of_int \<bar>m\<bar> * 2 powi e"
    by (simp add: abs_mult power_int_abs)
  also have "\<dots> < of_int (2 ^ 53) * 2 powi e"
    using m by (intro mult_strict_right_mono) (simp_all only: of_int_less_iff zero_less_power_int zero_less_numeral)
  also have "\<dots> = 2 powi (53 + e)"
    by (simp add: power_int_add)
  finally have lt: "(2::rat) powi (ilog2 ?q) < 2 powi (53 + e)" .
  have "ilog2 ?q < 53 + e"
  proof (rule ccontr)
    assume "\<not> ilog2 ?q < 53 + e"
    then have "53 + e \<le> ilog2 ?q" by simp
    then have "(2::rat) powi (53 + e) \<le> 2 powi (ilog2 ?q)"
      by (intro power_int_increasing) simp_all
    with lt show False by simp
  qed
  then have pe: "p \<le> e" using e by (simp add: p_def)
  have "?q / 2 powi p = of_int m * 2 powi (e - p)"
    by (simp add: power_int_diff)
  also have "\<dots> = of_int (m * 2 ^ nat (e - p))"
    using pe by (simp add: power_int_def)
  finally have "round_half_even (?q / 2 powi p) = m * 2 ^ nat (e - p)"
    by (simp only: round_half_even_of_int)
  then have "to_double ?q = of_int (m * 2 ^ nat (e - p)) * 2 powi p"
    using q0 by (simp add: to_double_def p_def Let_def)
  also have "\<dots> = of_int m * (2 powi (e - p) * 2 powi p)"
    using pe by (simp add: power_int_def)
  also have "2 powi (e - p) * (2::rat) powi p = 2 powi e"
    by (simp flip: power_int_add)
  finally show ?thesis .
qed

lemma to_double_bound: "\<bar>to_double x\<bar> \<le> 2 * \<bar>x\<bar> + 1"
proof (cases "x = 0")
  case True
  then show ?thesis by (simp add: to_double_def)
next
  case False
  define p where "p = max (ilog2 x - 52) (- 1074)"
  have pp: "(0::rat) < 2 powi p" by (simp add: zero_less_power_int)
  have small: "(2::rat) powi p \<le> \<bar>x\<bar> + 1"
  proof (cases "ilog2 x - 52 \<le> - 1074")
    case True
    then have "p = - 1074" by (simp add: p_def)
    then have "(2::rat) powi p \<le> 1"
      by (simp add: power_int_minus field_simps)
    then show ?thesis by linarith
  next
    case False
    then have "p = ilog2 x - 52" by (simp add: p_def)
    then have "(2::rat) powi p \<le> 2 powi (ilog2 x)"
      by (simp add: power_int_increasing)
    also have "\<dots> \<le> \<bar>x\<bar>" using \<open>x \<noteq> 0\<close> by (rule ilog2_lower)
    finally show ?thesis by linarith
  qed
  have r: "\<bar>of_int (round_half_even (x / 2 powi p)) - x / 2 powi p\<bar> \<le> 1 / 2"
    by (rule round_half_even_close)
  have "to_double x = of_int (round_half_even (x / 2 powi p)) * 2 powi p"
    using False by (simp add: to_double_def p_def Let_def)
  also have "\<dots> = x + (of_int (round_half_even (x / 2 powi p)) - x / 2 powi p) * 2 powi p"
    using pp by (simp add: field_simps)
  finally have td: "to_double x = x + (of_int (round_half_even (x / 2 powi p)) - x / 2 powi p) * 2 powi p" .
  have "\<bar>to_double x\<bar> \<le> \<bar>x\<bar> + \<bar>(of_int (round_half_even (x / 2 powi p)) - x / 2 powi p) * 2 powi p\<bar>"
    unfolding td by (rule abs_triangle_ineq)
  also have "\<dots> = \<bar>x\<bar> + \<bar>of_int (round_half_even (x / 2 powi p)) - x / 2 powi p\<bar> * 2 powi p"
    using pp by (simp add: abs_mult)
  also have "\<dots> \<le> \<bar>x\<bar> + 1 / 2 * 2 powi p"
    using r pp by (intro add_left_mono mult_right_mono) simp_all
  also have "\<dots> \<le> 2 * \<bar>x\<bar> + 1"
    using small by linarith
  finally show ?thesis .
qed

lemma round_half_even_numeral [simp]: "round_half_even (numeral k) = numeral k"
  using round_half_even_of_int [of "numeral k"] by simp

lemma no_overflow:
  assumes "\<bar>x\<bar> < 2 ^ 60"
  shows "\<not> overflows (to_double x)"
proof -
  have "\<bar>to_double x\<bar> \<le> 2 * \<bar>x\<bar> + 1" by (rule to_double_bound)
  also have "\<dots> < 2 * 2 ^ 60 + 2 ^ 60" using assms by simp
  also have "\<dots> \<le> (2::rat) ^ 62" by simp
  also have "\<dots> \<le> 2 ^ 1024" by (rule power_increasing) simp_all
  finally have "\<bar>to_double x\<bar> < 2 ^ 1024" .
  then show ?thesis unfolding overflows_def by (simp only: not_le)
qed

lemma gib_exact:
  assumes "n < 2 ^ 53"
  shows "py_truediv (int n) (1024 ^ 3) = Inr (Fin (of_nat n / 2 ^ 30))"
proof -
  have q: "(of_int (int n) :: rat) / of_int (1024 ^ 3) = of_int (int n) * 2 powi (- 30)"
    by (simp add: power_int_minus field_simps)
  have "\<bar>int n\<bar> < 2 ^ 53" using assms by simp
  then have t: "to_double (of_int (int n) * 2 powi (- 30)) = of_int (int n) * 2 powi (- 30)"
    by (rule to_double_exact) simp
  have v: "(of_int (int n) :: rat) * 2 powi (- 30) = of_nat n / 2 ^ 30"
    by (simp add: power_int_minus field_simps)
  have "(of_nat n :: rat) < 2 ^ 53" using of_nat_less_iff [where 'a = rat, of n "2 ^ 53"] assms by simp
  then have "\<bar>(of_nat n :: rat) / 2 ^ 30\<bar> < 2 ^ 60"
    by (simp add: field_simps)
  then have o: "\<not> overflows (to_double (of_nat n / 2 ^ 30))"
    by (rule no_overflow)
  have t': "to_double (of_nat n / 2 ^ 30) = of_nat n / 2 ^ 30"
    using t unfolding v .
  have r: "to_double (of_int (int n) / of_int (1024 ^ 3)) = of_nat n / 2 ^ 30"
    by (simp only: q v t')
  have o': "\<not> overflows (of_nat n / 2 ^ 30)"
    using o unfolding t' .
  have z: "(1024::int) ^ 3 \<noteq> 0" "\<not> (1024::int) ^ 3 < 0" "\<not> int n < 0"
    by simp_all
  show ?thesis
    unfolding py_truediv_def Let_def r by (simp only: z o' if_False simp_thms)
qed

lemma round_gib_value:
  assumes "n < 2 ^ 53"
  shows "round_gib n d =
     Inr (PFloat (Fin (to_double (of_int (round_half_even (of_nat n / 2 ^ 30 * 10 ^ d)) / 10 ^ d))))"
proof -
  let ?q = "(of_nat n :: rat) / 2 ^ 30"
  let ?k = "round_half_even (?q * 10 ^ d)"
  have n: "(of_nat n :: rat) < 2 ^ 53" using of_nat_less_iff [where 'a = rat, of n "2 ^ 53"] assms by simp
  have q0: "0 \<le> ?q" by simp
  have q1: "?q < 2 ^ 23" using n by (simp add: field_simps)
  have "\<bar>of_int ?k - ?q * 10 ^ d\<bar> \<le> 1 / 2" by (rule round_half_even_close)
  then have "\<bar>of_int ?k / 10 ^ d - ?q\<bar> \<le> 1 / 2 / 10 ^ d"
    by (simp add: field_simps abs_le_iff)
  also have "\<dots> \<le> (1::rat)"
  proof -
    have "(1::rat) \<le> 10 ^ d" by (rule one_le_power) simp
    then have "(1::rat) \<le> 2 * 10 ^ d" by linarith
    then show ?thesis by (simp add: field_simps)
  qed
  finally have "\<bar>(of_int ?k :: rat) / 10 ^ d - ?q\<bar> \<le> 1" .
  then have "\<bar>(of_int ?k :: rat) / 10 ^ d\<bar> \<le> ?q + 1"
    using q0 by linarith
  also have "?q + 1 < 2 ^ 60"
    using q1 by simp
  finally have "\<bar>(of_int ?k :: rat) / 10 ^ d\<bar> < 2 ^ 60" .
  then have o: "\<not> overflows (to_double (of_int ?k / 10 ^ d))"
    by (rule no_overflow)
  have neg: "\<not> ?q < 0" using q0 by simp
  show ?thesis
    unfolding round_gib_def gib_exact [OF assms] on_value_def py_round_def
    using o neg by (simp add: Let_def)
qed

lemma round_gib_0:
  assumes "n < 2 ^ 53"
  shows "round_gib n 0 = Inr (PFloat (Fin (of_int (round_half_even (of_nat n / 2 ^ 30)))))"
proof -
  let ?q = "(of_nat n :: rat) / 2 ^ 30"
  let ?k = "round_half_even ?q"
  have n: "(of_nat n :: rat) < 2 ^ 53" using of_nat_less_iff [where 'a = rat, of n "2 ^ 53"] assms by simp
  have q0: "0 \<le> ?q" by simp
  have q1: "?q < 2 ^ 23" using n by (simp add: field_simps)
  have "\<bar>of_int ?k - ?q\<bar> \<le> 1 / 2" by (rule round_half_even_close)
  then have "\<bar>(of_int ?k :: rat)\<bar> \<le> ?q + 1 / 2" using q0 by linarith
  also have "\<dots> < 2 ^ 53" using q1 by simp
  finally have "\<bar>(of_int ?k :: rat)\<bar> < 2 ^ 53" .
  then have "(of_int \<bar>?k\<bar> :: rat) < of_int (2 ^ 53)" by simp
  then have "\<bar>?k\<bar> < 2 ^ 53" by (simp only: of_int_less_iff)
  then have "to_double (of_int ?k * 2 powi 0) = of_int ?k * 2 powi 0"
    by (rule to_double_exact) simp
  then show ?thesis
    by (simp add: round_gib_value [OF assms])
qed

lemma sixteen_gib: "round_gib 17179869184 2 = Inr (PFloat (Fin 16))"
proof -
  have "to_double (of_int 16 * 2 powi 0) = of_int 16 * 2 powi 0"
    by (rule to_double_exact) simp_all
  then show ?thesis
    by (simp add: round_gib_value)
qed

lemma one_and_a_half_gib: "round_gib 1610612736 2 = Inr (PFloat (Fin (3 / 2)))"
proof -
  have "to_double (of_int 3 * 2 powi (- 1)) = of_int 3 * 2 powi (- 1)"
    by (rule to_double_exact) simp_all
  then show ?thesis
    by (simp add: round_gib_value power_int_minus)
qed

section \<open>The sizes the probes store\<close>

lemma round_gib_rounded:
  assumes "n < 2 ^ 53"
  shows "round_gib n d = Inr (PFloat (Fin (rounded_gib d n)))"
  by (simp add: round_gib_value [OF assms] rounded_gib_def)

lemma rounded_gib_whole:
  assumes "n < 2 ^ 53"
  shows "rounded_gib 0 n = of_int (round_half_even (of_nat n / 2 ^ 30))"
  using round_gib_0 [OF assms] round_gib_rounded [OF assms, of 0] by simp

lemma rounded_gib_close:
  "\<bar>of_int (round_half_even (of_nat n / 2 ^ 30 * 10 ^ d)) / 10 ^ d - of_nat n / 2 ^ 30\<bar>
     \<le> (1 / 2 / 10 ^ d :: rat)"
proof -
  have "\<bar>of_int (round_half_even (of_nat n / 2 ^ 30 * 10 ^ d)) - of_nat n / 2 ^ 30 * 10 ^ d\<bar>
          \<le> (1 / 2 :: rat)"
    by (rule round_half_even_close)
  then show ?thesis
    by (simp add: field_simps abs_le_iff)
qed

lemma to_double_numeral:
  assumes "(numeral k :: int) < 2 ^ 53"
  shows "to_double (numeral k) = numeral k"
proof -
  have "\<bar>numeral k :: int\<bar> < 2 ^ 53" using assms by simp
  then have "to_double (of_int (numeral k) * 2 powi 0) = of_int (numeral k) * 2 powi 0"
    by (rule to_double_exact) simp
  then show ?thesis by simp
qed

lemma sample_sizes:
  "rounded_gib 2 17179869184 = 16"
  "rounded_gib 2 1610612736 = 3 / 2"
  "rounded_gib 0 1610612736 = 2"
  "rounded_gib 0 1073741824 = 1"
proof -
  have h: "to_double (of_int 3 * 2 powi (- 1)) = of_int 3 * 2 powi (- 1)"
    by (rule to_double_exact) simp_all
  have o: "to_double (of_int 1 * 2 powi 0) = of_int 1 * 2 powi 0"
    by (rule to_double_exact) simp_all
  show "rounded_gib 2 17179869184 = 16"
    by (simp add: rounded_gib_def to_double_numeral)
  show "rounded_gib 2 1610612736 = 3 / 2"
    using h by (simp add: rounded_gib_def power_int_minus)
  have f: "\<lfloor>3 / 2 :: rat\<rfloor> = 1"
    by (rule floor_unique) simp_all
  show "rounded_gib 0 1610612736 = 2"
    by (simp add: rounded_gib_def round_half_even_def Let_def f to_double_numeral)
  show "rounded_gib 0 1073741824 = 1"
    using o round_half_even_of_int [of 1] by (simp add: rounded_gib_def)
qed

lemma sample_reprs:
  "float_repr (Fin 16) = ''16.0''"
  "float_repr (Fin (3 / 2)) = ''1.5''"
  "float_repr (Fin 1) = ''1.0''"
  by code_simp+

lemma size_or_na_value:
  assumes "small x"
  shows "size_or_na x d = Inr (size_value d x)"
  using assms
  by (cases x) (simp_all add: size_or_na_def size_value_def small_def round_gib_rounded)

lemma ram_detection_value:
  assumes "Win32_PhysicalMemory svc = Inr rams"
    and "\<forall>ram\<in>set rams. \<exists>n<2 ^ 53. ram_Capacity ram = Some n"
  shows "ram_detection svc =
     Inr (PDict (map (\<lambda>(idx, ram).
       (KInt (int idx),
        PDict [(KStr ''capacity'', PFloat (Fin (rounded_gib 2 (the (ram_Capacity ram))))),
               (KStr ''manufacturer'', or_na (ram_Manufacturer ram)),
               (KStr ''speed'', nat_or_na (ram_Speed ram))])) (enumerate 1 rams)))"
proof -
  have "for_each (\<lambda>(idx, ram) ram_info.
                 on_value (int_of_field (ram_Capacity ram))
                   (\<lambda>bytes. on_value (round_gib bytes 2)
                      (\<lambda>capacity.
                         Inr (dict_set ram_info (KInt (int idx))
                           (PDict [(KStr ''capacity'', capacity),
                                   (KStr ''manufacturer'', or_na (ram_Manufacturer ram)),
                                   (KStr ''speed'', nat_or_na (ram_Speed ram))])))))
               (enumerate 1 rams) [] =
        Inr ([] @ map (\<lambda>(idx, ram).
       (KInt (int idx),
        PDict [(KStr ''capacity'', PFloat (Fin (rounded_gib 2 (the (ram_Capacity ram))))),
               (KStr ''manufacturer'', or_na (ram_Manufacturer ram)),
               (KStr ''speed'', nat_or_na (ram_Speed ram))])) (enumerate 1 rams))"
  proof (rule for_each_dict_set_enumerate)
    fix idx :: nat and x acc
    assume "x \<in> set rams"
    then obtain n where n: "n < 2 ^ 53" "ram_Capacity x = Some n"
      using assms(2) by blast
    show "(case (idx, x) of (idx, ram) \<Rightarrow> \<lambda>ram_info.
                 on_value (int_of_field (ram_Capacity ram))
                   (\<lambda>bytes. on_value (round_gib bytes 2)
                      (\<lambda>capacity.
                         Inr (dict_set ram_info (KInt (int idx))
                           (PDict [(KStr ''capacity'', capacity),
                                   (KStr ''manufacturer'', or_na (ram_Manufacturer ram)),
                                   (KStr ''speed'', nat_or_na (ram_Speed ram))]))))) acc =
          Inr (dict_set acc (KInt (int idx))
            (PDict [(KStr ''capacity'', PFloat (Fin (rounded_gib 2 (the (ram_Capacity x))))),
               (KStr ''manufacturer'', or_na (ram_Manufacturer x)),
               (KStr ''speed'', nat_or_na (ram_Speed x))]))"
      by (simp add: n(2) int_of_field_def on_value_def round_gib_rounded [OF n(1)])
  qed simp
  then show ?thesis
    by (simp add: ram_detection_def assms(1) on_value_def)
qed

lemma for_each_collect:
  assumes "\<And>x. x \<in> set xs \<Longrightarrow> E x = Inr (g x)"
  shows "for_each (\<lambda>x acc. on_value (E x) (\<lambda>info. Inr (acc @ [info]))) xs acc = Inr (acc @ map g xs)"
  using assms by (induction xs arbitrary: acc) (simp_all add: on_value_def)

lemma for_each_nested:
  assumes "\<And>x. x \<in> set xs \<Longrightarrow> inner x = Inr (items_of x)"
    and "\<And>x acc. x \<in> set xs \<Longrightarrow> body (items_of x) acc = Inr (acc @ h x)"
  shows "for_each (\<lambda>x acc. on_value (inner x) (\<lambda>ys. body ys acc)) xs acc =
           Inr (acc @ concat (map h xs))"
  using assms by (induction xs arbitrary: acc) (simp_all add: on_value_def)

lemma partition_info_value:
  assumes "small (ld_Size ld)" "small (ld_FreeSpace ld)"
  shows "partition_info ld = Inr (partition_value ld)"
  by (simp add: partition_info_def partition_value_def on_value_def size_or_na_value assms)

lemma disk_partitions_value:
  assumes "dd_partitions disk = Inr ps"
    and "\<forall>p\<in>set ps. \<exists>lds. dp_logical_disks p = Inr lds
           \<and> (\<forall>ld\<in>set lds. small (ld_Size ld) \<and> small (ld_FreeSpace ld))"
  shows "disk_partitions disk =
     Inr (concat (map (\<lambda>p. map partition_value (projr (dp_logical_disks p))) ps))"
proof -
  have "for_each (\<lambda>partition acc.
              on_value (dp_logical_disks partition)
                (\<lambda>logical_disks.
                   for_each (\<lambda>logical_disk acc'.
                       on_value (partition_info logical_disk) (\<lambda>info. Inr (acc' @ [info])))
                     logical_disks acc))
            ps [] = Inr ([] @ concat (map (\<lambda>p. map partition_value (projr (dp_logical_disks p))) ps))"
  proof (rule for_each_nested [where items_of = "\<lambda>p. projr (dp_logical_disks p)"])
    fix x assume "x \<in> set ps"
    then show "dp_logical_disks x = Inr (projr (dp_logical_disks x))"
      using assms(2) by force
  next
    fix x acc assume "x \<in> set ps"
    then have "\<forall>ld\<in>set (projr (dp_logical_disks x)). small (ld_Size ld) \<and> small (ld_FreeSpace ld)"
      using assms(2) by force
    then show "for_each (\<lambda>logical_disk acc'.
                 on_value (partition_info logical_disk) (\<lambda>info. Inr (acc' @ [info])))
               (projr (dp_logical_disks x)) acc =
             Inr (acc @ map partition_value (projr (dp_logical_disks x)))"
      by (intro for_each_collect) (simp add: partition_info_value)
  qed
  then show ?thesis
    by (simp add: disk_partitions_def assms(1) on_value_def)
qed

lemma storage_detection_value:
  assumes "Win32_DiskDrive svc = Inr disks"
    and "\<forall>disk\<in>set disks. small (dd_Size disk)
           \<and> (\<exists>ps. dd_partitions disk = Inr ps
                \<and> (\<forall>p\<in>set ps. \<exists>lds. dp_logical_disks p = Inr lds
                      \<and> (\<forall>ld\<in>set lds. small (ld_Size ld) \<and> small (ld_FreeSpace ld))))"
  shows "storage_detection svc =
     Inr (PDict (map (\<lambda>(idx, disk).
       (KInt (int idx),
        PDict [(KStr ''name'', or_na (dd_Caption disk)),
               (KStr ''size'', size_value 2 (dd_Size disk)),
               (KStr ''type'', PStr (disk_type disk)),
               (KStr ''partitions'',
                PList (concat (map (\<lambda>p. map partition_value (projr (dp_logical_disks p)))
                         (projr (dd_partitions disk)))))])) (enumerate 1 disks)))"
proof -
  have "for_each (\<lambda>(idx, disk) storage_info.
                 on_value (size_or_na (dd_Size disk) 2)
                   (\<lambda>size. on_value (disk_partitions disk)
                      (\<lambda>partitions.
                         Inr (dict_set storage_info (KInt (int idx))
                           (PDict [(KStr ''name'', or_na (dd_Caption disk)),
                                   (KStr ''size'', size),
                                   (KStr ''type'', PStr (disk_type disk)),
                                   (KStr ''partitions'', PList partitions)])))))
               (enumerate 1 disks) [] =
        Inr ([] @ map (\<lambda>(idx, disk).
       (KInt (int idx),
        PDict [(KStr ''name'', or_na (dd_Caption disk)),
               (KStr ''size'', size_value 2 (dd_Size disk)),
               (KStr ''type'', PStr (disk_type disk)),
               (KStr ''partitions'',
                PList (concat (map (\<lambda>p. map partition_value (projr (dp_logical_disks p)))
                         (projr (dd_partitions disk)))))])) (enumerate 1 disks))"
  proof (rule for_each_dict_set_enumerate)
    fix idx :: nat and x acc
    assume x: "x \<in> set disks"
    then have s: "small (dd_Size x)" using assms(2) by blast
    from x obtain ps where ps: "dd_partitions x = Inr ps"
      and lds: "\<forall>p\<in>set ps. \<exists>lds. dp_logical_disks p = Inr lds
                      \<and> (\<forall>ld\<in>set lds. small (ld_Size ld) \<and> small (ld_FreeSpace ld))"
      using assms(2) by blast
    show "(case (idx, x) of (idx, disk) \<Rightarrow> \<lambda>storage_info.
                 on_value (size_or_na (dd_Size disk) 2)
                   (\<lambda>size. on_value (disk_partitions disk)
                      (\<lambda>partitions.
                         Inr (dict_set storage_info (KInt (int idx))
                           (PDict [(KStr ''name'', or_na (dd_Caption disk)),
                                   (KStr ''size'', size),
                                   (KStr ''type'', PStr (disk_type disk)),
                                   (KStr ''partitions'', PList partitions)]))))) acc =
          Inr (dict_set acc (KInt (int idx))
            (PDict [(KStr ''name'', or_na (dd_Caption x)),
               (KStr ''size'', size_value 2 (dd_Size x)),
               (KStr ''type'', PStr (disk_type x)),
               (KStr ''partitions'',
                PList (concat (map (\<lambda>p. map partition_value (projr (dp_logical_disks p)))
                         (projr (dd_partitions x)))))]))"
      by (simp add: on_value_def size_or_na_value [OF s] disk_partitions_value [OF ps lds] ps)
  qed simp
  then show ?thesis
    by (simp add: storage_detection_def assms(1) on_value_def)
qed

section \<open>The probes and the report on the sample host\<close>

lemma sample_host:
  "host_detection sample_service =
     Inr (PDict [(KStr ''hostname'', PStr ''PC01''), (KStr ''username'', PStr ''PC01/ann''),
                 (KStr ''domain'', PStr ''WORKGROUP'')])"
  by (simp add: host_detection_def sample_service_def on_value_def or_na_def)

lemma sample_account:
  "account_detection sample_service =
     Inr (PDict [(KInt 1, PDict [(KStr ''username'', PStr ''ann''), (KStr ''domain'', PStr ''PC01''),
                                (KStr ''sid'', PStr ''S-1-5-21-1001''),
                                (KStr ''disabled'', PStr ''No'')])])"
  by (simp add: account_detection_def sample_service_def on_value_def or_na_def account_entry_def
        py_lower_def lower_char_def uppercase_def lowercase_def excluded_accounts_def)

lemma sample_os:
  "os_detection sample_env sample_service =
     Inr (PDict [(KStr ''install_date'', PStr ''20230101 (379 days ago)''),
                 (KStr ''name'', PStr ''Windows''), (KStr ''architecture'', PStr ''64bit''),
                 (KStr ''version'', PStr ''10''), (KStr ''version_info'', PStr ''10.0.19045'')])"
  by (simp add: os_detection_def sample_service_def sample_env_def on_value_def or_na_def
        str_int_def digit_char_def)

lemma sample_motherboard:
  "motherboard_detection sample_service =
     Inr (PDict [(KInt 1, PDict [(KStr ''manufacturer'', PStr ''ACME''), (KStr ''model'', PStr ''B450''),
                                (KStr ''serial_number'', PStr ''N/A'')])])"
  by (simp add: motherboard_detection_def sample_service_def on_value_def or_na_def)

lemma sample_cpu:
  "cpu_detection sample_service =
     Inr (PDict [(KInt 1, PDict [(KStr ''name'', PStr ''CPU X''),
                                (KStr ''max_clock_speed'', PStr ''3600 MHz''),
                                (KStr ''cores'', PInt 8), (KStr ''threads'', PInt 16)])])"
  by (simp add: cpu_detection_def sample_service_def on_value_def or_na_def nat_or_na_def
        digit_char_def)

lemma sample_ram:
  "ram_detection sample_service =
     Inr (PDict [(KInt 1, PDict [(KStr ''capacity'', PFloat (Fin 16)),
                                (KStr ''manufacturer'', PStr ''ACME''), (KStr ''speed'', PInt 3200)])])"
proof -
  have "ram_detection sample_service =
     Inr (PDict (map (\<lambda>(idx, ram).
       (KInt (int idx),
        PDict [(KStr ''capacity'', PFloat (Fin (rounded_gib 2 (the (ram_Capacity ram))))),
               (KStr ''manufacturer'', or_na (ram_Manufacturer ram)),
               (KStr ''speed'', nat_or_na (ram_Speed ram))]))
       (enumerate 1 [\<lparr>ram_Capacity = Some 17179869184, ram_Manufacturer = Some ''ACME'',
              ram_Speed = Some 3200\<rparr>])))"
    by (rule ram_detection_value) (simp_all add: sample_service_def)
  then show ?thesis
    by (simp add: sample_sizes or_na_def nat_or_na_def)
qed

lemma sample_gpu:
  "gpu_detection sample_service = Inr (PDict [(KInt 1, PDict [(KStr ''name'', PStr ''GPU Y'')])])"
  by (simp add: gpu_detection_def sample_service_def on_value_def or_na_def)

lemma sample_storage:
  "storage_detection sample_service =
     Inr (PDict [(KInt 1, PDict [(KStr ''name'', PStr ''ACME SSD 1''),
                                (KStr ''size'', PFloat (Fin (3 / 2))),
                                (KStr ''type'', PStr ''SSD''),
                                (KStr ''partitions'',
                                 PList [PDict [(KStr ''name'', PNone),
                                               (KStr ''total_size'', PFloat (Fin 1)),
                                               (KStr ''free_size'', PStr ''N/A'')]])])])"
proof -
  let ?disks = "[\<lparr>dd_Caption = Some ''ACME SSD 1'', dd_MediaType = Some ''Fixed hard disk media'',
              dd_Size = Some 1610612736,
              dd_partitions =
                Inr [\<lparr>dp_logical_disks =
                       Inr [\<lparr>ld_Caption = None, ld_Size = Some 1073741824,
                             ld_FreeSpace = None\<rparr>]\<rparr>]\<rparr>]"
  have "storage_detection sample_service =
     Inr (PDict (map (\<lambda>(idx, disk).
       (KInt (int idx),
        PDict [(KStr ''name'', or_na (dd_Caption disk)),
               (KStr ''size'', size_value 2 (dd_Size disk)),
               (KStr ''type'', PStr (disk_type disk)),
               (KStr ''partitions'',
                PList (concat (map (\<lambda>p. map partition_value (projr (dp_logical_disks p)))
                         (projr (dd_partitions disk)))))])) (enumerate 1 ?disks)))"
    by (rule storage_detection_value) (simp_all add: sample_service_def small_def)
  then show ?thesis
    by (simp add: sample_sizes or_na_def size_value_def partition_value_def disk_type_def)
qed

lemma sample_nic:
  "nic_detection sample_service =
     Inr (PDict [(KInt 1, PDict [(KStr ''description'', PStr ''Ethernet''),
                                (KStr ''ip_address'', PStr ''10.0.0.2''),
                                (KStr ''subnet_mask'', PStr ''255.255.255.0''),
                                (KStr ''default_gateway'', PStr ''N/A''),
                                (KStr ''dns_servers'', PTuple [PStr ''10.0.0.1'', PStr ''1.1.1.1'']),
                                (KStr ''dhcp_enabled'', PNone)])])"
  by (simp add: nic_detection_def sample_service_def on_value_def or_na_def first_or_na_def)

lemma print_statements_nine:
  "print_statements
     (PDict [(KStr ''host_info'', h), (KStr ''account_info'', a), (KStr ''os_info'', os),
             (KStr ''motherboard_info'', m), (KStr ''cpu_info'', c), (KStr ''ram_info'', r),
             (KStr ''gpu_info'', g), (KStr ''storage_info'', s), (KStr ''nic_info'', n)]) =
     print_host h @ print_os os @ print_accounts a @ print_motherboards m @ print_cpus c
     @ print_rams r @ print_storages s @ print_gpus g @ print_nics n"
  by (simp add: print_statements_def subscript_def on_value_def)

lemmas print_simps =
  lit_def print_line_def field_def on_value_def subscript_def items_def for_items_def
  py_str_def key_str_def str_int_def digit_char_def

lemma sample_print_host:
  "print_host (PDict [(KStr ''hostname'', PStr ''PC01''), (KStr ''username'', PStr ''PC01/ann''),
                      (KStr ''domain'', PStr ''WORKGROUP'')]) =
     map Inr
       [CHR 0x0A # ''Host:'',
        space @ space @ ''Hostname ....... : PC01'' @ [CHR 0x0A],
        space @ space @ ''Username ....... : PC01/ann'' @ [CHR 0x0A],
        space @ space @ ''Domain ......... : WORKGROUP'' @ [CHR 0x0A]]"
  by (simp add: print_host_def print_simps)

lemma sample_print_os:
  "print_os (PDict [(KStr ''install_date'', PStr ''20230101 (379 days ago)''),
                    (KStr ''name'', PStr ''Windows''), (KStr ''architecture'', PStr ''64bit''),
                    (KStr ''version'', PStr ''10''), (KStr ''version_info'', PStr ''10.0.19045'')]) =
     map Inr
       [CHR 0x0A # ''Operation System: '',
        ''Description .... : Windows 10 64bit (10.0.19045)'' @ [CHR 0x0A],
        space @ space @ ''install_date ... : 20230101 (379 days ago)'' @ [CHR 0x0A]]"
  by (simp add: print_os_def print_simps)

lemma sample_print_accounts:
  "print_accounts
     (PDict [(KInt 1, PDict [(KStr ''username'', PStr ''ann''), (KStr ''domain'', PStr ''PC01''),
                            (KStr ''sid'', PStr ''S-1-5-21-1001''),
                            (KStr ''disabled'', PStr ''No'')])]) =
     map Inr
       [CHR 0x0A # ''Account1:'',
        space @ ''Username ....... : ann'' @ [CHR 0x0A],
        space @ space @ ''Domain ......... : PC01'' @ [CHR 0x0A],
        space @ space @ ''SID Number ..... : S-1-5-21-1001'' @ [CHR 0x0A],
        space @ space @ ''Disabled ....... : No'' @ [CHR 0x0A]]"
  by (simp add: print_accounts_def print_simps)

lemma sample_print_motherboards:
  "print_motherboards
     (PDict [(KInt 1, PDict [(KStr ''manufacturer'', PStr ''ACME''), (KStr ''model'', PStr ''B450''),
                            (KStr ''serial_number'', PStr ''N/A'')])]) =
     map Inr
       [CHR 0x0A # ''Motherboard1:'',
        space @ ''Manufacturer ... : ACME'' @ [CHR 0x0A],
        space @ space @ ''Product ........ : B450'' @ [CHR 0x0A],
        space @ space @ ''SerialNumber  .. : N/A'' @ [CHR 0x0A]]"
  by (simp add: print_motherboards_def print_simps)

lemma sample_print_cpus:
  "print_cpus
     (PDict [(KInt 1, PDict [(KStr ''name'', PStr ''CPU X''),
                            (KStr ''max_clock_speed'', PStr ''3600 MHz''),
                            (KStr ''cores'', PInt 8), (KStr ''threads'', PInt 16)])]) =
     map Inr
       [CHR 0x0A # ''CPU1:'',
        space @ space @ ''Description .... : CPU X'' @ [CHR 0x0A],
        space @ space @ ''Clock Speed .... : 3600 MHz'' @ [CHR 0x0A],
        space @ space @ ''Cores .......... : 8'' @ [CHR 0x0A],
        space @ space @ ''Threads ........ : 16'' @ [CHR 0x0A]]"
  by (simp add: print_cpus_def print_simps)

lemma sample_print_rams:
  "print_rams
     (PDict [(KInt 1, PDict [(KStr ''capacity'', PFloat (Fin 16)),
                            (KStr ''manufacturer'', PStr ''ACME''), (KStr ''speed'', PInt 3200)])]) =
     map Inr
       [CHR 0x0A # ''RAM1:'',
        space @ space @ ''Capacity ....... : 16.0 GB'' @ [CHR 0x0A],
        space @ space @ ''Manufacturer ... : ACME'' @ [CHR 0x0A],
        space @ space @ ''Speed .......... : 3200 MHz'' @ [CHR 0x0A]]"
  by (simp add: print_rams_def print_simps sample_reprs)

lemma sample_print_storages:
  "print_storages
     (PDict [(KInt 1, PDict [(KStr ''name'', PStr ''ACME SSD 1''),
                            (KStr ''size'', PFloat (Fin (3 / 2))),
                            (KStr ''type'', PStr ''SSD''),
                            (KStr ''partitions'',
                             PList [PDict [(KStr ''name'', PNone),
                                           (KStr ''total_size'', PFloat (Fin 1)),
                                           (KStr ''free_size'', PStr ''N/A'')]])])]) =
     map Inr
       [CHR 0x0A # ''SSD1:'',
        space @ space @ ''Description .... : ACME SSD 1'' @ [CHR 0x0A],
        space @ space @ ''Size ........... : 1.5 GB'' @ [CHR 0x0A],
        space @ space @ ''Partition #1 ... : '',
        ''Letter: None'',
        '' (Size: N/A/1.0 GB)'' @ [CHR 0x0A]]"
  by (simp add: print_storages_def print_partitions_def iterate_def print_simps sample_reprs)

lemma sample_print_gpus:
  "print_gpus (PDict [(KInt 1, PDict [(KStr ''name'', PStr ''GPU Y'')])]) =
     map Inr
       [CHR 0x0A # ''GPU1:   '',
        space @ ''Description .... : GPU Y'' @ [CHR 0x0A]]"
  by (simp add: print_gpus_def print_simps)

lemma sample_print_nics:
  "print_nics
     (PDict [(KInt 1, PDict [(KStr ''description'', PStr ''Ethernet''),
                            (KStr ''ip_address'', PStr ''10.0.0.2''),
                            (KStr ''subnet_mask'', PStr ''255.255.255.0''),
                            (KStr ''default_gateway'', PStr ''N/A''),
                            (KStr ''dns_servers'', PTuple [PStr ''10.0.0.1'', PStr ''1.1.1.1'']),
                            (KStr ''dhcp_enabled'', PNone)])]) =
     map Inr
       [CHR 0x0A # ''NIC1:'',
        space @ space @ ''Description .... : Ethernet'' @ [CHR 0x0A],
        space @ space @ ''IP Address ..... : 10.0.0.2'' @ [CHR 0x0A],
        space @ space @ ''Subnet Mask .... : 255.255.255.0'' @ [CHR 0x0A],
        space @ space @ ''DefaultGateway . : N/A'' @ [CHR 0x0A],
        space @ space @ ''DNS Servers .... : 10.0.0.1, 1.1.1.1'' @ [CHR 0x0A],
        space @ space @ ''DHCP Enabled ... : No'' @ [CHR 0x0A]]"
  by (simp add: print_nics_def py_join_def iterate_def truthy_def print_simps)

lemma printed_Inr [simp]: "printed (map Inr ts @ rest) = ts @ printed rest"
  by (induction ts) simp_all

lemma raised_Inr [simp]: "raised (map Inr ts @ rest) = raised rest"
  by (induction ts) simp_all

lemma printed_map_Inr: "printed (map Inr ts) = ts" "raised (map Inr ts) = None"
  by (induction ts) simp_all

lemma print_cpus_None: "print_cpus PNone =
  [Inl (Exn ''AttributeError'' (str_repr ''NoneType'' @ '' object has no attribute '' @ str_repr ''items''))]"
  by (simp add: print_cpus_def for_items_def items_def type_name_def)

section \<open>What printing and writing the report change\<close>

text \<open>
  What a file makes of print statements: it raises where they raise, it holds a
  beginning of what they print, and all of it when every text can be encoded.
\<close>

lemma to_file_simps [simp]:
  "to_file env [] = []"
  "to_file env (Inl e # rest) = Inl e # to_file env rest"
  "to_file env (Inr t # rest) =
     (case write_error env t of Some e \<Rightarrow> Inl e | None \<Rightarrow> Inr t) # to_file env rest"
  by (simp_all add: to_file_def)

lemma to_file_raised: "raised ss \<noteq> None \<Longrightarrow> raised (to_file env ss) \<noteq> None"
  by (induction ss rule: raised.induct) (simp_all split: option.splits)

lemma on_handle_raised: "raised ss \<noteq> None \<Longrightarrow> raised (on_handle env h ss) \<noteq> None"
  by (cases h) (simp_all add: on_handle_def to_file_raised del: on_handle_simps)

lemma to_file_prefix: "\<exists>rest. printed ss = printed (to_file env ss) @ rest"
  by (induction ss rule: printed.induct) (simp_all split: option.splits)

lemma to_file_same:
  assumes "\<forall>t\<in>set (printed ss). write_error env t = None"
  shows "printed (to_file env ss) = printed ss" and "raised (to_file env ss) = raised ss"
  using assms by (induction ss rule: printed.induct) simp_all

lemma to_file_encodable:
  assumes "\<forall>t. encode_error env t = None"
  shows "to_file env ss = ss"
proof -
  have none: "write_error env t = None" for t
    using assms by (simp add: write_error_def)
  show ?thesis
    by (induction ss) (simp_all add: to_file_def none split: sum.splits)
qed

lemma print_info_fst: "fst (print_info env si w) = Inr PNone"
  by (simp add: print_info_eq)

lemma print_info_console:
  assumes "sys_stdout w = Console"
  shows "tty (snd (print_info env si w)) = tty w @ map Out (printed (print_statements si))"
    and "files (snd (print_info env si w)) = files w"
  using assms by (simp_all add: print_info_eq prints_tty prints_files_console split: option.splits)

lemma print_info_file:
  assumes "sys_stdout w = FileHandle p" "files w p = Some c"
  shows "files (snd (print_info env si w)) =
           (files w)(p \<mapsto> c @ concat (printed (to_file env (print_statements si))))"
    and "tty (snd (print_info env si w)) = tty w"
  using assms
  by (simp_all add: print_info_eq prints_tty prints_files_handle on_handle_file
        del: on_handle_simps split: option.splits)

lemma print_info_other:
  "dirs (snd (print_info env si w)) = dirs w"
  "sys_stdout (snd (print_info env si w)) = sys_stdout w"
  "error_log (snd (print_info env si w)) =
     error_log w @ (case raised (on_handle env (sys_stdout w) (print_statements si)) of
                      None \<Rightarrow> []
                    | Some e \<Rightarrow> [\<lparr>ed_time = strftime_date (clock env (ticks w)) @ '' ''
                                            @ strftime_time '':'' (clock env (ticks w)),
                                  ed_function = ''print_info'', ed_type = py_lower (exn_type e),
                                  ed_error = exn_str e\<rparr>])"
  by (simp_all add: print_info_eq log_error_log del: on_handle_simps split: option.splits)

lemma generate_output_fst: "fst (generate_output env si w) = Inr PNone"
  by (simp add: generate_output_eq)

lemma generate_output_no_directory:
  assumes "info_dir env \<notin> dirs w" "makedirs_error env (info_dir env) = Some e"
  shows "snd (generate_output env si w) = log_error env ''generate_output'' e (py_lower (exn_type e)) w"
  using assms by (simp add: generate_output_eq)

lemma generate_output_no_file:
  assumes "info_dir env \<in> dirs w \<or> makedirs_error env (info_dir env) = None"
    and "open_error env (output_file_path env (clock env (ticks w))) = Some e"
  shows "snd (generate_output env si w) =
           log_error env ''generate_output'' e (py_lower (exn_type e))
             (w\<lparr>dirs := insert (info_dir env) (dirs w), ticks := Suc (ticks w)\<rparr>)"
  using assms by (auto simp: generate_output_eq)

lemma generate_output_written:
  assumes "info_dir env \<in> dirs w \<or> makedirs_error env (info_dir env) = None"
    and "open_error env (output_file_path env (clock env (ticks w))) = None"
  shows "files (snd (generate_output env si w)) =
           (files w)(output_file_path env (clock env (ticks w)) \<mapsto>
              concat (printed (to_file env (print_statements si))))"
    and "tty (snd (generate_output env si w)) =
           tty w @ [Out (success_message (output_file_path env (clock env (ticks w))) @ [CHR 0x0A])]"
    and "error_log (snd (generate_output env si w)) =
           error_log w @ (case raised (to_file env (print_statements si)) of
                      None \<Rightarrow> []
                    | Some e \<Rightarrow> [\<lparr>ed_time = strftime_date (clock env (Suc (ticks w))) @ '' ''
                                            @ strftime_time '':'' (clock env (Suc (ticks w))),
                                  ed_function = ''print_info'', ed_type = py_lower (exn_type e),
                                  ed_error = exn_str e\<rparr>])"
    and "sys_stdout (snd (generate_output env si w)) = Console"
proof -
  let ?p = "output_file_path env (clock env (ticks w))"
  let ?w1 = "w\<lparr>dirs := insert (info_dir env) (dirs w), ticks := Suc (ticks w),
                files := (files w)(?p \<mapsto> []), sys_stdout := FileHandle ?p\<rparr>"
  have eq: "snd (generate_output env si w) =
              write_text (success_message ?p @ [CHR 0x0A]) ((snd (print_info env si ?w1))\<lparr>sys_stdout := Console\<rparr>)"
    using assms by (auto simp: generate_output_eq)
  have f: "files (snd (print_info env si ?w1)) =
             (files ?w1)(?p \<mapsto> [] @ concat (printed (to_file env (print_statements si))))"
    by (rule print_info_file) simp_all
  have t: "tty (snd (print_info env si ?w1)) = tty ?w1"
    by (rule print_info_file(2) [where p = ?p and c = "[]"]) simp_all
  show "files (snd (generate_output env si w)) =
          (files w)(?p \<mapsto> concat (printed (to_file env (print_statements si))))"
    by (simp add: eq write_text_files f)
  show "tty (snd (generate_output env si w)) =
           tty w @ [Out (success_message ?p @ [CHR 0x0A])]"
    by (simp add: eq t)
  show "error_log (snd (generate_output env si w)) =
           error_log w @ (case raised (to_file env (print_statements si)) of
                      None \<Rightarrow> []
                    | Some e \<Rightarrow> [\<lparr>ed_time = strftime_date (clock env (Suc (ticks w))) @ '' ''
                                            @ strftime_time '':'' (clock env (Suc (ticks w))),
                                  ed_function = ''print_info'', ed_type = py_lower (exn_type e),
                                  ed_error = exn_str e\<rparr>])"
    by (simp add: eq print_info_other on_handle_file del: on_handle_simps split: option.splits)
  show "sys_stdout (snd (generate_output env si w)) = Console"
    by (simp add: eq)
qed

section \<open>Sizes in GiB\<close>

text \<open>
  C5, as the code has it. For sizes below \<open>2\<^sup>5\<^sup>3\<close> bytes (8 PiB), where the
  division by \<open>1024\<^sup>3\<close> is exact: every RAM capacity and every disk size is the size in
  GiB rounded to 2 decimal places, and every total and free size of a partition is
  rounded to 0 decimal places, a whole number. 17179869184 bytes of RAM become
  \<open>16.0\<close>, printed as \<^verbatim>\<open>16.0 GB\<close>. A rounded value lies within half a unit of the
  last place of the exact quotient.
\<close>

theorem sizes_rounded_per_category:
  assumes "Win32_PhysicalMemory wmi_service = Inr rams"
    and "\<forall>ram\<in>set rams. \<exists>n<2 ^ 53. ram_Capacity ram = Some n"
    and "Win32_DiskDrive wmi_service = Inr disks"
    and "\<forall>disk\<in>set disks. small (dd_Size disk)
           \<and> (\<exists>ps. dd_partitions disk = Inr ps
                \<and> (\<forall>p\<in>set ps. \<exists>lds. dp_logical_disks p = Inr lds
                      \<and> (\<forall>ld\<in>set lds. small (ld_Size ld) \<and> small (ld_FreeSpace ld))))"
  shows "ram_detection wmi_service =
           Inr (PDict (map (\<lambda>(idx, ram).
             (KInt (int idx),
              PDict [(KStr ''capacity'', PFloat (Fin (rounded_gib 2 (the (ram_Capacity ram))))),
                     (KStr ''manufacturer'', or_na (ram_Manufacturer ram)),
                     (KStr ''speed'', nat_or_na (ram_Speed ram))])) (enumerate 1 rams)))
    \<and> storage_detection wmi_service =
           Inr (PDict (map (\<lambda>(idx, disk).
             (KInt (int idx),
              PDict [(KStr ''name'', or_na (dd_Caption disk)),
                     (KStr ''size'', size_value 2 (dd_Size disk)),
                     (KStr ''type'', PStr (disk_type disk)),
                     (KStr ''partitions'',
                      PList (concat (map (\<lambda>p. map partition_value (projr (dp_logical_disks p)))
                               (projr (dd_partitions disk)))))])) (enumerate 1 disks)))
    \<and> rounded_gib 2 17179869184 = 16
    \<and> py_str (PFloat (Fin (rounded_gib 2 17179869184))) @ '' GB'' = ''16.0 GB''
    \<and> (\<forall>n<2 ^ 53. rounded_gib 0 n = of_int (round_half_even (of_nat n / 2 ^ 30)))
    \<and> (\<forall>d n. \<bar>of_int (round_half_even (of_nat n / 2 ^ 30 * 10 ^ d)) / 10 ^ d - of_nat n / 2 ^ 30\<bar>
                \<le> (1 / 2 / 10 ^ d :: rat))"
  using ram_detection_value [OF assms(1,2)] storage_detection_value [OF assms(3,4)]
    rounded_gib_whole rounded_gib_close
  by (simp add: sample_sizes py_str_def sample_reprs)

theorem sizes_rounded_per_category_witness:
  "ram_detection sample_service =
     Inr (PDict [(KInt 1, PDict [(KStr ''capacity'', PFloat (Fin 16)),
                                (KStr ''manufacturer'', PStr ''ACME''), (KStr ''speed'', PInt 3200)])])
   \<and> storage_detection sample_service =
     Inr (PDict [(KInt 1, PDict [(KStr ''name'', PStr ''ACME SSD 1''),
                                (KStr ''size'', PFloat (Fin (3 / 2))),
                                (KStr ''type'', PStr ''SSD''),
                                (KStr ''partitions'',
                                 PList [PDict [(KStr ''name'', PNone),
                                               (KStr ''total_size'', PFloat (Fin 1)),
                                               (KStr ''free_size'', PStr ''N/A'')]])])])
   \<and> printed (print_rams
         (PDict [(KInt 1, PDict [(KStr ''capacity'', PFloat (Fin 16)),
                                (KStr ''manufacturer'', PStr ''ACME''), (KStr ''speed'', PInt 3200)])]))
       ! 1 = space @ space @ ''Capacity ....... : 16.0 GB'' @ [CHR 0x0A]"
proof -
  let ?rams = "[\<lparr>ram_Capacity = Some 17179869184, ram_Manufacturer = Some ''ACME'',
                 ram_Speed = Some 3200\<rparr>]"
  let ?disks = "[\<lparr>dd_Caption = Some ''ACME SSD 1'', dd_MediaType = Some ''Fixed hard disk media'',
              dd_Size = Some 1610612736,
              dd_partitions =
                Inr [\<lparr>dp_logical_disks =
                       Inr [\<lparr>ld_Caption = None, ld_Size = Some 1073741824,
                             ld_FreeSpace = None\<rparr>]\<rparr>]\<rparr>]"
  have 1: "Win32_PhysicalMemory sample_service = Inr ?rams"
    by (simp add: sample_service_def)
  have 2: "\<forall>ram\<in>set ?rams. \<exists>n<2 ^ 53. ram_Capacity ram = Some n"
    by simp
  have 3: "Win32_DiskDrive sample_service = Inr ?disks"
    by (simp add: sample_service_def)
  have 4: "\<forall>disk\<in>set ?disks. small (dd_Size disk)
           \<and> (\<exists>ps. dd_partitions disk = Inr ps
                \<and> (\<forall>p\<in>set ps. \<exists>lds. dp_logical_disks p = Inr lds
                      \<and> (\<forall>ld\<in>set lds. small (ld_Size ld) \<and> small (ld_FreeSpace ld))))"
    by (simp add: small_def)
  from sizes_rounded_per_category [OF 1 2 3 4]
  have r: "ram_detection sample_service =
     Inr (PDict [(KInt 1, PDict [(KStr ''capacity'', PFloat (Fin 16)),
                                (KStr ''manufacturer'', PStr ''ACME''), (KStr ''speed'', PInt 3200)])])"
    and s: "storage_detection sample_service =
     Inr (PDict [(KInt 1, PDict [(KStr ''name'', PStr ''ACME SSD 1''),
                                (KStr ''size'', PFloat (Fin (3 / 2))),
                                (KStr ''type'', PStr ''SSD''),
                                (KStr ''partitions'',
                                 PList [PDict [(KStr ''name'', PNone),
                                               (KStr ''total_size'', PFloat (Fin 1)),
                                               (KStr ''free_size'', PStr ''N/A'')]])])])"
    by (simp_all add: sample_sizes or_na_def nat_or_na_def size_value_def partition_value_def
          disk_type_def)
  show ?thesis
    by (simp add: r s sample_print_rams)
qed

text \<open>
  C5 as the specification states it fails for the size of a disk: the sample disk
  of 1610612736 bytes is stored with the size \<open>1.5\<close>, which is the value rounded to 2
  decimal places; rounded to 0 places it would be \<open>2\<close>.
\<close>

theorem disk_size_counterexample:
  "storage_detection sample_service =
     Inr (PDict [(KInt 1, PDict [(KStr ''name'', PStr ''ACME SSD 1''),
                                (KStr ''size'', PFloat (Fin (3 / 2))),
                                (KStr ''type'', PStr ''SSD''),
                                (KStr ''partitions'',
                                 PList [PDict [(KStr ''name'', PNone),
                                               (KStr ''total_size'', PFloat (Fin 1)),
                                               (KStr ''free_size'', PStr ''N/A'')]])])])
   \<and> rounded_gib 2 1610612736 = 3 / 2
   \<and> rounded_gib 0 1610612736 = 2"
  by (simp add: sample_storage sample_sizes)

section \<open>The run as a whole\<close>

lemma clear_terminal_fields:
  "tty (snd (clear_terminal env w)) = tty w @ [Shell (if os_name env = ''nt'' then ''cls'' else ''clear'')]"
  "files (snd (clear_terminal env w)) = files w"
  "dirs (snd (clear_terminal env w)) = dirs w"
  "sys_stdout (snd (clear_terminal env w)) = sys_stdout w"
  "error_log (snd (clear_terminal env w)) = error_log w"
  by (simp_all add: clear_terminal_eq)

lemma run_detection_world:
  assumes "wmi_WMI env = Inr svc"
    and "fst (detection_loop env svc (length (detections env)) (enumerate 1 (detections env)) [] w)
           = Inr si"
  shows "snd (run_detection env w) =
     snd (generate_output env (PDict si)
            (snd (print_info env (PDict si)
               (snd (clear_terminal env
                  (snd (detection_loop env svc (length (detections env))
                     (enumerate 1 (detections env)) [] w)))))))"
    and "fst (run_detection env w) = Inr PNone"
proof -
  have "si = foldl (\<lambda>si (idx, key, name, f).
                dict_set si (KStr key) (case f svc of Inl e \<Rightarrow> PNone | Inr v \<Rightarrow> v)) []
                (enumerate 1 (detections env))"
    using assms(2) unfolding loop_value [OF detections_ascii] by simp
  then show "snd (run_detection env w) =
     snd (generate_output env (PDict si)
            (snd (print_info env (PDict si)
               (snd (clear_terminal env
                  (snd (detection_loop env svc (length (detections env))
                     (enumerate 1 (detections env)) [] w)))))))"
    and "fst (run_detection env w) = Inr PNone"
    by (simp_all only: run_detection_eq [OF assms(1)] snd_conv fst_conv)
qed

text \<open>
  The entries a run adds to the log once the loop is over: one by \<^verbatim>\<open>print_info\<close> if
  the report raises on the terminal; then one by \<^verbatim>\<open>generate_output\<close> if the file
  cannot be created, or else one more by \<^verbatim>\<open>print_info\<close> if the report raises, as it
  does again, in the file.
\<close>

lemma run_log:
  assumes wmi: "wmi_WMI env = Inr svc"
    and si: "fst (detection_loop env svc (length (detections env)) (enumerate 1 (detections env)) [] w)
           = Inr si"
  shows "\<exists>k later.
     error_log (snd (run_detection env w)) =
       error_log (snd (detection_loop env svc (length (detections env))
          (enumerate 1 (detections env)) [] w)) @ later
     \<and> map ed_function later =
         (if raised (on_handle env (sys_stdout w) (print_statements (PDict si))) = None then []
          else [''print_info''])
         @ (if (info_dir env \<in> dirs w \<or> makedirs_error env (info_dir env) = None)
               \<and> open_error env (output_file_path env (clock env k)) = None
            then (if raised (to_file env (print_statements (PDict si))) = None then []
                  else [''print_info''])
            else [''generate_output''])"
proof -
  define wl where "wl = snd (detection_loop env svc (length (detections env))
          (enumerate 1 (detections env)) [] w)"
  define wc where "wc = snd (clear_terminal env wl)"
  define wp where "wp = snd (print_info env (PDict si) wc)"
  define k where "k = ticks wp"
  have run: "snd (run_detection env w) = snd (generate_output env (PDict si) wp)"
    unfolding wp_def wc_def wl_def by (rule run_detection_world [OF wmi si])
  have unchanged: "sys_stdout wl = sys_stdout w" "dirs wl = dirs w"
    using loop_unchanged [where ds = "enumerate 1 (detections env)" and env = env and svc = svc
        and tot = "length (detections env)" and si = "[]" and w = w, OF detections_ascii]
    by (simp_all add: wl_def)
  have dirs: "dirs wp = dirs w"
    by (simp add: wp_def wc_def unchanged print_info_other clear_terminal_fields)
  obtain first where first: "error_log wp = error_log wl @ first"
    and ff: "map ed_function first =
               (if raised (on_handle env (sys_stdout w) (print_statements (PDict si))) = None then []
                else [''print_info''])"
    by (cases "raised (on_handle env (sys_stdout w) (print_statements (PDict si)))")
       (simp_all add: wp_def wc_def unchanged print_info_other clear_terminal_fields
          del: on_handle_simps)
  let ?p = "output_file_path env (clock env k)"
  consider (no_dir) e where "info_dir env \<notin> dirs wp" "makedirs_error env (info_dir env) = Some e"
    | (no_file) e where "info_dir env \<in> dirs wp \<or> makedirs_error env (info_dir env) = None"
        "open_error env ?p = Some e"
    | (written) "info_dir env \<in> dirs wp \<or> makedirs_error env (info_dir env) = None"
        "open_error env ?p = None"
    by (cases "makedirs_error env (info_dir env)"; cases "open_error env ?p") auto
  then obtain second where second: "error_log (snd (generate_output env (PDict si) wp)) = error_log wp @ second"
    and fs: "map ed_function second =
         (if (info_dir env \<in> dirs w \<or> makedirs_error env (info_dir env) = None)
               \<and> open_error env ?p = None
            then (if raised (to_file env (print_statements (PDict si))) = None then []
                  else [''print_info''])
            else [''generate_output''])"
  proof cases
    case no_dir
    then show ?thesis
      using that [of "[\<lparr>ed_time = strftime_date (clock env (ticks wp)) @ '' ''
                              @ strftime_time '':'' (clock env (ticks wp)),
                    ed_function = ''generate_output'', ed_type = py_lower (exn_type e),
                    ed_error = exn_str e\<rparr>]"]
      by (simp add: generate_output_no_directory log_error_log dirs)
  next
    case no_file
    then show ?thesis
      using that [of "[\<lparr>ed_time = strftime_date (clock env (Suc (ticks wp))) @ '' ''
                              @ strftime_time '':'' (clock env (Suc (ticks wp))),
                    ed_function = ''generate_output'', ed_type = py_lower (exn_type e),
                    ed_error = exn_str e\<rparr>]"]
      by (simp add: generate_output_no_file [where e = e] log_error_log dirs k_def)
  next
    case written
    then show ?thesis
      using that [of "case raised (to_file env (print_statements (PDict si))) of
                      None \<Rightarrow> []
                    | Some e \<Rightarrow> [\<lparr>ed_time = strftime_date (clock env (Suc (ticks wp))) @ '' ''
                                            @ strftime_time '':'' (clock env (Suc (ticks wp))),
                                  ed_function = ''print_info'', ed_type = py_lower (exn_type e),
                                  ed_error = exn_str e\<rparr>]"]
      by (cases "raised (to_file env (print_statements (PDict si)))")
         (simp_all add: generate_output_written(3) [unfolded k_def [symmetric]] dirs k_def)
  qed
  have "error_log (snd (run_detection env w)) = error_log wl @ (first @ second)"
    by (simp add: run second first)
  moreover have "map ed_function (first @ second) =
         (if raised (on_handle env (sys_stdout w) (print_statements (PDict si))) = None then []
          else [''print_info''])
         @ (if (info_dir env \<in> dirs w \<or> makedirs_error env (info_dir env) = None)
               \<and> open_error env ?p = None
            then (if raised (to_file env (print_statements (PDict si))) = None then []
                  else [''print_info''])
            else [''generate_output''])"
    by (simp add: ff fs del: on_handle_simps)
  ultimately show ?thesis
    unfolding wl_def by blast
qed

text \<open>The terminal and the files after a run that starts with \<^verbatim>\<open>sys.stdout\<close> on the terminal.\<close>

lemma run_tty_files:
  assumes wmi: "wmi_WMI env = Inr svc"
    and con: "sys_stdout w = Console"
    and si: "fst (detection_loop env svc (length (detections env)) (enumerate 1 (detections env)) [] w)
           = Inr si"
  shows "\<exists>k.
     tty (snd (run_detection env w)) =
       tty (snd (detection_loop env svc (length (detections env))
          (enumerate 1 (detections env)) [] w))
       @ [Shell (if os_name env = ''nt'' then ''cls'' else ''clear'')]
       @ map Out (printed (print_statements (PDict si)))
       @ (if (info_dir env \<in> dirs w \<or> makedirs_error env (info_dir env) = None)
               \<and> open_error env (output_file_path env (clock env k)) = None
          then [Out (success_message (output_file_path env (clock env k)) @ [CHR 0x0A])] else [])
     \<and> files (snd (run_detection env w)) =
         (if (info_dir env \<in> dirs w \<or> makedirs_error env (info_dir env) = None)
               \<and> open_error env (output_file_path env (clock env k)) = None
          then (files w)(output_file_path env (clock env k) \<mapsto>
                  concat (printed (to_file env (print_statements (PDict si)))))
          else files w)"
proof -
  define wl where "wl = snd (detection_loop env svc (length (detections env))
          (enumerate 1 (detections env)) [] w)"
  define wc where "wc = snd (clear_terminal env wl)"
  define wp where "wp = snd (print_info env (PDict si) wc)"
  define k where "k = ticks wp"
  have run: "snd (run_detection env w) = snd (generate_output env (PDict si) wp)"
    unfolding wp_def wc_def wl_def by (rule run_detection_world [OF wmi si])
  have l: "sys_stdout wl = Console" "dirs wl = dirs w" "files wl = files w"
    using loop_unchanged [where ds = "enumerate 1 (detections env)" and env = env and svc = svc
        and tot = "length (detections env)" and si = "[]" and w = w, OF detections_ascii] con
    by (simp_all add: wl_def)
  have c: "sys_stdout wc = Console" "dirs wc = dirs w" "files wc = files w"
    "tty wc = tty wl @ [Shell (if os_name env = ''nt'' then ''cls'' else ''clear'')]"
    by (simp_all add: wc_def clear_terminal_fields l)
  have p: "sys_stdout wp = Console" "dirs wp = dirs w" "files wp = files w"
    "tty wp = tty wl @ [Shell (if os_name env = ''nt'' then ''cls'' else ''clear'')]
              @ map Out (printed (print_statements (PDict si)))"
    by (simp_all add: wp_def print_info_other print_info_console [OF c(1)] c)
  let ?p = "output_file_path env (clock env k)"
  consider (no_dir) e where "info_dir env \<notin> dirs wp" "makedirs_error env (info_dir env) = Some e"
    | (no_file) e where "info_dir env \<in> dirs wp \<or> makedirs_error env (info_dir env) = None"
        "open_error env ?p = Some e"
    | (written) "info_dir env \<in> dirs wp \<or> makedirs_error env (info_dir env) = None"
        "open_error env ?p = None"
    by (cases "makedirs_error env (info_dir env)"; cases "open_error env ?p") auto
  then have "tty (snd (generate_output env (PDict si) wp)) =
       tty wp
       @ (if (info_dir env \<in> dirs w \<or> makedirs_error env (info_dir env) = None)
               \<and> open_error env ?p = None
          then [Out (success_message ?p @ [CHR 0x0A])] else [])
     \<and> files (snd (generate_output env (PDict si) wp)) =
         (if (info_dir env \<in> dirs w \<or> makedirs_error env (info_dir env) = None)
               \<and> open_error env ?p = None
          then (files w)(?p \<mapsto> concat (printed (to_file env (print_statements (PDict si)))))
          else files w)"
  proof cases
    case no_dir
    then show ?thesis
      by (simp add: generate_output_no_directory p)
  next
    case no_file
    then show ?thesis
      by (simp add: generate_output_no_file [where e = e] p k_def)
  next
    case written
    then show ?thesis
      using generate_output_written(1,2) [of env wp "PDict si"]
      by (simp add: p k_def)
  qed
  then show ?thesis
    unfolding run p wl_def by (intro exI [of _ k]) simp
qed

section \<open>The runs on the sample host\<close>

lemma other_probes_ignore_processors:
  "host_detection (svc\<lparr>Win32_Processor := x\<rparr>) = host_detection svc"
  "account_detection (svc\<lparr>Win32_Processor := x\<rparr>) = account_detection svc"
  "os_detection env (svc\<lparr>Win32_Processor := x\<rparr>) = os_detection env svc"
  "motherboard_detection (svc\<lparr>Win32_Processor := x\<rparr>) = motherboard_detection svc"
  "ram_detection (svc\<lparr>Win32_Processor := x\<rparr>) = ram_detection svc"
  "gpu_detection (svc\<lparr>Win32_Processor := x\<rparr>) = gpu_detection svc"
  "storage_detection (svc\<lparr>Win32_Processor := x\<rparr>) = storage_detection svc"
  "nic_detection (svc\<lparr>Win32_Processor := x\<rparr>) = nic_detection svc"
  by (simp_all add: host_detection_def account_detection_def os_detection_def
        motherboard_detection_def ram_detection_def gpu_detection_def storage_detection_def
        nic_detection_def)

lemma cpu_query_raises: "cpu_detection (svc\<lparr>Win32_Processor := Inl e\<rparr>) = Inl e"
  by (simp add: cpu_detection_def on_value_def)

lemma cpu_fails_os: "os_detection cpu_fails svc = os_detection sample_env svc"
proof -
  have "days_since_install cpu_fails = days_since_install sample_env"
    "platform_system cpu_fails = platform_system sample_env"
    "platform_architecture cpu_fails = platform_architecture sample_env"
    "win32_ver_release cpu_fails = win32_ver_release sample_env"
    "win32_ver_version cpu_fails = win32_ver_version sample_env"
    by (simp_all add: cpu_fails_def)
  then show ?thesis
    by (simp only: os_detection_def)
qed

lemma cpu_fails_fields:
  "wmi_WMI cpu_fails = Inr (sample_service\<lparr>Win32_Processor := Inl division_error\<rparr>)"
  "wmi_WMI sample_env = Inr sample_service"
  "os_name cpu_fails = ''nt''" "os_name sample_env = ''nt''"
  "makedirs_error cpu_fails p = None" "makedirs_error sample_env p = None"
  "open_error cpu_fails p = None" "open_error sample_env p = None"
  "to_file cpu_fails ss = ss" "to_file sample_env ss = ss"
  by (simp_all add: cpu_fails_def sample_env_def to_file_encodable)

lemma sample_path:
  "output_file_path cpu_fails (clock cpu_fails k) = ''C:/tool/info/PC01_2024-01-15_10-30-00.txt''"
  "output_file_path sample_env (clock sample_env k) = ''C:/tool/info/PC01_2024-01-15_10-30-00.txt''"
  by (simp_all add: output_file_path_def info_dir_def cpu_fails_def sample_env_def strftime_date_def
        strftime_time_def pad2_def pad4_def digit_char_def)

lemma sample_world_fields:
  "sys_stdout sample_world = Console" "tty sample_world = []" "error_log sample_world = []"
  "dirs sample_world = {}" "files sample_world = (\<lambda>_. None)"
  by (simp_all add: sample_world_def)

lemma printed_stop: "printed (xs @ Inl e # rest) = printed xs"
  by (induction xs rule: printed.induct) simp_all

lemma raised_stop: "raised (xs @ Inl e # rest) = (case raised xs of None \<Rightarrow> Some e | Some e' \<Rightarrow> Some e')"
  by (induction xs rule: raised.induct) simp_all

lemma sample_snapshot:
  "fst (detection_loop sample_env sample_service (length (detections sample_env))
          (enumerate 1 (detections sample_env)) [] w) =
     Inr [(KStr ''host_info'',
           PDict [(KStr ''hostname'', PStr ''PC01''), (KStr ''username'', PStr ''PC01/ann''),
                  (KStr ''domain'', PStr ''WORKGROUP'')]),
          (KStr ''account_info'',
           PDict [(KInt 1, PDict [(KStr ''username'', PStr ''ann''), (KStr ''domain'', PStr ''PC01''),
                                 (KStr ''sid'', PStr ''S-1-5-21-1001''),
                                 (KStr ''disabled'', PStr ''No'')])]),
          (KStr ''os_info'',
           PDict [(KStr ''install_date'', PStr ''20230101 (379 days ago)''),
                  (KStr ''name'', PStr ''Windows''), (KStr ''architecture'', PStr ''64bit''),
                  (KStr ''version'', PStr ''10''), (KStr ''version_info'', PStr ''10.0.19045'')]),
          (KStr ''motherboard_info'',
           PDict [(KInt 1, PDict [(KStr ''manufacturer'', PStr ''ACME''), (KStr ''model'', PStr ''B450''),
                                 (KStr ''serial_number'', PStr ''N/A'')])]),
          (KStr ''cpu_info'',
           PDict [(KInt 1, PDict [(KStr ''name'', PStr ''CPU X''),
                                 (KStr ''max_clock_speed'', PStr ''3600 MHz''),
                                 (KStr ''cores'', PInt 8), (KStr ''threads'', PInt 16)])]),
          (KStr ''ram_info'',
           PDict [(KInt 1, PDict [(KStr ''capacity'', PFloat (Fin 16)),
                                 (KStr ''manufacturer'', PStr ''ACME''), (KStr ''speed'', PInt 3200)])]),
          (KStr ''gpu_info'', PDict [(KInt 1, PDict [(KStr ''name'', PStr ''GPU Y'')])]),
          (KStr ''storage_info'',
           PDict [(KInt 1, PDict [(KStr ''name'', PStr ''ACME SSD 1''),
                                 (KStr ''size'', PFloat (Fin (3 / 2))),
                                 (KStr ''type'', PStr ''SSD''),
                                 (KStr ''partitions'',
                                  PList [PDict [(KStr ''name'', PNone),
                                                (KStr ''total_size'', PFloat (Fin 1)),
                                                (KStr ''free_size'', PStr ''N/A'')]])])]),
          (KStr ''nic_info'',
           PDict [(KInt 1, PDict [(KStr ''description'', PStr ''Ethernet''),
                                 (KStr ''ip_address'', PStr ''10.0.0.2''),
                                 (KStr ''subnet_mask'', PStr ''255.255.255.0''),
                                 (KStr ''default_gateway'', PStr ''N/A''),
                                 (KStr ''dns_servers'', PTuple [PStr ''10.0.0.1'', PStr ''1.1.1.1'']),
                                 (KStr ''dhcp_enabled'', PNone)])])]"
  unfolding loop_snapshot
  by (simp only: sample_host sample_account sample_os sample_motherboard sample_cpu sample_ram
        sample_gpu sample_storage sample_nic sum.case)

lemma cpu_fails_snapshot:
  "fst (detection_loop cpu_fails (sample_service\<lparr>Win32_Processor := Inl division_error\<rparr>)
          (length (detections cpu_fails)) (enumerate 1 (detections cpu_fails)) [] w) =
     Inr [(KStr ''host_info'',
           PDict [(KStr ''hostname'', PStr ''PC01''), (KStr ''username'', PStr ''PC01/ann''),
                  (KStr ''domain'', PStr ''WORKGROUP'')]),
          (KStr ''account_info'',
           PDict [(KInt 1, PDict [(KStr ''username'', PStr ''ann''), (KStr ''domain'', PStr ''PC01''),
                                 (KStr ''sid'', PStr ''S-1-5-21-1001''),
                                 (KStr ''disabled'', PStr ''No'')])]),
          (KStr ''os_info'',
           PDict [(KStr ''install_date'', PStr ''20230101 (379 days ago)''),
                  (KStr ''name'', PStr ''Windows''), (KStr ''architecture'', PStr ''64bit''),
                  (KStr ''version'', PStr ''10''), (KStr ''version_info'', PStr ''10.0.19045'')]),
          (KStr ''motherboard_info'',
           PDict [(KInt 1, PDict [(KStr ''manufacturer'', PStr ''ACME''), (KStr ''model'', PStr ''B450''),
                                 (KStr ''serial_number'', PStr ''N/A'')])]),
          (KStr ''cpu_info'', PNone),
          (KStr ''ram_info'',
           PDict [(KInt 1, PDict [(KStr ''capacity'', PFloat (Fin 16)),
                                 (KStr ''manufacturer'', PStr ''ACME''), (KStr ''speed'', PInt 3200)])]),
          (KStr ''gpu_info'', PDict [(KInt 1, PDict [(KStr ''name'', PStr ''GPU Y'')])]),
          (KStr ''storage_info'',
           PDict [(KInt 1, PDict [(KStr ''name'', PStr ''ACME SSD 1''),
                                 (KStr ''size'', PFloat (Fin (3 / 2))),
                                 (KStr ''type'', PStr ''SSD''),
                                 (KStr ''partitions'',
                                  PList [PDict [(KStr ''name'', PNone),
                                                (KStr ''total_size'', PFloat (Fin 1)),
                                                (KStr ''free_size'', PStr ''N/A'')]])])]),
          (KStr ''nic_info'',
           PDict [(KInt 1, PDict [(KStr ''description'', PStr ''Ethernet''),
                                 (KStr ''ip_address'', PStr ''10.0.0.2''),
                                 (KStr ''subnet_mask'', PStr ''255.255.255.0''),
                                 (KStr ''default_gateway'', PStr ''N/A''),
                                 (KStr ''dns_servers'', PTuple [PStr ''10.0.0.1'', PStr ''1.1.1.1'']),
                                 (KStr ''dhcp_enabled'', PNone)])])]"
  unfolding loop_snapshot
  by (simp only: other_probes_ignore_processors cpu_query_raises cpu_fails_os
        sample_host sample_account sample_os sample_motherboard sample_ram
        sample_gpu sample_storage sample_nic sum.case)

lemma sample_report:
  assumes "fst (detection_loop sample_env sample_service (length (detections sample_env))
          (enumerate 1 (detections sample_env)) [] w) = Inr si"
  shows "printed (print_statements (PDict si)) = report_head @ report_cpu @ report_tail"
    and "raised (print_statements (PDict si)) = None"
proof -
  have "print_statements (PDict si) = map Inr (report_head @ report_cpu @ report_tail)"
    using assms unfolding sample_snapshot
    by (auto simp only: print_statements_nine sample_print_host sample_print_os sample_print_accounts
          sample_print_motherboards sample_print_cpus sample_print_rams sample_print_storages
          sample_print_gpus sample_print_nics report_head_def report_cpu_def report_tail_def
          map_append [symmetric] append.simps sum.inject)
  then show "printed (print_statements (PDict si)) = report_head @ report_cpu @ report_tail"
    and "raised (print_statements (PDict si)) = None"
    using printed_Inr [of "report_head @ report_cpu @ report_tail" "[]"]
      raised_Inr [of "report_head @ report_cpu @ report_tail" "[]"]
    by simp_all
qed

lemma cpu_fails_report:
  assumes "fst (detection_loop cpu_fails (sample_service\<lparr>Win32_Processor := Inl division_error\<rparr>)
          (length (detections cpu_fails)) (enumerate 1 (detections cpu_fails)) [] w) = Inr si"
  shows "printed (print_statements (PDict si)) = report_head"
    and "raised (print_statements (PDict si)) =
           Some (Exn ''AttributeError''
             (str_repr ''NoneType'' @ '' object has no attribute '' @ str_repr ''items''))"
proof -
  have "\<exists>rest. print_statements (PDict si) =
          map Inr report_head
          @ Inl (Exn ''AttributeError''
              (str_repr ''NoneType'' @ '' object has no attribute '' @ str_repr ''items'')) # rest"
    using assms unfolding cpu_fails_snapshot
    by (auto simp only: print_statements_nine sample_print_host sample_print_os sample_print_accounts
          sample_print_motherboards print_cpus_None report_head_def
          map_append [symmetric] append.simps append_assoc [symmetric] sum.inject)
  then obtain rest where "print_statements (PDict si) =
          map Inr report_head
          @ Inl (Exn ''AttributeError''
              (str_repr ''NoneType'' @ '' object has no attribute '' @ str_repr ''items'')) # rest"
    by blast
  then show "printed (print_statements (PDict si)) = report_head"
    and "raised (print_statements (PDict si)) =
           Some (Exn ''AttributeError''
             (str_repr ''NoneType'' @ '' object has no attribute '' @ str_repr ''items''))"
    by simp_all
qed

lemma loop_tty_length:
  assumes "sys_stdout w = Console"
  shows "length (tty (snd (detection_loop env svc (length (detections env))
           (enumerate 1 (detections env)) si w))) = length (tty w) + 27"
proof -
  from loop_tty [where ds = "enumerate 1 (detections env)" and env = env and svc = svc
        and tot = "length (detections env)" and si = si, OF assms detections_ascii]
  obtain ks where len: "length ks = length (enumerate 1 (detections env))"
    and t: "tty (snd (detection_loop env svc (length (detections env))
                (enumerate 1 (detections env)) si w)) =
         tty w @ concat (map (\<lambda>((idx, key, name, f), (k1, k2)).
           [Out (progress_message initializing idx (length (detections env)) (clock env k1) name
                 @ [CHR 0x0D]),
            Out (progress_message ok idx (length (detections env)) (clock env k2) name
                 @ [CHR 0x0D]),
            Out [CHR 0x0A]]) (zip (enumerate 1 (detections env)) ks))"
    by blast
  have "length (concat (map (\<lambda>((idx, key, name, f), (k1, k2)).
           [Out (progress_message initializing idx tot (clock env k1) name @ [CHR 0x0D]),
            Out (progress_message ok idx tot (clock env k2) name @ [CHR 0x0D]),
            Out [CHR 0x0A]]) zs)) = 3 * length zs"
    for zs :: "((nat \<times> string \<times> string \<times> (wmi_service \<Rightarrow> exn + pyval)) \<times> nat \<times> nat) list"
      and tot
    by (induction zs) (auto simp: case_prod_unfold)
  then show ?thesis
    unfolding t by (simp add: len detections_length del: enumerate_simps)
qed

lemma probe_records_of_detections:
  "concat (map (\<lambda>(idx, key, name, f). g key name f) (enumerate 1 (detections env))) =
   concat (map (\<lambda>(key, name, f). g key name f) (detections env))"
  unfolding detections_enumerated by (simp add: detections_def)

text \<open>The log of the run on the sample host with the failing processor query.\<close>

lemma cpu_fails_log:
  "map ed_function (error_log (snd (run_detection cpu_fails sample_world))) =
     [''cpu_detection'', ''print_info'', ''print_info'']"
proof -
  obtain si where si: "fst (detection_loop cpu_fails
          (sample_service\<lparr>Win32_Processor := Inl division_error\<rparr>)
          (length (detections cpu_fails)) (enumerate 1 (detections cpu_fails)) [] sample_world) = Inr si"
    using cpu_fails_snapshot by blast
  have c: "concat (map (\<lambda>(idx, key, name, f).
           case f (sample_service\<lparr>Win32_Processor := Inl division_error\<rparr>) of
             Inl e \<Rightarrow> [(name, py_lower (exn_type e), exn_str e)]
           | Inr v \<Rightarrow> []) (enumerate 1 (detections cpu_fails))) =
           [(''cpu_detection'', ''zerodivisionerror'', ''division by zero'')]"
    unfolding probe_records_of_detections
    by (simp add: detections_def other_probes_ignore_processors cpu_query_raises cpu_fails_os
          sample_host sample_account sample_os sample_motherboard sample_ram sample_gpu
          sample_storage sample_nic division_error_def py_lower_def lower_char_def
          uppercase_def lowercase_def)
  from loop_log [where ds = "enumerate 1 (detections cpu_fails)" and env = cpu_fails
        and svc = "sample_service\<lparr>Win32_Processor := Inl division_error\<rparr>"
        and tot = "length (detections cpu_fails)" and si = "[]" and w = sample_world,
        OF detections_ascii]
  obtain new where new: "error_log (snd (detection_loop cpu_fails
          (sample_service\<lparr>Win32_Processor := Inl division_error\<rparr>)
          (length (detections cpu_fails)) (enumerate 1 (detections cpu_fails)) [] sample_world)) = new"
    and pn: "map (\<lambda>r. (ed_function r, ed_type r, ed_error r)) new =
           [(''cpu_detection'', ''zerodivisionerror'', ''division by zero'')]"
    unfolding c by (auto simp: sample_world_fields)
  have fn: "map ed_function new = [''cpu_detection'']"
    using arg_cong [OF pn, of "map fst"] by (simp add: comp_def)
  from run_log [OF cpu_fails_fields(1) si]
  obtain k later where l: "error_log (snd (run_detection cpu_fails sample_world)) =
       error_log (snd (detection_loop cpu_fails
          (sample_service\<lparr>Win32_Processor := Inl division_error\<rparr>)
          (length (detections cpu_fails)) (enumerate 1 (detections cpu_fails)) [] sample_world))
       @ later"
    and fl: "map ed_function later =
         (if raised (on_handle cpu_fails (sys_stdout sample_world) (print_statements (PDict si)))
             = None then []
          else [''print_info''])
         @ (if (info_dir cpu_fails \<in> dirs sample_world
                  \<or> makedirs_error cpu_fails (info_dir cpu_fails) = None)
               \<and> open_error cpu_fails (output_file_path cpu_fails (clock cpu_fails k)) = None
            then (if raised (to_file cpu_fails (print_statements (PDict si))) = None then []
                  else [''print_info''])
            else [''generate_output''])"
    by blast
  have "map ed_function later = [''print_info'', ''print_info'']"
    unfolding fl by (simp add: cpu_fails_report [OF si] cpu_fails_fields sample_world_fields)
  then show ?thesis
    unfolding l new by (simp add: fn)
qed

section \<open>The report file\<close>

text \<open>
  C9, as the code has it. \<^verbatim>\<open>generate_output\<close> always returns. When the \<^verbatim>\<open>info\<close>
  directory or the report file cannot be created, no file is written and exactly
  one entry naming \<^verbatim>\<open>generate_output\<close> is appended to the log. Once the file is open
  it is written in place, with no buffer and no temporary file: it holds what
  \<^verbatim>\<open>print_info\<close> printed into it, which is only the beginning of the report when
  \<^verbatim>\<open>print_info\<close> raises, be it on the snapshot or on a text that the file cannot
  encode; that exception is logged under the name \<^verbatim>\<open>print_info\<close>, and the success
  message is printed all the same.
\<close>

theorem report_written_in_place:
  "fst (generate_output env system_info w) = Inr PNone
   \<and> (info_dir env \<notin> dirs w \<and> makedirs_error env (info_dir env) = Some e \<longrightarrow>
        files (snd (generate_output env system_info w)) = files w
        \<and> map ed_function (drop (length (error_log w))
             (error_log (snd (generate_output env system_info w)))) = [''generate_output''])
   \<and> ((info_dir env \<in> dirs w \<or> makedirs_error env (info_dir env) = None)
        \<and> open_error env (output_file_path env (clock env (ticks w))) = Some e \<longrightarrow>
        files (snd (generate_output env system_info w)) = files w
        \<and> map ed_function (drop (length (error_log w))
             (error_log (snd (generate_output env system_info w)))) = [''generate_output''])
   \<and> ((info_dir env \<in> dirs w \<or> makedirs_error env (info_dir env) = None)
        \<and> open_error env (output_file_path env (clock env (ticks w))) = None \<longrightarrow>
        files (snd (generate_output env system_info w)) =
          (files w)(output_file_path env (clock env (ticks w)) \<mapsto>
             concat (printed (to_file env (print_statements system_info))))
        \<and> map ed_function (drop (length (error_log w))
             (error_log (snd (generate_output env system_info w)))) =
            (if raised (to_file env (print_statements system_info)) = None then []
             else [''print_info''])
        \<and> tty (snd (generate_output env system_info w)) =
            tty w @ [Out (success_message (output_file_path env (clock env (ticks w)))
                          @ [CHR 0x0A])])"
proof (intro conjI impI)
  show "fst (generate_output env system_info w) = Inr PNone"
    by (rule generate_output_fst)
next
  assume a: "info_dir env \<notin> dirs w \<and> makedirs_error env (info_dir env) = Some e"
  then have s: "snd (generate_output env system_info w) =
                  log_error env ''generate_output'' e (py_lower (exn_type e)) w"
    by (simp add: generate_output_no_directory)
  show "files (snd (generate_output env system_info w)) = files w"
    by (simp add: s)
  show "map ed_function (drop (length (error_log w))
             (error_log (snd (generate_output env system_info w)))) = [''generate_output'']"
    by (simp add: s log_error_log)
next
  assume a: "(info_dir env \<in> dirs w \<or> makedirs_error env (info_dir env) = None)
        \<and> open_error env (output_file_path env (clock env (ticks w))) = Some e"
  then have s: "snd (generate_output env system_info w) =
           log_error env ''generate_output'' e (py_lower (exn_type e))
             (w\<lparr>dirs := insert (info_dir env) (dirs w), ticks := Suc (ticks w)\<rparr>)"
    by (intro generate_output_no_file) simp_all
  show "files (snd (generate_output env system_info w)) = files w"
    by (simp add: s)
  show "map ed_function (drop (length (error_log w))
             (error_log (snd (generate_output env system_info w)))) = [''generate_output'']"
    by (simp add: s log_error_log)
next
  assume a: "(info_dir env \<in> dirs w \<or> makedirs_error env (info_dir env) = None)
        \<and> open_error env (output_file_path env (clock env (ticks w))) = None"
  then have d: "info_dir env \<in> dirs w \<or> makedirs_error env (info_dir env) = None"
    and f: "open_error env (output_file_path env (clock env (ticks w))) = None"
    by simp_all
  show "files (snd (generate_output env system_info w)) =
          (files w)(output_file_path env (clock env (ticks w)) \<mapsto>
             concat (printed (to_file env (print_statements system_info))))"
    by (rule generate_output_written(1) [OF d f])
  show "map ed_function (drop (length (error_log w))
             (error_log (snd (generate_output env system_info w)))) =
            (if raised (to_file env (print_statements system_info)) = None then []
             else [''print_info''])"
    by (cases "raised (to_file env (print_statements system_info))")
       (simp_all add: generate_output_written(3) [OF d f])
  show "tty (snd (generate_output env system_info w)) =
            tty w @ [Out (success_message (output_file_path env (clock env (ticks w)))
                          @ [CHR 0x0A])]"
    by (rule generate_output_written(2) [OF d f])
qed

text \<open>
  The three cases on the sample host: a directory that cannot be made, a file that
  cannot be opened, and a file that is opened for a snapshot without its
  \<^verbatim>\<open>os_info\<close>, on which \<^verbatim>\<open>print_info\<close> raises before it prints anything.
\<close>

theorem report_written_in_place_witness:
  "files (snd (generate_output
       (sample_env\<lparr>makedirs_error := (\<lambda>_. Some (Exn ''PermissionError'' ''denied''))\<rparr>)
       (PDict []) sample_world)) = (\<lambda>_. None)
   \<and> map ed_function (error_log (snd (generate_output
       (sample_env\<lparr>makedirs_error := (\<lambda>_. Some (Exn ''PermissionError'' ''denied''))\<rparr>)
       (PDict []) sample_world))) = [''generate_output'']
   \<and> files (snd (generate_output
       (sample_env\<lparr>open_error := (\<lambda>_. Some (Exn ''PermissionError'' ''denied''))\<rparr>)
       (PDict []) sample_world)) = (\<lambda>_. None)
   \<and> map ed_function (error_log (snd (generate_output
       (sample_env\<lparr>open_error := (\<lambda>_. Some (Exn ''PermissionError'' ''denied''))\<rparr>)
       (PDict []) sample_world))) = [''generate_output'']
   \<and> files (snd (generate_output sample_env
       (PDict [(KStr ''host_info'',
                PDict [(KStr ''hostname'', PStr ''PC01''), (KStr ''username'', PStr ''PC01/ann''),
                       (KStr ''domain'', PStr ''WORKGROUP'')])]) sample_world)) report_path
       = Some (concat [])
   \<and> map ed_function (error_log (snd (generate_output sample_env
       (PDict [(KStr ''host_info'',
                PDict [(KStr ''hostname'', PStr ''PC01''), (KStr ''username'', PStr ''PC01/ann''),
                       (KStr ''domain'', PStr ''WORKGROUP'')])]) sample_world))) = [''print_info'']"
proof -
  let ?e = "Exn ''PermissionError'' ''denied''"
  let ?env1 = "sample_env\<lparr>makedirs_error := (\<lambda>_. Some ?e)\<rparr>"
  let ?env2 = "sample_env\<lparr>open_error := (\<lambda>_. Some ?e)\<rparr>"
  let ?si = "PDict [(KStr ''host_info'',
                PDict [(KStr ''hostname'', PStr ''PC01''), (KStr ''username'', PStr ''PC01/ann''),
                       (KStr ''domain'', PStr ''WORKGROUP'')])]"
  have 1: "info_dir ?env1 \<notin> dirs sample_world \<and> makedirs_error ?env1 (info_dir ?env1) = Some ?e"
    by (simp add: sample_world_def)
  have 2: "(info_dir ?env2 \<in> dirs sample_world \<or> makedirs_error ?env2 (info_dir ?env2) = None)
        \<and> open_error ?env2 (output_file_path ?env2 (clock ?env2 (ticks sample_world))) = Some ?e"
    by (simp add: sample_env_def)
  have 3: "(info_dir sample_env \<in> dirs sample_world \<or> makedirs_error sample_env (info_dir sample_env) = None)
        \<and> open_error sample_env (output_file_path sample_env (clock sample_env (ticks sample_world))) = None"
    by (simp add: sample_env_def)
  have r: "print_statements ?si = [Inl (Exn ''KeyError'' (str_repr ''os_info''))]"
    by (simp add: print_statements_def subscript_def on_value_def)
  from report_written_in_place [of ?env1 "PDict []" sample_world ?e] 1
  have a: "files (snd (generate_output ?env1 (PDict []) sample_world)) = (\<lambda>_. None)"
    "map ed_function (error_log (snd (generate_output ?env1 (PDict []) sample_world))) = [''generate_output'']"
    by (simp_all add: sample_world_fields)
  from report_written_in_place [of ?env2 "PDict []" sample_world ?e] 2
  have b: "files (snd (generate_output ?env2 (PDict []) sample_world)) = (\<lambda>_. None)"
    "map ed_function (error_log (snd (generate_output ?env2 (PDict []) sample_world))) = [''generate_output'']"
    by (simp_all add: sample_world_fields)
  from report_written_in_place [of sample_env ?si sample_world] 3
  have c: "files (snd (generate_output sample_env ?si sample_world)) report_path = Some (concat [])"
    "map ed_function (error_log (snd (generate_output sample_env ?si sample_world))) = [''print_info'']"
    by (simp_all add: sample_world_fields sample_path r report_path_def cpu_fails_fields)
  from a b c show ?thesis by simp
qed

text \<open>
  C9 as the specification states it fails. On the sample host with the failing
  processor query, \<^verbatim>\<open>print_info\<close> raises in the middle of the report, and the file
  at its final path is left with the part written before: it ends with the
  motherboard, and has none of the memory, disk, video and network sections of the
  snapshot.
\<close>

theorem partial_report_file_counterexample:
  "files (snd (run_detection cpu_fails sample_world)) report_path = Some (concat report_head)
   \<and> files sample_world report_path = None"
proof -
  obtain si where si: "fst (detection_loop cpu_fails
          (sample_service\<lparr>Win32_Processor := Inl division_error\<rparr>)
          (length (detections cpu_fails)) (enumerate 1 (detections cpu_fails)) [] sample_world) = Inr si"
    using cpu_fails_snapshot by blast
  from run_tty_files [OF cpu_fails_fields(1) sample_world_fields(1) si]
  show ?thesis
    by (auto simp: cpu_fails_fields sample_path cpu_fails_report [OF si] sample_world_fields
          report_path_def)
qed

section \<open>The two copies of the report\<close>

text \<open>
  The texts of a report split in two: those that reach a file, every one of which
  the file can encode, and the rest, which starts with one that it cannot.
\<close>

lemma to_file_split:
  "\<exists>rest. printed ss = printed (to_file env ss) @ rest
     \<and> (\<forall>t\<in>set (printed (to_file env ss)). is_ascii t \<or> encode_error env t = None)
     \<and> (rest \<noteq> [] \<longrightarrow> \<not> is_ascii (hd rest) \<and> encode_error env (hd rest) \<noteq> None)"
proof (induction ss rule: printed.induct)
  case 1
  show ?case by simp
next
  case (2 e rest)
  show ?case by simp
next
  case (3 t rest)
  show ?case
  proof (cases "write_error env t")
    case None
    then have "is_ascii t \<or> encode_error env t = None"
      by (simp add: write_error_def split: if_splits)
    with 3 None show ?thesis by auto
  next
    case (Some e)
    then have "\<not> is_ascii t \<and> encode_error env t \<noteq> None"
      by (simp add: write_error_def split: if_splits)
    with Some show ?thesis by simp
  qed
qed

text \<open>
  C6, as the code has it. The texts that \<^verbatim>\<open>print_info\<close> produces are a function of
  the snapshot alone, \<open>print_statements\<close>, whatever \<^verbatim>\<open>sys.stdout\<close> is. The terminal
  receives all of them. The report file, opened with the encoding of the platform,
  receives them up to the first that it cannot encode: what it holds is a beginning
  of what the terminal has received, and it is the whole of it when every text of
  the report is ASCII or can be encoded. This holds for every snapshot given to
  \<^verbatim>\<open>print_info\<close> and \<^verbatim>\<open>generate_output\<close> in turn, and so for the snapshot that the
  loop of a run builds. The model compares texts; how the terminal and the file turn
  a text into bytes is outside it.
\<close>

theorem file_holds_encodable_report:
  assumes con: "sys_stdout w = Console"
    and dir: "info_dir env \<in> dirs w \<or> makedirs_error env (info_dir env) = None"
    and opens: "\<forall>p. open_error env p = None"
  shows "(\<exists>path written rest.
       printed (print_statements system_info) = written @ rest
       \<and> tty (snd (generate_output env system_info (snd (print_info env system_info w)))) =
           tty w @ map Out (written @ rest) @ [Out (success_message path @ [CHR 0x0A])]
       \<and> files (snd (generate_output env system_info (snd (print_info env system_info w)))) path =
           Some (concat written)
       \<and> (\<forall>text\<in>set written. is_ascii text \<or> encode_error env text = None)
       \<and> (rest \<noteq> [] \<longrightarrow> \<not> is_ascii (hd rest) \<and> encode_error env (hd rest) \<noteq> None))
   \<and> (wmi_WMI env = Inr wmi_service \<longrightarrow>
       (\<exists>snapshot path written rest.
          fst (detection_loop env wmi_service (length (detections env))
                 (enumerate 1 (detections env)) [] w) = Inr snapshot
          \<and> printed (print_statements (PDict snapshot)) = written @ rest
          \<and> tty (snd (run_detection env w)) =
              tty (snd (detection_loop env wmi_service (length (detections env))
                     (enumerate 1 (detections env)) [] w))
              @ [Shell (if os_name env = ''nt'' then ''cls'' else ''clear'')]
              @ map Out (written @ rest)
              @ [Out (success_message path @ [CHR 0x0A])]
          \<and> files (snd (run_detection env w)) path = Some (concat written)
          \<and> (\<forall>text\<in>set written. is_ascii text \<or> encode_error env text = None)
          \<and> (rest \<noteq> [] \<longrightarrow> \<not> is_ascii (hd rest) \<and> encode_error env (hd rest) \<noteq> None)))"
proof (intro conjI impI)
  define wp where "wp = snd (print_info env system_info w)"
  let ?path = "output_file_path env (clock env (ticks wp))"
  let ?written = "printed (to_file env (print_statements system_info))"
  obtain rest where split: "printed (print_statements system_info) = ?written @ rest"
    and enc: "\<forall>t\<in>set ?written. is_ascii t \<or> encode_error env t = None"
    and stop: "rest \<noteq> [] \<longrightarrow> \<not> is_ascii (hd rest) \<and> encode_error env (hd rest) \<noteq> None"
    using to_file_split by blast
  have t: "tty wp = tty w @ map Out (printed (print_statements system_info))"
    unfolding wp_def by (rule print_info_console(1) [OF con])
  have d: "info_dir env \<in> dirs wp \<or> makedirs_error env (info_dir env) = None"
    using dir by (simp add: wp_def print_info_other)
  have f: "open_error env ?path = None"
    using opens by simp
  have "tty (snd (generate_output env system_info wp)) =
         tty w @ map Out (?written @ rest) @ [Out (success_message ?path @ [CHR 0x0A])]"
    by (simp add: generate_output_written(2) [OF d f] t split)
  moreover have "files (snd (generate_output env system_info wp)) ?path = Some (concat ?written)"
    by (simp add: generate_output_written(1) [OF d f])
  ultimately show "\<exists>path written rest.
       printed (print_statements system_info) = written @ rest
       \<and> tty (snd (generate_output env system_info (snd (print_info env system_info w)))) =
           tty w @ map Out (written @ rest) @ [Out (success_message path @ [CHR 0x0A])]
       \<and> files (snd (generate_output env system_info (snd (print_info env system_info w)))) path =
           Some (concat written)
       \<and> (\<forall>text\<in>set written. is_ascii text \<or> encode_error env text = None)
       \<and> (rest \<noteq> [] \<longrightarrow> \<not> is_ascii (hd rest) \<and> encode_error env (hd rest) \<noteq> None)"
    using split enc stop unfolding wp_def by (intro exI conjI)
next
  assume wmi: "wmi_WMI env = Inr wmi_service"
  obtain si where si: "fst (detection_loop env wmi_service (length (detections env))
            (enumerate 1 (detections env)) [] w) = Inr si"
    using loop_snapshot by blast
  let ?written = "printed (to_file env (print_statements (PDict si)))"
  obtain rest where split: "printed (print_statements (PDict si)) = ?written @ rest"
    and enc: "\<forall>t\<in>set ?written. is_ascii t \<or> encode_error env t = None"
    and stop: "rest \<noteq> [] \<longrightarrow> \<not> is_ascii (hd rest) \<and> encode_error env (hd rest) \<noteq> None"
    using to_file_split by blast
  from run_tty_files [OF wmi con si] dir opens
  obtain k where t: "tty (snd (run_detection env w)) =
       tty (snd (detection_loop env wmi_service (length (detections env))
          (enumerate 1 (detections env)) [] w))
       @ [Shell (if os_name env = ''nt'' then ''cls'' else ''clear'')]
       @ map Out (?written @ rest)
       @ [Out (success_message (output_file_path env (clock env k)) @ [CHR 0x0A])]"
    and f: "files (snd (run_detection env w)) (output_file_path env (clock env k)) =
         Some (concat ?written)"
    unfolding split [symmetric] by auto
  from si split t f enc stop
  show "\<exists>snapshot path written rest.
          fst (detection_loop env wmi_service (length (detections env))
                 (enumerate 1 (detections env)) [] w) = Inr snapshot
          \<and> printed (print_statements (PDict snapshot)) = written @ rest
          \<and> tty (snd (run_detection env w)) =
              tty (snd (detection_loop env wmi_service (length (detections env))
                     (enumerate 1 (detections env)) [] w))
              @ [Shell (if os_name env = ''nt'' then ''cls'' else ''clear'')]
              @ map Out (written @ rest)
              @ [Out (success_message path @ [CHR 0x0A])]
          \<and> files (snd (run_detection env w)) path = Some (concat written)
          \<and> (\<forall>text\<in>set written. is_ascii text \<or> encode_error env text = None)
          \<and> (rest \<noteq> [] \<longrightarrow> \<not> is_ascii (hd rest) \<and> encode_error env (hd rest) \<noteq> None)"
    by (intro exI conjI)
qed

text \<open>
  On the sample host every text can be encoded, and the file holds the whole
  report that the terminal shows.
\<close>

theorem file_holds_encodable_report_witness:
  "sys_stdout sample_world = Console
   \<and> (\<forall>p. open_error sample_env p = None)
   \<and> wmi_WMI sample_env = Inr sample_service
   \<and> files (snd (run_detection sample_env sample_world)) report_path =
       Some (concat (report_head @ report_cpu @ report_tail))
   \<and> drop 27 (tty (snd (run_detection sample_env sample_world))) =
       Shell ''cls'' # map Out (report_head @ report_cpu @ report_tail)
       @ [Out (success_message report_path @ [CHR 0x0A])]"
proof -
  have d: "info_dir sample_env \<in> dirs sample_world
             \<or> makedirs_error sample_env (info_dir sample_env) = None"
    by (simp add: cpu_fails_fields)
  have o: "\<forall>p. open_error sample_env p = None"
    by (simp add: cpu_fails_fields)
  have l: "length (tty (snd (detection_loop sample_env sample_service (length (detections sample_env))
                (enumerate 1 (detections sample_env)) [] sample_world))) = 27"
    unfolding loop_tty_length [OF sample_world_fields(1)] by (simp add: sample_world_fields)
  have e: "encode_error sample_env t = None" for t
    by (simp add: sample_env_def)
  from file_holds_encodable_report [OF sample_world_fields(1) d o, of "PNone" sample_service]
  have "\<exists>snapshot path written rest.
          fst (detection_loop sample_env sample_service (length (detections sample_env))
                 (enumerate 1 (detections sample_env)) [] sample_world) = Inr snapshot
          \<and> printed (print_statements (PDict snapshot)) = written @ rest
          \<and> tty (snd (run_detection sample_env sample_world)) =
              tty (snd (detection_loop sample_env sample_service (length (detections sample_env))
                     (enumerate 1 (detections sample_env)) [] sample_world))
              @ [Shell (if os_name sample_env = ''nt'' then ''cls'' else ''clear'')]
              @ map Out (written @ rest)
              @ [Out (success_message path @ [CHR 0x0A])]
          \<and> files (snd (run_detection sample_env sample_world)) path = Some (concat written)
          \<and> (\<forall>text\<in>set written. is_ascii text \<or> encode_error sample_env text = None)
          \<and> (rest \<noteq> [] \<longrightarrow> \<not> is_ascii (hd rest) \<and> encode_error sample_env (hd rest) \<noteq> None)"
    using cpu_fails_fields(2) by (elim conjE impE)
  then obtain si path written rest
    where si: "fst (detection_loop sample_env sample_service (length (detections sample_env))
            (enumerate 1 (detections sample_env)) [] sample_world) = Inr si"
      and split: "printed (print_statements (PDict si)) = written @ rest"
      and t: "tty (snd (run_detection sample_env sample_world)) =
         tty (snd (detection_loop sample_env sample_service (length (detections sample_env))
                (enumerate 1 (detections sample_env)) [] sample_world))
         @ [Shell (if os_name sample_env = ''nt'' then ''cls'' else ''clear'')]
         @ map Out (written @ rest)
         @ [Out (success_message path @ [CHR 0x0A])]"
      and f: "files (snd (run_detection sample_env sample_world)) path = Some (concat written)"
      and stop: "rest \<noteq> [] \<longrightarrow> \<not> is_ascii (hd rest) \<and> encode_error sample_env (hd rest) \<noteq> None"
    by blast
  have rest: "rest = []"
    using stop e by auto
  have w: "written = report_head @ report_cpu @ report_tail"
    using split sample_report(1) [OF si] by (simp add: rest)
  obtain k where t': "tty (snd (run_detection sample_env sample_world)) =
         tty (snd (detection_loop sample_env sample_service (length (detections sample_env))
                (enumerate 1 (detections sample_env)) [] sample_world))
         @ [Shell (if os_name sample_env = ''nt'' then ''cls'' else ''clear'')]
         @ map Out (printed (print_statements (PDict si)))
         @ [Out (success_message (output_file_path sample_env (clock sample_env k)) @ [CHR 0x0A])]"
    using run_tty_files [OF cpu_fails_fields(2) sample_world_fields(1) si] o d by auto
  have "success_message path = success_message report_path"
    using t t' split by (simp add: sample_path report_path_def)
  then have p: "path = report_path"
    by (simp add: success_message_def)
  show ?thesis
    using f l o
    by (simp add: t p w rest cpu_fails_fields sample_world_fields)
qed

text \<open>The run on the host with the letter that the file cannot encode.\<close>

lemma other_probes_ignore_computers:
  "account_detection (svc\<lparr>Win32_ComputerSystem := x\<rparr>) = account_detection svc"
  "os_detection env (svc\<lparr>Win32_ComputerSystem := x\<rparr>) = os_detection env svc"
  "motherboard_detection (svc\<lparr>Win32_ComputerSystem := x\<rparr>) = motherboard_detection svc"
  "cpu_detection (svc\<lparr>Win32_ComputerSystem := x\<rparr>) = cpu_detection svc"
  "ram_detection (svc\<lparr>Win32_ComputerSystem := x\<rparr>) = ram_detection svc"
  "gpu_detection (svc\<lparr>Win32_ComputerSystem := x\<rparr>) = gpu_detection svc"
  "storage_detection (svc\<lparr>Win32_ComputerSystem := x\<rparr>) = storage_detection svc"
  "nic_detection (svc\<lparr>Win32_ComputerSystem := x\<rparr>) = nic_detection svc"
  by (simp_all add: account_detection_def os_detection_def
        motherboard_detection_def cpu_detection_def ram_detection_def gpu_detection_def
        storage_detection_def nic_detection_def)

lemma accent_os: "os_detection accent_env svc = os_detection sample_env svc"
proof -
  have "days_since_install accent_env = days_since_install sample_env"
    "platform_system accent_env = platform_system sample_env"
    "platform_architecture accent_env = platform_architecture sample_env"
    "win32_ver_release accent_env = win32_ver_release sample_env"
    "win32_ver_version accent_env = win32_ver_version sample_env"
    by (simp_all add: accent_env_def)
  then show ?thesis
    by (simp only: os_detection_def)
qed

lemma accent_fields:
  "wmi_WMI accent_env = Inr accent_service"
  "os_name accent_env = ''nt''"
  "makedirs_error accent_env p = None"
  "open_error accent_env p = None"
  "encode_error accent_env = cp932_error"
  "output_file_path accent_env (clock accent_env k) = report_path"
  by (simp_all add: accent_env_def sample_env_def output_file_path_def info_dir_def
        strftime_date_def strftime_time_def pad2_def pad4_def digit_char_def report_path_def)

lemma accent_host:
  "host_detection accent_service =
     Inr (PDict [(KStr ''hostname'', PStr ''PC01''),
                 (KStr ''username'', PStr accent_name),
                 (KStr ''domain'', PStr ''WORKGROUP'')])"
  by (simp add: host_detection_def accent_service_def on_value_def or_na_def accent_name_def)

lemma accent_print_host:
  "print_host (PDict [(KStr ''hostname'', PStr ''PC01''),
                      (KStr ''username'', PStr accent_name),
                      (KStr ''domain'', PStr ''WORKGROUP'')]) = map Inr accent_head"
  by (simp add: print_host_def print_simps accent_head_def)

lemma accent_report:
  assumes "fst (detection_loop accent_env accent_service (length (detections accent_env))
          (enumerate 1 (detections accent_env)) [] w) = Inr si"
  shows "print_statements (PDict si) =
           map Inr (accent_head @ drop 4 report_head @ report_cpu @ report_tail)"
proof -
  have snapshot: "si =
     [(KStr ''host_info'',
           PDict [(KStr ''hostname'', PStr ''PC01''),
                  (KStr ''username'', PStr accent_name),
                  (KStr ''domain'', PStr ''WORKGROUP'')]),
          (KStr ''account_info'',
           PDict [(KInt 1, PDict [(KStr ''username'', PStr ''ann''), (KStr ''domain'', PStr ''PC01''),
                                 (KStr ''sid'', PStr ''S-1-5-21-1001''),
                                 (KStr ''disabled'', PStr ''No'')])]),
          (KStr ''os_info'',
           PDict [(KStr ''install_date'', PStr ''20230101 (379 days ago)''),
                  (KStr ''name'', PStr ''Windows''), (KStr ''architecture'', PStr ''64bit''),
                  (KStr ''version'', PStr ''10''), (KStr ''version_info'', PStr ''10.0.19045'')]),
          (KStr ''motherboard_info'',
           PDict [(KInt 1, PDict [(KStr ''manufacturer'', PStr ''ACME''), (KStr ''model'', PStr ''B450''),
                                 (KStr ''serial_number'', PStr ''N/A'')])]),
          (KStr ''cpu_info'',
           PDict [(KInt 1, PDict [(KStr ''name'', PStr ''CPU X''),
                                 (KStr ''max_clock_speed'', PStr ''3600 MHz''),
                                 (KStr ''cores'', PInt 8), (KStr ''threads'', PInt 16)])]),
          (KStr ''ram_info'',
           PDict [(KInt 1, PDict [(KStr ''capacity'', PFloat (Fin 16)),
                                 (KStr ''manufacturer'', PStr ''ACME''), (KStr ''speed'', PInt 3200)])]),
          (KStr ''gpu_info'', PDict [(KInt 1, PDict [(KStr ''name'', PStr ''GPU Y'')])]),
          (KStr ''storage_info'',
           PDict [(KInt 1, PDict [(KStr ''name'', PStr ''ACME SSD 1''),
                                 (KStr ''size'', PFloat (Fin (3 / 2))),
                                 (KStr ''type'', PStr ''SSD''),
                                 (KStr ''partitions'',
                                  PList [PDict [(KStr ''name'', PNone),
                                                (KStr ''total_size'', PFloat (Fin 1)),
                                                (KStr ''free_size'', PStr ''N/A'')]])])]),
          (KStr ''nic_info'',
           PDict [(KInt 1, PDict [(KStr ''description'', PStr ''Ethernet''),
                                 (KStr ''ip_address'', PStr ''10.0.0.2''),
                                 (KStr ''subnet_mask'', PStr ''255.255.255.0''),
                                 (KStr ''default_gateway'', PStr ''N/A''),
                                 (KStr ''dns_servers'', PTuple [PStr ''10.0.0.1'', PStr ''1.1.1.1'']),
                                 (KStr ''dhcp_enabled'', PNone)])])]"
    using assms unfolding loop_snapshot
    by (simp only: accent_service_def other_probes_ignore_computers accent_os
          accent_host [unfolded accent_service_def]
          sample_account sample_os sample_motherboard sample_cpu sample_ram
          sample_gpu sample_storage sample_nic sum.case sum.inject)
  have rest: "drop 4 report_head =
     [CHR 0x0A # ''Operation System: '',
      ''Description .... : Windows 10 64bit (10.0.19045)'' @ [CHR 0x0A],
      space @ space @ ''install_date ... : 20230101 (379 days ago)'' @ [CHR 0x0A],
      CHR 0x0A # ''Account1:'',
      space @ ''Username ....... : ann'' @ [CHR 0x0A],
      space @ space @ ''Domain ......... : PC01'' @ [CHR 0x0A],
      space @ space @ ''SID Number ..... : S-1-5-21-1001'' @ [CHR 0x0A],
      space @ space @ ''Disabled ....... : No'' @ [CHR 0x0A],
      CHR 0x0A # ''Motherboard1:'',
      space @ ''Manufacturer ... : ACME'' @ [CHR 0x0A],
      space @ space @ ''Product ........ : B450'' @ [CHR 0x0A],
      space @ space @ ''SerialNumber  .. : N/A'' @ [CHR 0x0A]]"
    by (simp add: report_head_def)
  show ?thesis
    unfolding snapshot rest
    by (simp only: print_statements_nine accent_print_host sample_print_os sample_print_accounts
          sample_print_motherboards sample_print_cpus sample_print_rams sample_print_storages
          sample_print_gpus sample_print_nics report_cpu_def report_tail_def
          map_append [symmetric] append.simps)
qed

lemma accent_to_file:
  "printed (to_file accent_env (map Inr (accent_head @ rest))) = take 2 accent_head"
  "raised (to_file accent_env (map Inr (accent_head @ rest))) =
     Some (Exn ''UnicodeEncodeError''
       (str_repr ''cp932'' @ '' codec can'' @ [CHR 0x27] @ ''t encode character ''
        @ [CHR 0x27, CHR 0x5C] @ ''xe9'' @ [CHR 0x27] @ '' in position 33''
        @ '': illegal multibyte sequence''))"
  by (simp_all add: accent_head_def accent_name_def write_error_def is_ascii_def accent_fields
        cp932_error_def space_def digit_char_def)

text \<open>
  C6 as the specification states it fails. On the sample host with the user name
  that the encoding of the platform lacks, the terminal receives the 40 texts of
  the whole report, the line of the user name among them, while the file is left
  with the first two: \<^verbatim>\<open>print_info\<close> raises on the third when it writes into the
  file, and that is logged.
\<close>

theorem report_file_cut_short_counterexample:
  "files (snd (run_detection accent_env sample_world)) report_path =
     Some (CHR 0x0A # ''Host:'' @ space @ space @ ''Hostname ....... : PC01'' @ [CHR 0x0A])
   \<and> drop 27 (tty (snd (run_detection accent_env sample_world))) =
       Shell ''cls'' # map Out (accent_head @ drop 4 report_head @ report_cpu @ report_tail)
       @ [Out (success_message report_path @ [CHR 0x0A])]
   \<and> map (\<lambda>r. (ed_function r, ed_type r)) (error_log (snd (run_detection accent_env sample_world))) =
       [(''print_info'', ''unicodeencodeerror'')]"
proof -
  let ?loop = "detection_loop accent_env accent_service (length (detections accent_env))
          (enumerate 1 (detections accent_env)) [] sample_world"
  obtain si where si: "fst ?loop = Inr si"
    using loop_snapshot by blast
  note report = accent_report [OF si]
  have len: "length (tty (snd ?loop)) = 27"
    unfolding loop_tty_length [OF sample_world_fields(1)] by (simp add: sample_world_fields)
  from run_tty_files [OF accent_fields(1) sample_world_fields(1) si]
  have "tty (snd (run_detection accent_env sample_world)) =
       tty (snd ?loop) @ [Shell ''cls'']
       @ map Out (accent_head @ drop 4 report_head @ report_cpu @ report_tail)
       @ [Out (success_message report_path @ [CHR 0x0A])]"
    and f: "files (snd (run_detection accent_env sample_world)) report_path =
              Some (concat (take 2 accent_head))"
    unfolding report accent_to_file
    by (auto simp: accent_fields sample_world_fields printed_map_Inr)
  then have t: "drop 27 (tty (snd (run_detection accent_env sample_world))) =
       Shell ''cls'' # map Out (accent_head @ drop 4 report_head @ report_cpu @ report_tail)
       @ [Out (success_message report_path @ [CHR 0x0A])]"
    using len by simp
  from loop_log [where ds = "enumerate 1 (detections accent_env)" and env = accent_env
        and svc = accent_service and tot = "length (detections accent_env)" and si = "[]"
        and w = sample_world, OF detections_ascii]
  obtain new where new: "error_log (snd ?loop) = new"
    and pn: "map (\<lambda>r. (ed_function r, ed_type r, ed_error r)) new =
         concat (map (\<lambda>(key, name, f).
           case f accent_service of
             Inl e \<Rightarrow> [(name, py_lower (exn_type e), exn_str e)]
           | Inr v \<Rightarrow> []) (detections accent_env))"
    unfolding probe_records_of_detections by (auto simp: sample_world_fields)
  have "map (\<lambda>r. (ed_function r, ed_type r, ed_error r)) new = []"
    unfolding pn
    by (simp add: detections_def accent_service_def other_probes_ignore_computers accent_os
          accent_host [unfolded accent_service_def]
          sample_account sample_os sample_motherboard sample_cpu sample_ram sample_gpu
          sample_storage sample_nic)
  then have none: "new = []" by simp
  define wl where "wl = snd ?loop"
  define wc where "wc = snd (clear_terminal accent_env wl)"
  define wp where "wp = snd (print_info accent_env (PDict si) wc)"
  have run: "snd (run_detection accent_env sample_world) =
               snd (generate_output accent_env (PDict si) wp)"
    unfolding wp_def wc_def wl_def by (rule run_detection_world [OF accent_fields(1) si])
  have l: "sys_stdout wl = Console" "dirs wl = {}" "error_log wl = []"
    using loop_unchanged [where ds = "enumerate 1 (detections accent_env)" and env = accent_env
        and svc = accent_service and tot = "length (detections accent_env)" and si = "[]"
        and w = sample_world, OF detections_ascii] new none
    by (simp_all add: wl_def sample_world_fields)
  have p: "error_log wp = []" "dirs wp = {}"
    by (simp_all add: wp_def wc_def print_info_other clear_terminal_fields l report
          printed_map_Inr)
  have d: "info_dir accent_env \<in> dirs wp \<or> makedirs_error accent_env (info_dir accent_env) = None"
    by (simp add: accent_fields)
  have o: "open_error accent_env (output_file_path accent_env (clock accent_env (ticks wp))) = None"
    by (simp add: accent_fields(4))
  have "map (\<lambda>r. (ed_function r, ed_type r))
          (error_log (snd (generate_output accent_env (PDict si) wp))) =
        [(''print_info'', ''unicodeencodeerror'')]"
    unfolding generate_output_written(3) [OF d o] report accent_to_file
    by (simp add: p py_lower_def lower_char_def uppercase_def lowercase_def)
  with f t show ?thesis
    unfolding run by (simp add: accent_head_def)
qed

section \<open>Null values\<close>

text \<open>What each section of the report prints, whatever the values of the fields.\<close>

lemma for_items_dict:
  "for_items (PDict (map (\<lambda>row. (key row, entry row)) rows)) body =
     concat (map (\<lambda>row. body (key row) (entry row)) rows)"
  by (simp add: for_items_def items_def comp_def)


























text \<open>A probe that raised leaves \<open>None\<close> under its key, on which \<^verbatim>\<open>print_info\<close> raises.\<close>

lemma raised_append_None: "raised (xs @ ys) = None \<longleftrightarrow> raised xs = None \<and> raised ys = None"
  by (simp add: raised_append split: option.splits)

lemma sections_raise_on_None:
  "raised (print_host PNone) \<noteq> None" "raised (print_os PNone) \<noteq> None"
  "raised (print_accounts PNone) \<noteq> None" "raised (print_motherboards PNone) \<noteq> None"
  "raised (print_cpus PNone) \<noteq> None" "raised (print_rams PNone) \<noteq> None"
  "raised (print_storages PNone) \<noteq> None" "raised (print_gpus PNone) \<noteq> None"
  "raised (print_nics PNone) \<noteq> None"
  by (simp_all add: print_host_def print_os_def print_accounts_def print_motherboards_def
        print_cpus_def print_rams_def print_storages_def print_gpus_def print_nics_def
        for_items_def items_def lit_def print_line_def field_def subscript_def on_value_def)

lemma failed_probe_report_raises:
  assumes "fst (detection_loop env svc (length (detections env)) (enumerate 1 (detections env)) [] w)
             = Inr si"
    and "\<exists>d\<in>set (detections env). isl (snd (snd d) svc)"
  shows "raised (print_statements (PDict si)) \<noteq> None"
proof -
  have si: "si =
          [(KStr ''host_info'', case host_detection svc of Inl e \<Rightarrow> PNone | Inr v \<Rightarrow> v),
          (KStr ''account_info'', case account_detection svc of Inl e \<Rightarrow> PNone | Inr v \<Rightarrow> v),
          (KStr ''os_info'', case os_detection env svc of Inl e \<Rightarrow> PNone | Inr v \<Rightarrow> v),
          (KStr ''motherboard_info'', case motherboard_detection svc of Inl e \<Rightarrow> PNone | Inr v \<Rightarrow> v),
          (KStr ''cpu_info'', case cpu_detection svc of Inl e \<Rightarrow> PNone | Inr v \<Rightarrow> v),
          (KStr ''ram_info'', case ram_detection svc of Inl e \<Rightarrow> PNone | Inr v \<Rightarrow> v),
          (KStr ''gpu_info'', case gpu_detection svc of Inl e \<Rightarrow> PNone | Inr v \<Rightarrow> v),
          (KStr ''storage_info'', case storage_detection svc of Inl e \<Rightarrow> PNone | Inr v \<Rightarrow> v),
          (KStr ''nic_info'', case nic_detection svc of Inl e \<Rightarrow> PNone | Inr v \<Rightarrow> v)]"
    using assms(1) unfolding loop_snapshot by simp
  from assms(2) consider "isl (host_detection svc)" | "isl (account_detection svc)"
    | "isl (os_detection env svc)" | "isl (motherboard_detection svc)" | "isl (cpu_detection svc)"
    | "isl (ram_detection svc)" | "isl (gpu_detection svc)" | "isl (storage_detection svc)"
    | "isl (nic_detection svc)"
    by (auto simp: detections_def)
  then show ?thesis
    unfolding si print_statements_nine raised_append_None
    by cases (auto simp: isl_def sections_raise_on_None)
qed

text \<open>
  C4, as the code has it. When the connection is made, a run keeps the log it found
  and appends one entry for each probe that raised, in the order of the probes,
  with the name of the probe, the lower-cased class of the exception and its
  message; no such entry is dropped or doubled. After them come at most two entries
  of the report stage, named \<^verbatim>\<open>print_info\<close> or \<^verbatim>\<open>generate_output\<close>; and as soon as one
  probe has raised there is at least one, by \<^verbatim>\<open>print_info\<close>, which raises on the
  \<open>None\<close> that the probe left in the snapshot.
\<close>

theorem error_log_of_run:
  assumes "wmi_WMI env = Inr wmi_service"
  shows "\<exists>probe_records later.
     error_log (snd (run_detection env w)) = error_log w @ probe_records @ later
     \<and> map (\<lambda>r. (ed_function r, ed_type r, ed_error r)) probe_records =
         concat (map (\<lambda>(key, name, f).
           case f wmi_service of
             Inl e \<Rightarrow> [(name, py_lower (exn_type e), exn_str e)]
           | Inr v \<Rightarrow> []) (detections env))
     \<and> set (map ed_function later) \<subseteq> {''print_info'', ''generate_output''}
     \<and> length later \<le> 2
     \<and> ((\<exists>d\<in>set (detections env). isl (snd (snd d) wmi_service)) \<longrightarrow>
          later \<noteq> [] \<and> ed_function (hd later) = ''print_info'')"
proof -
  obtain si where si: "fst (detection_loop env wmi_service (length (detections env))
            (enumerate 1 (detections env)) [] w) = Inr si"
    using loop_snapshot by blast
  from loop_log [where ds = "enumerate 1 (detections env)" and env = env and svc = wmi_service
        and tot = "length (detections env)" and si = "[]" and w = w, OF detections_ascii]
  obtain new where new: "error_log (snd (detection_loop env wmi_service (length (detections env))
            (enumerate 1 (detections env)) [] w)) = error_log w @ new"
    and pn: "map (\<lambda>r. (ed_function r, ed_type r, ed_error r)) new =
         concat (map (\<lambda>(key, name, f).
           case f wmi_service of
             Inl e \<Rightarrow> [(name, py_lower (exn_type e), exn_str e)]
           | Inr v \<Rightarrow> []) (detections env))"
    unfolding probe_records_of_detections by blast
  from run_log [OF assms si]
  obtain k later where l: "error_log (snd (run_detection env w)) =
       error_log (snd (detection_loop env wmi_service (length (detections env))
          (enumerate 1 (detections env)) [] w)) @ later"
    and fl: "map ed_function later =
         (if raised (on_handle env (sys_stdout w) (print_statements (PDict si))) = None then []
          else [''print_info''])
         @ (if (info_dir env \<in> dirs w \<or> makedirs_error env (info_dir env) = None)
               \<and> open_error env (output_file_path env (clock env k)) = None
            then (if raised (to_file env (print_statements (PDict si))) = None then []
                  else [''print_info''])
            else [''generate_output''])"
    by blast
  have names: "set (map ed_function later) \<subseteq> {''print_info'', ''generate_output''}"
    unfolding fl by auto
  have "length (map ed_function later) \<le> 2"
    unfolding fl by auto
  then have len: "length later \<le> 2" by simp
  have fails: "later \<noteq> [] \<and> ed_function (hd later) = ''print_info''"
    if "\<exists>d\<in>set (detections env). isl (snd (snd d) wmi_service)"
  proof -
    have "raised (print_statements (PDict si)) \<noteq> None"
      using si that by (rule failed_probe_report_raises)
    then have "raised (on_handle env (sys_stdout w) (print_statements (PDict si))) \<noteq> None"
      by (rule on_handle_raised)
    then have "\<exists>rest. map ed_function later = ''print_info'' # rest"
      unfolding fl by auto
    then show ?thesis by (cases later) auto
  qed
  have "error_log (snd (run_detection env w)) = error_log w @ new @ later"
    unfolding l new by simp
  with pn names len fails show ?thesis by blast
qed

theorem error_log_of_run_witness:
  "wmi_WMI cpu_fails = Inr (sample_service\<lparr>Win32_Processor := Inl division_error\<rparr>)
   \<and> (\<exists>probe_records later.
        error_log (snd (run_detection cpu_fails sample_world)) = probe_records @ later
        \<and> map (\<lambda>r. (ed_function r, ed_type r, ed_error r)) probe_records =
            [(''cpu_detection'', ''zerodivisionerror'', ''division by zero'')]
        \<and> later \<noteq> [] \<and> ed_function (hd later) = ''print_info'')"
proof -
  have c: "concat (map (\<lambda>(key, name, f).
           case f (sample_service\<lparr>Win32_Processor := Inl division_error\<rparr>) of
             Inl e \<Rightarrow> [(name, py_lower (exn_type e), exn_str e)]
           | Inr v \<Rightarrow> []) (detections cpu_fails)) =
           [(''cpu_detection'', ''zerodivisionerror'', ''division by zero'')]"
    by (simp add: detections_def other_probes_ignore_processors cpu_query_raises cpu_fails_os
          sample_host sample_account sample_os sample_motherboard sample_ram sample_gpu
          sample_storage sample_nic division_error_def py_lower_def lower_char_def
          uppercase_def lowercase_def)
  have f: "\<exists>d\<in>set (detections cpu_fails).
             isl (snd (snd d) (sample_service\<lparr>Win32_Processor := Inl division_error\<rparr>))"
    by (simp add: detections_def cpu_query_raises)
  from error_log_of_run [OF cpu_fails_fields(1), of sample_world]
  have "\<exists>probe_records later.
     error_log (snd (run_detection cpu_fails sample_world)) = probe_records @ later
     \<and> map (\<lambda>r. (ed_function r, ed_type r, ed_error r)) probe_records =
         [(''cpu_detection'', ''zerodivisionerror'', ''division by zero'')]
     \<and> set (map ed_function later) \<subseteq> {''print_info'', ''generate_output''}
     \<and> length later \<le> 2
     \<and> ((\<exists>d\<in>set (detections cpu_fails).
            isl (snd (snd d) (sample_service\<lparr>Win32_Processor := Inl division_error\<rparr>))) \<longrightarrow>
          later \<noteq> [] \<and> ed_function (hd later) = ''print_info'')"
    unfolding c sample_world_fields append_Nil .
  then obtain probe_records later
    where a: "error_log (snd (run_detection cpu_fails sample_world)) = probe_records @ later"
      and b: "map (\<lambda>r. (ed_function r, ed_type r, ed_error r)) probe_records =
            [(''cpu_detection'', ''zerodivisionerror'', ''division by zero'')]"
      and i: "(\<exists>d\<in>set (detections cpu_fails).
            isl (snd (snd d) (sample_service\<lparr>Win32_Processor := Inl division_error\<rparr>))) \<longrightarrow>
          later \<noteq> [] \<and> ed_function (hd later) = ''print_info''"
    by (elim exE conjE)
  from i f have n: "later \<noteq> [] \<and> ed_function (hd later) = ''print_info''"
    by (rule mp)
  have "error_log (snd (run_detection cpu_fails sample_world)) = probe_records @ later
        \<and> map (\<lambda>r. (ed_function r, ed_type r, ed_error r)) probe_records =
            [(''cpu_detection'', ''zerodivisionerror'', ''division by zero'')]
        \<and> later \<noteq> [] \<and> ed_function (hd later) = ''print_info''"
    using a b n by (intro conjI) simp_all
  then have "\<exists>probe_records later.
        error_log (snd (run_detection cpu_fails sample_world)) = probe_records @ later
        \<and> map (\<lambda>r. (ed_function r, ed_type r, ed_error r)) probe_records =
            [(''cpu_detection'', ''zerodivisionerror'', ''division by zero'')]
        \<and> later \<noteq> [] \<and> ed_function (hd later) = ''print_info''"
    by (intro exI)
  then show ?thesis
    using cpu_fails_fields(1) by (intro conjI)
qed

text \<open>
  C4 as the specification states it fails. On the sample host with the failing
  processor query one probe raises, and the run appends three entries to the log:
  one for the probe and two for \<^verbatim>\<open>print_info\<close>, which raises on the terminal and
  again in the file.
\<close>

theorem extra_log_entries_counterexample:
  "map ed_function (error_log (snd (run_detection cpu_fails sample_world))) =
     [''cpu_detection'', ''print_info'', ''print_info'']"
  by (rule cpu_fails_log)

section \<open>A run in which the processor probe raises\<close>

text \<open>
  C1, as the code has it. Take a run that makes its connection, starts with
  \<^verbatim>\<open>sys.stdout\<close> on the terminal, and in which \<^verbatim>\<open>cpu_detection\<close> raises while the
  other eight probes return. The snapshot holds the eight results under their keys
  and \<open>None\<close> under \<^verbatim>\<open>cpu_info\<close>. The report on the terminal stops where the processor
  section would begin: it has the host, the operating system, the accounts and the
  motherboards, and nothing of the memory, disks, video and network, because
  \<^verbatim>\<open>print_info\<close> raises on the \<open>None\<close>; after it comes at most the success message.
  The log gets three entries: one for \<^verbatim>\<open>cpu_detection\<close> with the lower-cased class
  and the message of its exception, one for \<^verbatim>\<open>print_info\<close>, and a third for
  \<^verbatim>\<open>print_info\<close> again or for \<^verbatim>\<open>generate_output\<close>.
\<close>

theorem cpu_failure_run:
  assumes wmi: "wmi_WMI env = Inr wmi_service"
    and con: "sys_stdout w = Console"
    and cpu: "cpu_detection wmi_service = Inl e"
    and host: "host_detection wmi_service = Inr h"
    and account: "account_detection wmi_service = Inr a"
    and os: "os_detection env wmi_service = Inr os"
    and motherboard: "motherboard_detection wmi_service = Inr m"
    and ram: "ram_detection wmi_service = Inr r"
    and gpu: "gpu_detection wmi_service = Inr g"
    and storage: "storage_detection wmi_service = Inr s"
    and nic: "nic_detection wmi_service = Inr n"
  shows "\<exists>rest new later.
     fst (detection_loop env wmi_service (length (detections env))
            (enumerate 1 (detections env)) [] w) =
       Inr [(KStr ''host_info'', h), (KStr ''account_info'', a), (KStr ''os_info'', os),
            (KStr ''motherboard_info'', m), (KStr ''cpu_info'', PNone), (KStr ''ram_info'', r),
            (KStr ''gpu_info'', g), (KStr ''storage_info'', s), (KStr ''nic_info'', n)]
     \<and> tty (snd (run_detection env w)) =
         tty (snd (detection_loop env wmi_service (length (detections env))
                (enumerate 1 (detections env)) [] w))
         @ [Shell (if os_name env = ''nt'' then ''cls'' else ''clear'')]
         @ map Out (printed (print_host h @ print_os os @ print_accounts a
                             @ print_motherboards m))
         @ rest
     \<and> (rest = [] \<or> (\<exists>path. rest = [Out (success_message path @ [CHR 0x0A])]))
     \<and> error_log (snd (run_detection env w)) = error_log w @ new @ later
     \<and> map (\<lambda>r. (ed_function r, ed_type r, ed_error r)) new =
         [(''cpu_detection'', py_lower (exn_type e), exn_str e)]
     \<and> (map ed_function later = [''print_info'', ''print_info'']
          \<or> map ed_function later = [''print_info'', ''generate_output''])"
proof -
  let ?si = "[(KStr ''host_info'', h), (KStr ''account_info'', a), (KStr ''os_info'', os),
            (KStr ''motherboard_info'', m), (KStr ''cpu_info'', PNone), (KStr ''ram_info'', r),
            (KStr ''gpu_info'', g), (KStr ''storage_info'', s), (KStr ''nic_info'', n)]"
  let ?loop = "detection_loop env wmi_service (length (detections env))
            (enumerate 1 (detections env)) [] w"
  let ?four = "print_host h @ print_os os @ print_accounts a @ print_motherboards m"
  have si: "fst ?loop = Inr ?si"
    unfolding loop_snapshot by (simp add: assms)
  have "print_statements (PDict ?si) =
          ?four @ Inl (Exn ''AttributeError''
              (str_repr ''NoneType'' @ '' object has no attribute '' @ str_repr ''items''))
            # (print_rams r @ print_storages s @ print_gpus g @ print_nics n)"
    by (simp only: print_statements_nine print_cpus_None append_assoc append.simps)
  then have p: "printed (print_statements (PDict ?si)) = printed ?four"
    and q: "raised (print_statements (PDict ?si)) \<noteq> None"
    by (simp_all only: printed_stop raised_stop split: option.splits) simp_all
  from run_tty_files [OF wmi con si]
  obtain rest where t: "tty (snd (run_detection env w)) =
         tty (snd ?loop) @ [Shell (if os_name env = ''nt'' then ''cls'' else ''clear'')]
         @ map Out (printed ?four) @ rest"
    and r: "rest = [] \<or> (\<exists>path. rest = [Out (success_message path @ [CHR 0x0A])])"
    unfolding p by (auto split: if_splits)
  from loop_log [where ds = "enumerate 1 (detections env)" and env = env and svc = wmi_service
        and tot = "length (detections env)" and si = "[]" and w = w, OF detections_ascii]
  obtain new where new: "error_log (snd ?loop) = error_log w @ new"
    and pn: "map (\<lambda>r. (ed_function r, ed_type r, ed_error r)) new =
         concat (map (\<lambda>(key, name, f).
           case f wmi_service of
             Inl e \<Rightarrow> [(name, py_lower (exn_type e), exn_str e)]
           | Inr v \<Rightarrow> []) (detections env))"
    unfolding probe_records_of_detections by blast
  have pn': "map (\<lambda>r. (ed_function r, ed_type r, ed_error r)) new =
         [(''cpu_detection'', py_lower (exn_type e), exn_str e)]"
    unfolding pn by (simp add: detections_def assms)
  have q': "raised (on_handle env (sys_stdout w) (print_statements (PDict ?si))) \<noteq> None"
    "raised (to_file env (print_statements (PDict ?si))) \<noteq> None"
    using q by (rule on_handle_raised, rule to_file_raised)
  from run_log [OF wmi si]
  obtain later where l: "error_log (snd (run_detection env w)) = error_log (snd ?loop) @ later"
    and fl: "map ed_function later = [''print_info'', ''print_info'']
          \<or> map ed_function later = [''print_info'', ''generate_output'']"
    using q' by (auto split: if_splits simp del: on_handle_simps)
  have "error_log (snd (run_detection env w)) = error_log w @ new @ later"
    unfolding l new by simp
  with si t r pn' fl show ?thesis
    by (intro exI [of _ rest] exI [of _ new] exI [of _ later] conjI)
qed

theorem cpu_failure_run_witness:
  "wmi_WMI cpu_fails = Inr (sample_service\<lparr>Win32_Processor := Inl division_error\<rparr>)
   \<and> sys_stdout sample_world = Console
   \<and> cpu_detection (sample_service\<lparr>Win32_Processor := Inl division_error\<rparr>) = Inl division_error
   \<and> ram_detection (sample_service\<lparr>Win32_Processor := Inl division_error\<rparr>) =
       Inr (PDict [(KInt 1, PDict [(KStr ''capacity'', PFloat (Fin 16)),
                                  (KStr ''manufacturer'', PStr ''ACME''), (KStr ''speed'', PInt 3200)])])
   \<and> (\<exists>rest new later.
        drop 27 (tty (snd (run_detection cpu_fails sample_world))) =
          Shell ''cls'' # map Out report_head @ rest
        \<and> (rest = [] \<or> (\<exists>path. rest = [Out (success_message path @ [CHR 0x0A])]))
        \<and> error_log (snd (run_detection cpu_fails sample_world)) = new @ later
        \<and> map (\<lambda>r. (ed_function r, ed_type r, ed_error r)) new =
            [(''cpu_detection'', ''zerodivisionerror'', ''division by zero'')]
        \<and> (map ed_function later = [''print_info'', ''print_info'']
             \<or> map ed_function later = [''print_info'', ''generate_output'']))"
proof -
  let ?svc = "sample_service\<lparr>Win32_Processor := Inl division_error\<rparr>"
  have probes: "cpu_detection ?svc = Inl division_error"
    "host_detection ?svc =
       Inr (PDict [(KStr ''hostname'', PStr ''PC01''), (KStr ''username'', PStr ''PC01/ann''),
                  (KStr ''domain'', PStr ''WORKGROUP'')])"
    "account_detection ?svc =
       Inr (PDict [(KInt 1, PDict [(KStr ''username'', PStr ''ann''), (KStr ''domain'', PStr ''PC01''),
                                 (KStr ''sid'', PStr ''S-1-5-21-1001''),
                                 (KStr ''disabled'', PStr ''No'')])])"
    "os_detection cpu_fails ?svc =
       Inr (PDict [(KStr ''install_date'', PStr ''20230101 (379 days ago)''),
                  (KStr ''name'', PStr ''Windows''), (KStr ''architecture'', PStr ''64bit''),
                  (KStr ''version'', PStr ''10''), (KStr ''version_info'', PStr ''10.0.19045'')])"
    "motherboard_detection ?svc =
       Inr (PDict [(KInt 1, PDict [(KStr ''manufacturer'', PStr ''ACME''), (KStr ''model'', PStr ''B450''),
                                 (KStr ''serial_number'', PStr ''N/A'')])])"
    "ram_detection ?svc =
       Inr (PDict [(KInt 1, PDict [(KStr ''capacity'', PFloat (Fin 16)),
                                 (KStr ''manufacturer'', PStr ''ACME''), (KStr ''speed'', PInt 3200)])])"
    "gpu_detection ?svc = Inr (PDict [(KInt 1, PDict [(KStr ''name'', PStr ''GPU Y'')])])"
    "storage_detection ?svc =
       Inr (PDict [(KInt 1, PDict [(KStr ''name'', PStr ''ACME SSD 1''),
                                 (KStr ''size'', PFloat (Fin (3 / 2))),
                                 (KStr ''type'', PStr ''SSD''),
                                 (KStr ''partitions'',
                                  PList [PDict [(KStr ''name'', PNone),
                                                (KStr ''total_size'', PFloat (Fin 1)),
                                                (KStr ''free_size'', PStr ''N/A'')]])])])"
    "nic_detection ?svc =
       Inr (PDict [(KInt 1, PDict [(KStr ''description'', PStr ''Ethernet''),
                                 (KStr ''ip_address'', PStr ''10.0.0.2''),
                                 (KStr ''subnet_mask'', PStr ''255.255.255.0''),
                                 (KStr ''default_gateway'', PStr ''N/A''),
                                 (KStr ''dns_servers'', PTuple [PStr ''10.0.0.1'', PStr ''1.1.1.1'']),
                                 (KStr ''dhcp_enabled'', PNone)])])"
    by (simp_all only: other_probes_ignore_processors cpu_query_raises cpu_fails_os
          sample_host sample_account sample_os sample_motherboard sample_ram
          sample_gpu sample_storage sample_nic)
  have len: "length (tty (snd (detection_loop cpu_fails ?svc (length (detections cpu_fails))
                (enumerate 1 (detections cpu_fails)) [] sample_world))) = 27"
    unfolding loop_tty_length [OF sample_world_fields(1)] by (simp add: sample_world_fields)
  have four: "printed (print_host (PDict [(KStr ''hostname'', PStr ''PC01''),
                  (KStr ''username'', PStr ''PC01/ann''), (KStr ''domain'', PStr ''WORKGROUP'')])
       @ print_os (PDict [(KStr ''install_date'', PStr ''20230101 (379 days ago)''),
                  (KStr ''name'', PStr ''Windows''), (KStr ''architecture'', PStr ''64bit''),
                  (KStr ''version'', PStr ''10''), (KStr ''version_info'', PStr ''10.0.19045'')])
       @ print_accounts (PDict [(KInt 1, PDict [(KStr ''username'', PStr ''ann''),
                  (KStr ''domain'', PStr ''PC01''), (KStr ''sid'', PStr ''S-1-5-21-1001''),
                  (KStr ''disabled'', PStr ''No'')])])
       @ print_motherboards (PDict [(KInt 1, PDict [(KStr ''manufacturer'', PStr ''ACME''),
                  (KStr ''model'', PStr ''B450''), (KStr ''serial_number'', PStr ''N/A'')])]))
     = report_head"
    using printed_Inr [of report_head "[]"]
    by (simp only: sample_print_host sample_print_os sample_print_accounts
          sample_print_motherboards report_head_def map_append [symmetric] append.simps
          append_Nil2 printed.simps)
  from cpu_failure_run [OF cpu_fails_fields(1) sample_world_fields(1) probes]
  obtain rest new later where
    t: "tty (snd (run_detection cpu_fails sample_world)) =
         tty (snd (detection_loop cpu_fails ?svc (length (detections cpu_fails))
                (enumerate 1 (detections cpu_fails)) [] sample_world))
         @ [Shell (if os_name cpu_fails = ''nt'' then ''cls'' else ''clear'')]
         @ map Out report_head @ rest"
    and r: "rest = [] \<or> (\<exists>path. rest = [Out (success_message path @ [CHR 0x0A])])"
    and l: "error_log (snd (run_detection cpu_fails sample_world)) =
              error_log sample_world @ new @ later"
    and n: "map (\<lambda>r. (ed_function r, ed_type r, ed_error r)) new =
         [(''cpu_detection'', py_lower (exn_type division_error), exn_str division_error)]"
    and f: "map ed_function later = [''print_info'', ''print_info'']
          \<or> map ed_function later = [''print_info'', ''generate_output'']"
    unfolding four by (elim exE conjE)
  have t': "drop 27 (tty (snd (run_detection cpu_fails sample_world))) =
          Shell ''cls'' # map Out report_head @ rest"
    unfolding t using len by (simp add: cpu_fails_fields)
  have l': "error_log (snd (run_detection cpu_fails sample_world)) = new @ later"
    unfolding l by (simp add: sample_world_fields)
  have n': "map (\<lambda>r. (ed_function r, ed_type r, ed_error r)) new =
            [(''cpu_detection'', ''zerodivisionerror'', ''division by zero'')]"
    unfolding n by (simp add: division_error_def py_lower_def lower_char_def
          uppercase_def lowercase_def)
  have "\<exists>rest new later.
        drop 27 (tty (snd (run_detection cpu_fails sample_world))) =
          Shell ''cls'' # map Out report_head @ rest
        \<and> (rest = [] \<or> (\<exists>path. rest = [Out (success_message path @ [CHR 0x0A])]))
        \<and> error_log (snd (run_detection cpu_fails sample_world)) = new @ later
        \<and> map (\<lambda>r. (ed_function r, ed_type r, ed_error r)) new =
            [(''cpu_detection'', ''zerodivisionerror'', ''division by zero'')]
        \<and> (map ed_function later = [''print_info'', ''print_info'']
             \<or> map ed_function later = [''print_info'', ''generate_output''])"
    using t' r l' n' f by (intro exI [of _ rest] exI [of _ new] exI [of _ later] conjI)
  then show ?thesis
    using cpu_fails_fields(1) sample_world_fields(1) probes(1,6) by (intro conjI)
qed

text \<open>
  C1 as the specification states it fails. On the sample host with the failing
  processor query the memory probe returns its result, and yet the report on the
  terminal ends with the motherboard: after the 27 progress lines and the command
  that clears the terminal come the host, the operating system, the account and
  the motherboard, and then the success message, with no section for the
  processor, the memory, the disk, the video adapter or the network adapter. The
  log has three entries, not one.
\<close>

theorem cpu_failure_report_counterexample:
  "ram_detection (sample_service\<lparr>Win32_Processor := Inl division_error\<rparr>) =
       Inr (PDict [(KInt 1, PDict [(KStr ''capacity'', PFloat (Fin 16)),
                                  (KStr ''manufacturer'', PStr ''ACME''), (KStr ''speed'', PInt 3200)])])
   \<and> drop 27 (tty (snd (run_detection cpu_fails sample_world))) =
       Shell ''cls'' # map Out report_head @ [Out (success_message report_path @ [CHR 0x0A])]
   \<and> length (error_log (snd (run_detection cpu_fails sample_world))) = 3"
proof -
  let ?svc = "sample_service\<lparr>Win32_Processor := Inl division_error\<rparr>"
  obtain si where si: "fst (detection_loop cpu_fails ?svc
          (length (detections cpu_fails)) (enumerate 1 (detections cpu_fails)) [] sample_world) = Inr si"
    using cpu_fails_snapshot by blast
  have len: "length (tty (snd (detection_loop cpu_fails ?svc (length (detections cpu_fails))
                (enumerate 1 (detections cpu_fails)) [] sample_world))) = 27"
    unfolding loop_tty_length [OF sample_world_fields(1)] by (simp add: sample_world_fields)
  from run_tty_files [OF cpu_fails_fields(1) sample_world_fields(1) si]
  have "tty (snd (run_detection cpu_fails sample_world)) =
       tty (snd (detection_loop cpu_fails ?svc (length (detections cpu_fails))
          (enumerate 1 (detections cpu_fails)) [] sample_world))
       @ [Shell ''cls''] @ map Out report_head
       @ [Out (success_message report_path @ [CHR 0x0A])]"
    by (auto simp: cpu_fails_fields sample_path cpu_fails_report [OF si] report_path_def)
  then have t: "drop 27 (tty (snd (run_detection cpu_fails sample_world))) =
       Shell ''cls'' # map Out report_head @ [Out (success_message report_path @ [CHR 0x0A])]"
    using len by simp
  have "length (map ed_function (error_log (snd (run_detection cpu_fails sample_world)))) = 3"
    unfolding cpu_fails_log by simp
  then have l: "length (error_log (snd (run_detection cpu_fails sample_world))) = 3"
    by simp
  have r: "ram_detection ?svc =
       Inr (PDict [(KInt 1, PDict [(KStr ''capacity'', PFloat (Fin 16)),
                                  (KStr ''manufacturer'', PStr ''ACME''), (KStr ''speed'', PInt 3200)])])"
    by (simp only: other_probes_ignore_processors sample_ram)
  from r t l show ?thesis by (intro conjI)
qed

end
